theory Spec2Isabelle
  imports Complex_Main
begin

section \<open>Birbank connector: values, records and the world\<close>

text \<open>
  The connector of \<^verbatim>\<open>models/account_online_link.py\<close> is embedded function by function:
  \<^verbatim>\<open>_custom_create_lines\<close>, \<^verbatim>\<open>_compute_linked_journal\<close>, \<^verbatim>\<open>_get_birbank_token\<close>,
  \<^verbatim>\<open>_parse_error\<close>, \<^verbatim>\<open>_fetch_odoo_fin_accounts\<close>, \<^verbatim>\<open>_fetch_odoo_fin_transactions\<close>,
  \<^verbatim>\<open>_retrieve_transactions\<close>, \<^verbatim>\<open>action_fetch_transactions\<close> and
  \<^verbatim>\<open>action_initialize_connection\<close> (a leading underscore is dropped from the names).
  \<^item> A function that may raise returns \<open>error + 'a\<close>; one that reads or writes records,
    sends a request or logs takes the world and returns the new one. What was written
    before an exception stays written.
  \<^item> The field \<^verbatim>\<open>provider\<close> is a selection with the single value \<^verbatim>\<open>birbank\<close>, so the
    branches that hand over to the inherited methods are left out.
  \<^item> Of the log, the entries of level warning and above are kept; the text of a traceback
    is not.
  \<^item> The host (records, searches, writes) and the \<^verbatim>\<open>requests\<close> library are not part of the
    source: tables are lists of rows searched in order, a write cannot fail, and the
    provider's answers are given with the world.

  Python values that come out of the provider's JSON or are put into transaction
  dictionaries are \<open>pyval\<close>s. \<open>PNone\<close> stands for both \<^verbatim>\<open>None\<close> and the \<^verbatim>\<open>False\<close> that an
  unset column reads as (both are falsy and both mean "no value"); JSON booleans are not
  represented. Numbers are rationals, dates are day numbers, datetimes are seconds.
\<close>

datatype pyval =
    PNone
  | PStr string
  | PNum rat
  | PDate int
  | PList "pyval list"
  | PDict "(string \<times> pyval) list"

text \<open>Python truthiness, as \<^verbatim>\<open>if v\<close> and \<^verbatim>\<open>not v\<close> test it.\<close>

fun truthy :: "pyval \<Rightarrow> bool" where
  "truthy PNone = False"
| "truthy (PStr s) = (s \<noteq> [])"
| "truthy (PNum n) = (n \<noteq> 0)"
| "truthy (PDate d) = True"
| "truthy (PList xs) = (xs \<noteq> [])"
| "truthy (PDict kvs) = (kvs \<noteq> [])"

text \<open>Lists and dictionaries cannot be members of a \<^verbatim>\<open>set\<close> or keys of a \<^verbatim>\<open>dict\<close>.\<close>

fun hashable :: "pyval \<Rightarrow> bool" where
  "hashable (PList xs) = False"
| "hashable (PDict kvs) = False"
| "hashable v = True"

datatype exc_class = KeyError | AttributeError | TypeError | ValueError | IndexError | MissingError

text \<open>
  Exceptions. \<open>HTTPError\<close> is the \<^verbatim>\<open>requests\<close> exception that carries a response (status code
  and body text); \<open>RequestError\<close> is a \<^verbatim>\<open>requests\<close> exception without one; \<open>PyError\<close> is any
  other exception, with its class and \<^verbatim>\<open>str(e)\<close>.
\<close>

datatype error =
    UserError string
  | HTTPError nat string
  | RequestError string
  | PyError exc_class string

type_synonym pydict = "string \<rightharpoonup> pyval"

definition dict_get :: "pydict \<Rightarrow> string \<Rightarrow> pyval" where
  \<comment> \<open>\<^verbatim>\<open>d.get(k)\<close>\<close>
  "dict_get d k = (case d k of None \<Rightarrow> PNone | Some v \<Rightarrow> v)"

definition dict_item :: "pydict \<Rightarrow> string \<Rightarrow> error + pyval" where
  \<comment> \<open>\<^verbatim>\<open>d[k]\<close>\<close>
  "dict_item d k =
     (case d k of None \<Rightarrow> Inl (PyError KeyError ([CHR 0x27] @ k @ [CHR 0x27])) | Some v \<Rightarrow> Inr v)"

subsection \<open>Tables of the host\<close>

text \<open>
  The host's tables are lists of rows. A column holds the value that was written to it:
  the host's own coercions are not modelled.
\<close>

record statement_line =
  sl_date :: pyval
  sl_amount :: pyval
  sl_payment_ref :: pyval
  sl_online_transaction_identifier :: pyval
  sl_journal_id :: nat
  sl_partner_name :: pyval

record journal =
  j_id :: nat
  j_type :: string
  j_acc_number :: pyval
  j_account_online_account_id :: "nat option"

record online_account =
  a_id :: nat
  a_name :: pyval
  balance :: pyval
  online_identifier :: pyval
  account_number :: pyval
  currency_code :: pyval
  account_online_link_id :: nat
  journal_id :: "nat option"

datatype conn_state = Draft | Disconnected | Connected | Error

datatype birbank_env = Test | Live

record link =
  l_id :: nat
  birbank_env :: birbank_env
  birbank_username :: pyval
  birbank_password :: pyval
  birbank_initial_sync_date :: "int option"
  state :: conn_state
  last_success_date :: "int option"
  last_error_message :: "string option"
  birbank_jwt_token :: pyval
  birbank_token_expiry :: "int option"

text \<open>
  The network: \<open>net_in\<close> holds the responses the provider will give, in the order of the
  requests; \<open>net_out\<close> records every request sent.
\<close>

datatype http_response =
    NoResponse string
  | Response nat string "string + pyval"

datatype request =
    PostLogin string pyval pyval
  | GetAccounts string pyval
  | GetStatement string pyval pyval string string

datatype log_entry = LogError string | LogWarning string | LogTraceback

record world =
  link :: link
  accounts :: "online_account list"
  journals :: "journal list"
  statement_lines :: "statement_line list"
  net_in :: "http_response list"
  net_out :: "request list"
  logs :: "log_entry list"

text \<open>
  What the code takes from its surroundings: the clock, the Python library functions
  whose results are not computed here, and whether the host's account model has the
  optional \<^verbatim>\<open>journal_id\<close> field that the code probes with \<^verbatim>\<open>hasattr\<close>.
\<close>

record env =
  now :: int
  today :: int
  float_of_str :: "string \<Rightarrow> rat option"
  strptime_date :: "string \<Rightarrow> int option"
  strftime_dmy :: "int \<Rightarrow> string"
  str_other :: "pyval \<Rightarrow> string"
  has_journal_id :: bool

definition py_str :: "env \<Rightarrow> pyval \<Rightarrow> string" where
  \<comment> \<open>\<^verbatim>\<open>str(v)\<close>, also what an f-string or \<^verbatim>\<open>%s\<close> renders\<close>
  "py_str e v = (case v of PStr s \<Rightarrow> s | _ \<Rightarrow> str_other e v)"

definition safe_str :: "env \<Rightarrow> pyval \<Rightarrow> string" where
  "safe_str e v = (if truthy v then py_str e v else [])"

fun show_nat :: "nat \<Rightarrow> string" where
  "show_nat n =
     (if n < 10 then [char_of (48 + n)]
      else show_nat (n div 10) @ [char_of (48 + n mod 10)])"

declare show_nat.simps [simp del]

text \<open>
  \<^verbatim>\<open>str(e)\<close> of an exception; an exception object is always truthy, so this is also
  \<^verbatim>\<open>safe_str(e)\<close>. The text of an \<open>HTTPError\<close> is abridged: the code never renders it,
  \<^verbatim>\<open>_parse_error\<close> reports the status code instead.
\<close>

fun exc_str :: "error \<Rightarrow> string" where
  "exc_str (UserError m) = m"
| "exc_str (HTTPError st body) = show_nat st @ '' Error''"
| "exc_str (RequestError m) = m"
| "exc_str (PyError c m) = m"

section \<open>AccountOnlineAccount: journals and statement lines\<close>

definition search_journal_by_account :: "nat \<Rightarrow> journal list \<Rightarrow> journal option" where
  \<comment> \<open>\<^verbatim>\<open>search([('account_online_account_id', '=', id)], limit=1)\<close>\<close>
  "search_journal_by_account aid js = find (\<lambda>j. j_account_online_account_id j = Some aid) js"

definition search_bank_journal :: "pyval \<Rightarrow> journal list \<Rightarrow> journal option" where
  \<comment> \<open>\<^verbatim>\<open>search([('type', '=', 'bank'), ('bank_account_id.acc_number', '=', n)], limit=1)\<close>\<close>
  "search_bank_journal n js = find (\<lambda>j. j_type j = ''bank'' \<and> j_acc_number j = n) js"

definition write_journal_id :: "nat \<Rightarrow> nat \<Rightarrow> world \<Rightarrow> world" where
  "write_journal_id aid jid w =
     w\<lparr>accounts := map (\<lambda>x. if a_id x = aid then x\<lparr>journal_id := Some jid\<rparr> else x) (accounts w)\<rparr>"

text \<open>
  \<^verbatim>\<open>_compute_linked_journal\<close> for one record: the value of the computed field
  \<^verbatim>\<open>linked_journal_id\<close>, and the write to \<^verbatim>\<open>journal_id\<close> that the computation makes.
\<close>

definition compute_linked_journal :: "env \<Rightarrow> online_account \<Rightarrow> world \<Rightarrow> journal option \<times> world" where
  "compute_linked_journal e a w =
     (let j1 = search_journal_by_account (a_id a) (journals w);
          j2 = (if j1 = None \<and> truthy (account_number a)
                then search_bank_journal (account_number a) (journals w) else j1)
      in case j2 of
           None \<Rightarrow> (None, w)
         | Some j \<Rightarrow>
             if has_journal_id e \<and> journal_id a = None
             then (Some j, write_journal_id (a_id a) (j_id j) w)
             else (Some j, w))"

text \<open>Step 1 of \<^verbatim>\<open>_custom_create_lines\<close>: the journal the lines go to, by its id.\<close>

definition resolve_journal :: "env \<Rightarrow> online_account \<Rightarrow> world \<Rightarrow> (error + nat) \<times> world" where
  "resolve_journal e a w =
     (case compute_linked_journal e a w of
        (Some j, w1) \<Rightarrow> (Inr (j_id j), w1)
      | (None, w1) \<Rightarrow>
          (case (if has_journal_id e then journal_id a else None) of
             Some jid \<Rightarrow> (Inr jid, w1)
           | None \<Rightarrow>
               (case search_journal_by_account (a_id a) (journals w1) of
                  Some j \<Rightarrow> (Inr (j_id j), w1)
                | None \<Rightarrow>
                    (Inl (UserError (''No Journal linked to account '' @ py_str e (a_name a)
                                      @ ''. Cannot save transactions.'')), w1))))"

text \<open>Step 2: the identifiers of the batch, and those already in the journal.\<close>

definition incoming_ids :: "pydict list \<Rightarrow> pyval list" where
  "incoming_ids txs =
     map (\<lambda>t. dict_get t ''online_transaction_identifier'')
       (filter (\<lambda>t. truthy (dict_get t ''online_transaction_identifier'')) txs)"

definition search_lines :: "nat \<Rightarrow> pyval list \<Rightarrow> statement_line list \<Rightarrow> statement_line list" where
  \<comment> \<open>\<^verbatim>\<open>search([('journal_id', '=', j), ('online_transaction_identifier', 'in', ids)])\<close>\<close>
  "search_lines j ids ls =
     filter (\<lambda>l. sl_journal_id l = j \<and> sl_online_transaction_identifier l \<in> set ids) ls"

definition existing_ids :: "nat \<Rightarrow> pyval list \<Rightarrow> statement_line list \<Rightarrow> error + pyval list" where
  "existing_ids j ids ls =
     (if ids \<noteq> [] then
        (let found = map sl_online_transaction_identifier (search_lines j ids ls)
         in if list_all hashable found then Inr found
            else Inl (PyError TypeError ''unhashable type''))
      else Inr [])"

text \<open>The creation values of one transaction (\<^verbatim>\<open>vals\<close>); a missing key raises.\<close>

definition line_vals :: "nat \<Rightarrow> pydict \<Rightarrow> error + statement_line" where
  "line_vals j tx =
     (case dict_item tx ''date'' of Inl err \<Rightarrow> Inl err | Inr d \<Rightarrow>
      case dict_item tx ''amount'' of Inl err \<Rightarrow> Inl err | Inr am \<Rightarrow>
      case dict_item tx ''payment_ref'' of Inl err \<Rightarrow> Inl err | Inr pr \<Rightarrow>
        Inr \<lparr>sl_date = d, sl_amount = am, sl_payment_ref = pr,
             sl_online_transaction_identifier = dict_get tx ''online_transaction_identifier'',
             sl_journal_id = j,
             sl_partner_name =
               (if truthy (dict_get tx ''partner_name'')
                then dict_get tx ''partner_name'' else PNone)\<rparr>)"

text \<open>
  The loop that fills \<^verbatim>\<open>to_create\<close>. The membership test hashes \<^verbatim>\<open>ref_id\<close>, so a list or
  a dictionary there raises.
\<close>

fun to_create :: "nat \<Rightarrow> pyval list \<Rightarrow> pydict list \<Rightarrow> error + statement_line list" where
  "to_create j ex [] = Inr []"
| "to_create j ex (tx # txs) =
     (let ref_id = dict_get tx ''online_transaction_identifier'' in
      if truthy ref_id \<and> \<not> hashable ref_id then Inl (PyError TypeError ''unhashable type'')
      else if truthy ref_id \<and> ref_id \<in> set ex then to_create j ex txs
      else
        (case line_vals j tx of
           Inl err \<Rightarrow> Inl err
         | Inr vals \<Rightarrow>
             (case to_create j ex txs of
                Inl err \<Rightarrow> Inl err
              | Inr rest \<Rightarrow> Inr (vals # rest))))"

definition create_lines :: "statement_line list \<Rightarrow> world \<Rightarrow> world" where
  \<comment> \<open>\<^verbatim>\<open>StatementLine.create(to_create)\<close>\<close>
  "create_lines vs w = w\<lparr>statement_lines := statement_lines w @ vs\<rparr>"

definition custom_create_lines ::
  "env \<Rightarrow> online_account \<Rightarrow> pydict list \<Rightarrow> world \<Rightarrow> (error + statement_line list) \<times> world" where
  "custom_create_lines e a txs w =
     (case resolve_journal e a w of
        (Inl err, w1) \<Rightarrow> (Inl err, w1)
      | (Inr j, w1) \<Rightarrow>
          (case existing_ids j (incoming_ids txs) (statement_lines w1) of
             Inl err \<Rightarrow> (Inl err, w1)
           | Inr ex \<Rightarrow>
               (case to_create j ex txs of
                  Inl err \<Rightarrow> (Inl err, w1)
                | Inr vs \<Rightarrow> if vs \<noteq> [] then (Inr vs, create_lines vs w1) else (Inr [], w1))))"

text \<open>The identifiers a journal holds: those of its lines that carry one.\<close>

definition persisted_ids :: "nat \<Rightarrow> world \<Rightarrow> pyval set" where
  "persisted_ids j w =
     set (map sl_online_transaction_identifier
           (filter (\<lambda>l. sl_journal_id l = j \<and> truthy (sl_online_transaction_identifier l))
              (statement_lines w)))"

section \<open>AccountOnlineLink: token, requests and parsing\<close>

definition get_birbank_base_url :: "link \<Rightarrow> string" where
  "get_birbank_base_url l =
     (if birbank_env l = Live then ''https://my.birbank.business/api/b2b''
      else ''https://pre-my.birbank.business/api/b2b'')"

text \<open>Sending a request takes the next response; with none left the request fails without one.\<close>

definition http_send :: "request \<Rightarrow> world \<Rightarrow> http_response \<times> world" where
  "http_send rq w =
     (case net_in w of
        [] \<Rightarrow> (NoResponse ''no response'', w\<lparr>net_out := net_out w @ [rq]\<rparr>)
      | r # rs \<Rightarrow> (r, w\<lparr>net_in := rs, net_out := net_out w @ [rq]\<rparr>))"

definition response_json :: "http_response \<Rightarrow> error + pyval" where
  \<comment> \<open>\<^verbatim>\<open>resp.raise_for_status()\<close>, then \<^verbatim>\<open>resp.json()\<close>\<close>
  "response_json r =
     (case r of
        NoResponse m \<Rightarrow> Inl (RequestError m)
      | Response st body js \<Rightarrow>
          if 400 \<le> st \<and> st < 600 then Inl (HTTPError st body)
          else (case js of Inl m \<Rightarrow> Inl (RequestError m) | Inr v \<Rightarrow> Inr v))"

definition py_get :: "pyval \<Rightarrow> string \<Rightarrow> pyval \<Rightarrow> error + pyval" where
  \<comment> \<open>\<^verbatim>\<open>v.get(k, default)\<close>: only a dictionary has the method\<close>
  "py_get v k dflt =
     (case v of
        PDict kvs \<Rightarrow> Inr (case map_of kvs k of None \<Rightarrow> dflt | Some x \<Rightarrow> x)
      | _ \<Rightarrow> Inl (PyError AttributeError ''object has no attribute get''))"

definition py_iter :: "pyval \<Rightarrow> error + pyval list" where
  \<comment> \<open>the elements a \<^verbatim>\<open>for\<close> loop sees: a dictionary yields its keys, a string its characters\<close>
  "py_iter v =
     (case v of
        PList xs \<Rightarrow> Inr xs
      | PStr s \<Rightarrow> Inr (map (\<lambda>c. PStr [c]) s)
      | PDict kvs \<Rightarrow> Inr (map (\<lambda>kv. PStr (fst kv)) kvs)
      | _ \<Rightarrow> Inl (PyError TypeError ''object is not iterable''))"

definition py_float :: "env \<Rightarrow> pyval \<Rightarrow> error + rat" where
  "py_float e v =
     (case v of
        PNum n \<Rightarrow> Inr n
      | PStr s \<Rightarrow>
          (case float_of_str e s of
             Some n \<Rightarrow> Inr n
           | None \<Rightarrow> Inl (PyError ValueError ''could not convert string to float''))
      | _ \<Rightarrow> Inl (PyError TypeError ''float() argument must be a string or a real number''))"

text \<open>A list comprehension or loop whose body may raise: the first failure ends it.\<close>

fun map_result :: "('a \<Rightarrow> error + 'b) \<Rightarrow> 'a list \<Rightarrow> error + 'b list" where
  "map_result f [] = Inr []"
| "map_result f (x # xs) =
     (case f x of
        Inl err \<Rightarrow> Inl err
      | Inr y \<Rightarrow> (case map_result f xs of Inl err \<Rightarrow> Inl err | Inr ys \<Rightarrow> Inr (y # ys)))"

definition parse_error :: "error \<Rightarrow> world \<Rightarrow> string \<times> world" where
  "parse_error err w =
     (case err of
        HTTPError st body \<Rightarrow>
          (''Bank Error ('' @ show_nat st @ '')'',
           w\<lparr>logs := logs w @ [LogError (''Birbank API Error Status: '' @ show_nat st),
                                 LogError (''Birbank API Error Body: '' @ body)]\<rparr>)
      | _ \<Rightarrow> (exc_str err, w))"

text \<open>The body of the \<^verbatim>\<open>try\<close> of \<^verbatim>\<open>_get_birbank_token\<close>, up to the token it extracts.\<close>

definition login_token :: "http_response \<Rightarrow> error + pyval" where
  "login_token resp =
     (case response_json resp of Inl err \<Rightarrow> Inl err | Inr data \<Rightarrow>
      case py_get data ''responseData'' (PDict []) of Inl err \<Rightarrow> Inl err | Inr rd \<Rightarrow>
      case py_get rd ''jwttoken'' PNone of Inl err \<Rightarrow> Inl err | Inr token \<Rightarrow>
        if \<not> truthy token then Inl (UserError ''No token returned.'') else Inr token)"

text \<open>
  The test on the cached token: a token is there, an expiry is there, and the expiry is
  later than \<^verbatim>\<open>now + timedelta(minutes=5)\<close>.
\<close>

definition cached_token_valid :: "env \<Rightarrow> link \<Rightarrow> bool" where
  "cached_token_valid e l =
     (truthy (birbank_jwt_token l)
      \<and> (case birbank_token_expiry l of
            None \<Rightarrow> False
          | Some expiry \<Rightarrow> expiry > now e + 5 * 60))"

definition login_request :: "link \<Rightarrow> request" where
  "login_request l =
     PostLogin (get_birbank_base_url l @ ''/login'') (birbank_username l) (birbank_password l)"

definition get_birbank_token :: "env \<Rightarrow> bool \<Rightarrow> world \<Rightarrow> (error + pyval) \<times> world" where
  "get_birbank_token e force_refresh w =
     (if \<not> force_refresh \<and> cached_token_valid e (link w)
      then (Inr (birbank_jwt_token (link w)), w)
      else
        (case http_send (login_request (link w)) w of
           (resp, w1) \<Rightarrow>
             (case login_token resp of
                Inr token \<Rightarrow>
                  (Inr token,
                   w1\<lparr>link := (link w1)\<lparr>birbank_jwt_token := token,
                                          birbank_token_expiry := Some (now e + 50 * 60)\<rparr>\<rparr>)
              | Inl err \<Rightarrow>
                  (case parse_error err w1 of
                     (msg, w2) \<Rightarrow> (Inl (UserError (''Auth Error: '' @ msg)), w2)))))"

subsection \<open>Listing accounts\<close>

record acc_data =
  d_online_identifier :: pyval
  d_name :: string
  d_balance :: rat
  d_currency_code :: pyval

definition account_entry :: "env \<Rightarrow> pyval \<Rightarrow> error + acc_data" where
  "account_entry e acc =
     (case py_get acc ''ibanAcNo'' PNone of Inl err \<Rightarrow> Inl err | Inr iban \<Rightarrow>
      case py_get acc ''acDesc'' PNone of Inl err \<Rightarrow> Inl err | Inr desc \<Rightarrow>
      case py_get acc ''ccy'' PNone of Inl err \<Rightarrow> Inl err | Inr ccy \<Rightarrow>
      case py_get acc ''currAmt'' (PNum 0) of Inl err \<Rightarrow> Inl err | Inr amt \<Rightarrow>
      case py_float e amt of Inl err \<Rightarrow> Inl err | Inr bal \<Rightarrow>
        Inr \<lparr>d_online_identifier = iban,
             d_name = py_str e desc @ '' ('' @ py_str e iban @ '') - '' @ py_str e ccy,
             d_balance = bal,
             d_currency_code = ccy\<rparr>)"

definition accounts_of_response :: "env \<Rightarrow> http_response \<Rightarrow> error + acc_data list" where
  "accounts_of_response e resp =
     (case response_json resp of Inl err \<Rightarrow> Inl err | Inr data \<Rightarrow>
      case py_get data ''responseData'' (PDict []) of Inl err \<Rightarrow> Inl err | Inr rd \<Rightarrow>
      case py_get rd ''accountsList'' (PList []) of Inl err \<Rightarrow> Inl err | Inr al \<Rightarrow>
      case py_iter al of Inl err \<Rightarrow> Inl err | Inr accs \<Rightarrow> map_result (account_entry e) accs)"

definition fetch_odoo_fin_accounts :: "env \<Rightarrow> world \<Rightarrow> (error + acc_data list) \<times> world" where
  "fetch_odoo_fin_accounts e w =
     (case get_birbank_token e False w of
        (Inl err, w1) \<Rightarrow> (Inl err, w1)
      | (Inr token, w1) \<Rightarrow>
          (case http_send (GetAccounts (get_birbank_base_url (link w1) @ ''/accounts'') token) w1 of
             (resp, w2) \<Rightarrow>
               (case accounts_of_response e resp of
                  Inr r \<Rightarrow> (Inr r, w2)
                | Inl err \<Rightarrow>
                    (case parse_error err
                            (w2\<lparr>logs := logs w2 @ [LogError ''Failed to fetch Birbank accounts'',
                                                    LogTraceback]\<rparr>) of
                       (msg, w3) \<Rightarrow> (Inl (UserError (''Fetch Error: '' @ msg)), w3)))))"

subsection \<open>Listing transactions\<close>

text \<open>
  The account number asked for: the identifier, else the text between the first
  \<^verbatim>\<open>(\<close> of the name and the next \<^verbatim>\<open>(\<close> or \<^verbatim>\<open>)\<close>, else (no \<^verbatim>\<open>(\<close> in the name, or a name
  that is no string) the account number.
\<close>

definition acc_num_of :: "online_account \<Rightarrow> pyval" where
  "acc_num_of a =
     (if truthy (online_identifier a) then online_identifier a
      else
        (case a_name a of
           PStr s \<Rightarrow>
             if CHR ''('' \<in> set s
             then PStr (takeWhile (\<lambda>c. c \<noteq> CHR '')'')
                         (takeWhile (\<lambda>c. c \<noteq> CHR ''('')
                            (tl (dropWhile (\<lambda>c. c \<noteq> CHR ''('') s))))
             else account_number a
         | _ \<Rightarrow> account_number a))"

definition statement_entry :: "env \<Rightarrow> pyval \<Rightarrow> error + pydict" where
  "statement_entry e st =
     (case py_get st ''trnDt'' PNone of Inl err \<Rightarrow> Inl err | Inr raw_date \<Rightarrow>
      case py_get st ''trnRefNo'' PNone of Inl err \<Rightarrow> Inl err | Inr ref \<Rightarrow>
      case py_get st ''purpose'' PNone of Inl err \<Rightarrow> Inl err | Inr purpose \<Rightarrow>
      case py_get st ''lcyAmount'' (PNum 0) of Inl err \<Rightarrow> Inl err | Inr amt \<Rightarrow>
      case py_float e amt of Inl err \<Rightarrow> Inl err | Inr am \<Rightarrow>
      case py_get st ''contrAccount'' PNone of Inl err \<Rightarrow> Inl err | Inr partner \<Rightarrow>
        Inr [''online_transaction_identifier'' \<mapsto> ref,
             ''date'' \<mapsto>
               PDate (case raw_date of
                        PStr s \<Rightarrow> (case strptime_date e s of Some d \<Rightarrow> d | None \<Rightarrow> today e)
                      | _ \<Rightarrow> today e),
             ''payment_ref'' \<mapsto> (if truthy purpose then purpose else ref),
             ''amount'' \<mapsto> PNum am,
             ''partner_name'' \<mapsto> partner])"

definition statements_of_response :: "env \<Rightarrow> http_response \<Rightarrow> error + pydict list" where
  "statements_of_response e resp =
     (case response_json resp of Inl err \<Rightarrow> Inl err | Inr data \<Rightarrow>
      case py_get data ''responseData'' (PDict []) of Inl err \<Rightarrow> Inl err | Inr data_block \<Rightarrow>
      case py_get data_block ''operations'' (PDict []) of Inl err \<Rightarrow> Inl err | Inr ops \<Rightarrow>
      case py_get ops ''statementList'' (PList []) of Inl err \<Rightarrow> Inl err | Inr sl \<Rightarrow>
      case py_iter sl of Inl err \<Rightarrow> Inl err | Inr sts \<Rightarrow> map_result (statement_entry e) sts)"

text \<open>The \<^verbatim>\<open>try\<close> block of \<^verbatim>\<open>_fetch_odoo_fin_transactions\<close>.\<close>

definition fetch_transactions_try ::
  "env \<Rightarrow> online_account \<Rightarrow> int option \<Rightarrow> int option \<Rightarrow> world \<Rightarrow> (error + pydict list) \<times> world" where
  "fetch_transactions_try e a date_from date_to w =
     (case get_birbank_token e False w of
        (Inl err, w1) \<Rightarrow> (Inl err, w1)
      | (Inr token, w1) \<Rightarrow>
          (let effective_date_from =
                 (case date_from of Some d \<Rightarrow> Some d | None \<Rightarrow> birbank_initial_sync_date (link w1));
               effective_date_to = (case date_to of Some d \<Rightarrow> d | None \<Rightarrow> today e);
               acc_num = acc_num_of a
           in if \<not> truthy acc_num
              then (Inr [],
                    w1\<lparr>logs := logs w1 @ [LogWarning (''Birbank: Skipping account '' @ show_nat (a_id a)
                                            @ '' - No Account Number found.'')]\<rparr>)
              else
                (case effective_date_from of
                   None \<Rightarrow> (Inl (PyError AttributeError ''object has no attribute strftime''), w1)
                 | Some df \<Rightarrow>
                     (case http_send
                             (GetStatement (get_birbank_base_url (link w1) @ ''/v2/statement/account'')
                                token acc_num (strftime_dmy e df) (strftime_dmy e effective_date_to)) w1 of
                        (resp, w2) \<Rightarrow> (statements_of_response e resp, w2)))))"

definition fetch_odoo_fin_transactions ::
  "env \<Rightarrow> online_account \<Rightarrow> int option \<Rightarrow> int option \<Rightarrow> world \<Rightarrow> (error + pydict list) \<times> world" where
  "fetch_odoo_fin_transactions e a date_from date_to w =
     (case fetch_transactions_try e a date_from date_to w of
        (Inr transactions, w1) \<Rightarrow> (Inr transactions, w1)
      | (Inl err, w1) \<Rightarrow>
          (case parse_error err w1 of
             (error_msg, w2) \<Rightarrow>
               (Inr [],
                w2\<lparr>logs := logs w2 @ [LogError (''Birbank Sync Error for '' @ safe_str e (a_name a)
                                                  @ '': '' @ error_msg)]\<rparr>)))"

definition retrieve_transactions ::
  "env \<Rightarrow> online_account \<Rightarrow> int option \<Rightarrow> world \<Rightarrow> pydict list \<times> world" where
  "retrieve_transactions e a date_scraped w =
     (let date_from = (case date_scraped of Some d \<Rightarrow> Some d
                       | None \<Rightarrow> birbank_initial_sync_date (link w));
          date_to = today e
      in case fetch_odoo_fin_transactions e a date_from (Some date_to) w of
           (Inr txns, w1) \<Rightarrow> (txns, w1)
         | (Inl err, w1) \<Rightarrow>
             ([], w1\<lparr>logs := logs w1 @ [LogError (''[BIRBANK] Retrieval Failed for '' @ py_str e (a_name a)
                                                   @ '': '' @ exc_str err)]\<rparr>))"

section \<open>AccountOnlineLink: the two actions\<close>

text \<open>The client action an action returns: a notification for the user interface.\<close>

record notification =
  n_title :: string
  n_message :: string
  n_type :: string
  n_sticky :: "bool option"
  n_reload :: bool

text \<open>\<^verbatim>\<open>if target_account_id\<close>: neither \<^verbatim>\<open>None\<close> nor \<open>0\<close>.\<close>

definition target_given :: "nat option \<Rightarrow> bool" where
  "target_given t = (case t of None \<Rightarrow> False | Some n \<Rightarrow> n \<noteq> 0)"

definition own_accounts :: "world \<Rightarrow> online_account list" where
  \<comment> \<open>\<^verbatim>\<open>self.account_online_account_ids\<close>\<close>
  "own_accounts w = filter (\<lambda>a. account_online_link_id a = l_id (link w)) (accounts w)"

definition log_write_failed :: "error \<Rightarrow> world \<Rightarrow> world" where
  "log_write_failed inner_e w =
     w\<lparr>logs := logs w @ [LogError (''[BIRBANK] Database Write Failed: '' @ exc_str inner_e),
                           LogTraceback]\<rparr>"

text \<open>
  The loop over \<^verbatim>\<open>accounts_to_process\<close>, with the running \<^verbatim>\<open>total_new_lines\<close> as \<open>n_new\<close>. It ends early
  only by the \<^verbatim>\<open>UserError\<close> raised for a targeted account.
\<close>

fun fetch_loop ::
  "env \<Rightarrow> nat option \<Rightarrow> online_account list \<Rightarrow> nat \<Rightarrow> world \<Rightarrow> (error + nat) \<times> world" where
  "fetch_loop e target [] n_new w = (Inr n_new, w)"
| "fetch_loop e target (a # rest) n_new w =
     (case retrieve_transactions e a None w of
        (transactions, w1) \<Rightarrow>
          if transactions = [] then fetch_loop e target rest n_new w1
          else
            (case custom_create_lines e a transactions w1 of
               (Inr new_lines, w2) \<Rightarrow> fetch_loop e target rest (n_new + length new_lines) w2
             | (Inl inner_e, w2) \<Rightarrow>
                 if target_given target
                 then (Inl (UserError (''Database Write Error on '' @ py_str e (a_name a) @ '': ''
                                        @ exc_str inner_e)),
                       log_write_failed inner_e w2)
                 else fetch_loop e target rest n_new (log_write_failed inner_e w2)))"

text \<open>The \<^verbatim>\<open>except\<close> clause of \<^verbatim>\<open>action_fetch_transactions\<close>.\<close>

definition fetch_failed :: "error \<Rightarrow> world \<Rightarrow> (error + notification) \<times> world" where
  "fetch_failed err w =
     (let err_msg = exc_str err;
          w1 = w\<lparr>logs := logs w @ [LogError ''[BIRBANK] Manual Sync CRASH: '', LogTraceback],
                 link := (link w)\<lparr>last_error_message := Some err_msg, state := Error\<rparr>\<rparr>
      in case err of
           UserError m \<Rightarrow> (Inl err, w1)
         | _ \<Rightarrow>
             (Inr \<lparr>n_title = ''Sync Failed'', n_message = ''System Error: '' @ err_msg,
                   n_type = ''danger'', n_sticky = None, n_reload = False\<rparr>, w1))"

definition mark_connected :: "world \<Rightarrow> world" where
  "mark_connected w =
     (if state (link w) \<noteq> Connected then w\<lparr>link := (link w)\<lparr>state := Connected\<rparr>\<rparr> else w)"

definition accounts_to_process :: "nat option \<Rightarrow> world \<Rightarrow> online_account list" where
  "accounts_to_process target_account_id w =
     (if target_given target_account_id
      then filter (\<lambda>a. Some (a_id a) = target_account_id) (own_accounts w)
      else own_accounts w)"

definition sync_successful :: "nat \<Rightarrow> notification" where
  "sync_successful total_new_lines =
     \<lparr>n_title = ''Sync Successful'',
      n_message = ''Process Complete. Added '' @ show_nat total_new_lines @ '' new transactions.'',
      n_type = ''success'', n_sticky = Some False, n_reload = True\<rparr>"

definition mark_success :: "env \<Rightarrow> world \<Rightarrow> world" where
  "mark_success e w =
     w\<lparr>link := (link w)\<lparr>last_success_date := Some (now e), last_error_message := None,
                           state := Connected\<rparr>\<rparr>"

definition action_fetch_transactions ::
  "env \<Rightarrow> nat option \<Rightarrow> world \<Rightarrow> (error + notification) \<times> world" where
  "action_fetch_transactions e target_account_id w =
     (case fetch_loop e target_account_id
             (accounts_to_process target_account_id (mark_connected w)) 0 (mark_connected w) of
        (Inl err, w2) \<Rightarrow> fetch_failed err w2
      | (Inr total_new_lines, w2) \<Rightarrow>
          (Inr (sync_successful total_new_lines),
           if \<not> target_given target_account_id \<or> length (own_accounts w2) = 1
           then mark_success e w2 else w2))"

subsection \<open>Initialization\<close>

text \<open>
  \<^verbatim>\<open>existing_accounts\<close>: the dictionary from identifier to account, as the list of its
  items in insertion order; looking a key up finds the item inserted last.
\<close>

definition existing_accounts :: "world \<Rightarrow> error + (pyval \<times> nat) list" where
  "existing_accounts w =
     (let keyed = filter (\<lambda>a. truthy (online_identifier a)) (own_accounts w)
      in if list_all (\<lambda>a. hashable (online_identifier a)) keyed
         then Inr (map (\<lambda>a. (online_identifier a, a_id a)) keyed)
         else Inl (PyError TypeError ''unhashable type''))"

definition lookup_existing :: "(pyval \<times> nat) list \<Rightarrow> pyval \<Rightarrow> nat option" where
  "lookup_existing ex k = map_of (rev ex) k"

definition fresh_id :: "online_account list \<Rightarrow> nat" where
  "fresh_id xs = Suc (fold max (map a_id xs) 0)"

definition write_account :: "nat \<Rightarrow> nat \<Rightarrow> acc_data \<Rightarrow> world \<Rightarrow> world" where
  \<comment> \<open>\<^verbatim>\<open>online_acc.write(vals)\<close>\<close>
  "write_account lid aid d w =
     w\<lparr>accounts :=
         map (\<lambda>x. if a_id x = aid
                  then x\<lparr>a_name := PStr (d_name d), balance := PNum (d_balance d),
                         online_identifier := d_online_identifier d,
                         account_number := d_online_identifier d,
                         currency_code := d_currency_code d,
                         account_online_link_id := lid\<rparr>
                  else x) (accounts w)\<rparr>"

definition create_account :: "nat \<Rightarrow> acc_data \<Rightarrow> world \<Rightarrow> nat \<times> world" where
  \<comment> \<open>\<^verbatim>\<open>self.env['account.online.account'].create(vals)\<close>\<close>
  "create_account lid d w =
     (let aid = fresh_id (accounts w)
      in (aid,
          w\<lparr>accounts := accounts w @
               [\<lparr>a_id = aid, a_name = PStr (d_name d), balance = PNum (d_balance d),
                 online_identifier = d_online_identifier d,
                 account_number = d_online_identifier d,
                 currency_code = d_currency_code d,
                 account_online_link_id = lid, journal_id = None\<rparr>]\<rparr>))"

definition link_journal :: "nat \<Rightarrow> nat \<Rightarrow> world \<Rightarrow> world" where
  \<comment> \<open>\<^verbatim>\<open>journal.account_online_account_id = online_acc.id\<close>\<close>
  "link_journal jid aid w =
     w\<lparr>journals := map (\<lambda>j. if j_id j = jid then j\<lparr>j_account_online_account_id := Some aid\<rparr> else j)
                       (journals w)\<rparr>"

text \<open>The auto-link step for the account just written or created.\<close>

definition auto_link :: "env \<Rightarrow> nat \<Rightarrow> pyval \<Rightarrow> world \<Rightarrow> (error + unit) \<times> world" where
  "auto_link e aid identifier w =
     (case find (\<lambda>x. a_id x = aid) (accounts w) of
        None \<Rightarrow> (Inl (PyError MissingError ''Record does not exist or has been deleted.''), w)
      | Some online_acc \<Rightarrow>
          (case compute_linked_journal e online_acc w of
             (Some j, w1) \<Rightarrow> (Inr (), w1)
           | (None, w1) \<Rightarrow>
               (case search_bank_journal identifier (journals w1) of
                  None \<Rightarrow> (Inr (), w1)
                | Some j \<Rightarrow>
                    (Inr (),
                     if has_journal_id e
                     then write_journal_id aid (j_id j) (link_journal (j_id j) aid w1)
                     else link_journal (j_id j) aid w1))))"

text \<open>One round of the loop over \<^verbatim>\<open>accounts_list\<close>.\<close>

definition init_account ::
  "env \<Rightarrow> (pyval \<times> nat) list \<Rightarrow> acc_data \<Rightarrow> world \<Rightarrow> (error + unit) \<times> world" where
  "init_account e ex d w =
     (let identifier = d_online_identifier d in
      if \<not> truthy identifier then (Inr (), w)
      else if \<not> hashable identifier then (Inl (PyError TypeError ''unhashable type''), w)
      else
        (case lookup_existing ex identifier of
           Some aid \<Rightarrow> auto_link e aid identifier (write_account (l_id (link w)) aid d w)
         | None \<Rightarrow>
             (case create_account (l_id (link w)) d w of
                (aid, w1) \<Rightarrow> auto_link e aid identifier w1)))"

fun init_loop ::
  "env \<Rightarrow> (pyval \<times> nat) list \<Rightarrow> acc_data list \<Rightarrow> world \<Rightarrow> (error + unit) \<times> world" where
  "init_loop e ex [] w = (Inr (), w)"
| "init_loop e ex (d # ds) w =
     (case init_account e ex d w of
        (Inl err, w1) \<Rightarrow> (Inl err, w1)
      | (Inr u, w1) \<Rightarrow> init_loop e ex ds w1)"

text \<open>The \<^verbatim>\<open>except\<close> clause of \<^verbatim>\<open>action_initialize_connection\<close>.\<close>

definition init_failed :: "error \<Rightarrow> world \<Rightarrow> (error + notification) \<times> world" where
  "init_failed err w =
     (let err_msg = exc_str err
      in (Inl (UserError (''Connection Failed: '' @ err_msg)),
          w\<lparr>logs := logs w @ [LogError ''[BIRBANK] Init Failed: '', LogTraceback],
            link := (link w)\<lparr>last_error_message := Some err_msg\<rparr>\<rparr>))"

definition action_initialize_connection :: "env \<Rightarrow> world \<Rightarrow> (error + notification) \<times> world" where
  "action_initialize_connection e w =
     (case get_birbank_token e True w of
        (Inl err, w1) \<Rightarrow> init_failed err w1
      | (Inr token, w1) \<Rightarrow>
          (case fetch_odoo_fin_accounts e w1 of
             (Inl err, w2) \<Rightarrow> init_failed err w2
           | (Inr accounts_list, w2) \<Rightarrow>
               (case existing_accounts w2 of
                  Inl err \<Rightarrow> init_failed err w2
                | Inr ex \<Rightarrow>
                    (case init_loop e ex accounts_list w2 of
                       (Inl err, w3) \<Rightarrow> init_failed err w3
                     | (Inr u, w3) \<Rightarrow>
                         (Inr \<lparr>n_title = ''Connection Successful'',
                               n_message = ''Accounts fetched and linked.'',
                               n_type = ''success'', n_sticky = Some False, n_reload = False\<rparr>,
                          mark_success e w3)))))"

definition action_reset_connection :: "world \<Rightarrow> world" where
  "action_reset_connection w = w\<lparr>link := (link w)\<lparr>state := Disconnected\<rparr>\<rparr>"

section \<open>Predicates and sample data for the theorems\<close>

text \<open>
  Two readings of one account record, before and after a run that resolved journal \<open>j\<close>:
  the run may have filled \<^verbatim>\<open>journal_id\<close> with \<open>j\<close>, and changes nothing else that the
  resolution of the journal reads.
\<close>

definition same_account :: "online_account \<Rightarrow> nat \<Rightarrow> online_account \<Rightarrow> bool" where
  "same_account a j a' =
     (a_id a' = a_id a \<and> account_number a' = account_number a
      \<and> (journal_id a' = journal_id a \<or> journal_id a' = Some j))"

text \<open>
  A sample connection with three accounts: the first and the third have a journal, the
  second has none; the first journal already holds the line \<^verbatim>\<open>T1\<close>. The provider has
  three statement responses ready.
\<close>

definition ex_env :: env where
  "ex_env = \<lparr>now = 1000000, today = 20000,
             float_of_str = (\<lambda>s. None), strptime_date = (\<lambda>s. None),
             strftime_dmy = (\<lambda>d. ''01-01-2026''), str_other = (\<lambda>v. ''None''),
             has_journal_id = False\<rparr>"

definition ex_link :: link where
  "ex_link = \<lparr>l_id = 7, birbank_env = Live, birbank_username = PStr ''u'',
              birbank_password = PStr ''p'', birbank_initial_sync_date = Some 19900,
              state = Connected, last_success_date = None, last_error_message = None,
              birbank_jwt_token = PStr ''tok'', birbank_token_expiry = Some 1003000\<rparr>"

definition ex_account :: "nat \<Rightarrow> string \<Rightarrow> online_account" where
  "ex_account i iban =
     \<lparr>a_id = i, a_name = PStr ''Main'', balance = PNum 0, online_identifier = PStr iban,
      account_number = PNone, currency_code = PStr ''AZN'', account_online_link_id = 7,
      journal_id = None\<rparr>"

definition ex_journal :: "nat \<Rightarrow> nat \<Rightarrow> journal" where
  "ex_journal j i = \<lparr>j_id = j, j_type = ''bank'', j_acc_number = PNone,
                     j_account_online_account_id = Some i\<rparr>"

definition ex_line :: "nat \<Rightarrow> pyval \<Rightarrow> statement_line" where
  "ex_line j r = \<lparr>sl_date = PDate 20000, sl_amount = PNum 5, sl_payment_ref = PStr ''rent'',
                  sl_online_transaction_identifier = r, sl_journal_id = j,
                  sl_partner_name = PNone\<rparr>"

definition ex_tx :: "pyval \<Rightarrow> pydict" where
  "ex_tx r = [''online_transaction_identifier'' \<mapsto> r, ''date'' \<mapsto> PDate 20000,
              ''payment_ref'' \<mapsto> PStr ''rent'', ''amount'' \<mapsto> PNum 5,
              ''partner_name'' \<mapsto> PNone]"

definition ex_statement :: "pyval list \<Rightarrow> http_response" where
  "ex_statement refs =
     Response 200 []
       (Inr (PDict [(''responseData'',
          PDict [(''operations'',
            PDict [(''statementList'',
              PList (map (\<lambda>r. PDict [(''trnRefNo'', r), (''purpose'', PStr ''rent''),
                                       (''lcyAmount'', PNum 5)]) refs))])])]))"

definition ex_world :: world where
  "ex_world = \<lparr>link = ex_link,
               accounts = [ex_account 11 ''AZ01'', ex_account 12 ''AZ02'', ex_account 13 ''AZ03''],
               journals = [ex_journal 10 11, ex_journal 30 13],
               statement_lines = [ex_line 10 (PStr ''T1'')],
               net_in = [ex_statement [PStr ''T1'', PStr ''T2''], ex_statement [PStr ''T3''],
                         ex_statement [PNone]],
               net_out = [], logs = []\<rparr>"

definition ex_batch :: "pydict list" where
  "ex_batch = [ex_tx (PStr ''T1''), ex_tx (PStr ''T2''), ex_tx PNone, ex_tx (PStr ''T2'')]"

definition ex_world_after :: world where
  "ex_world_after =
     ex_world\<lparr>statement_lines := [ex_line 10 (PStr ''T1''), ex_line 10 (PStr ''T2''),
                                    ex_line 10 PNone, ex_line 10 (PStr ''T2'')]\<rparr>"

text \<open>
  The worlds that the untargeted synchronisation of the sample passes through, a connection
  that was never connected (with the provider answering, and with the provider silent), a
  token about to expire, and a provider that answers with a server error.
\<close>

definition ex_request :: "string \<Rightarrow> request" where
  "ex_request iban =
     GetStatement ''https://my.birbank.business/api/b2b/v2/statement/account''
       (PStr ''tok'') (PStr iban) ''01-01-2026'' ''01-01-2026''"

definition ex_no_journal :: error where
  "ex_no_journal = UserError ''No Journal linked to account Main. Cannot save transactions.''"

definition ex_world_synced :: world where
  "ex_world_synced =
     \<lparr>link = ex_link\<lparr>last_success_date := Some 1000000\<rparr>,
      accounts = [ex_account 11 ''AZ01'', ex_account 12 ''AZ02'', ex_account 13 ''AZ03''],
      journals = [ex_journal 10 11, ex_journal 30 13],
      statement_lines = [ex_line 10 (PStr ''T1''), ex_line 10 (PStr ''T2''), ex_line 30 PNone],
      net_in = [],
      net_out = [ex_request ''AZ01'', ex_request ''AZ02'', ex_request ''AZ03''],
      logs = [LogError (''[BIRBANK] Database Write Failed: '' @ exc_str ex_no_journal),
              LogTraceback]\<rparr>"

definition ex_w1 :: world where
  "ex_w1 = ex_world\<lparr>net_in := [ex_statement [PStr ''T3''], ex_statement [PNone]],
                     net_out := [ex_request ''AZ01'']\<rparr>"

definition ex_w1' :: world where
  "ex_w1' = ex_w1\<lparr>statement_lines := [ex_line 10 (PStr ''T1''), ex_line 10 (PStr ''T2'')]\<rparr>"

definition ex_w2 :: world where
  "ex_w2 = ex_w1'\<lparr>net_in := [ex_statement [PNone]],
                   net_out := [ex_request ''AZ01'', ex_request ''AZ02'']\<rparr>"

definition ex_w3 :: world where
  "ex_w3 = (log_write_failed ex_no_journal ex_w2)
             \<lparr>net_in := [], net_out := [ex_request ''AZ01'', ex_request ''AZ02'', ex_request ''AZ03'']\<rparr>"

definition ex_w3' :: world where
  "ex_w3' = ex_w3\<lparr>statement_lines :=
              [ex_line 10 (PStr ''T1''), ex_line 10 (PStr ''T2''), ex_line 30 PNone]\<rparr>"

definition ex_expiring :: world where
  "ex_expiring = ex_world\<lparr>link := ex_link\<lparr>birbank_token_expiry := Some 1000299\<rparr>\<rparr>"

definition ex_login_ok :: http_response where
  "ex_login_ok = Response 200 [] (Inr (PDict [(''responseData'', PDict [(''jwttoken'', PStr ''abc'')])]))"

definition ex_draft_link :: link where
  "ex_draft_link = ex_link\<lparr>state := Draft, birbank_jwt_token := PNone, birbank_token_expiry := None\<rparr>"

definition ex_offline :: world where
  "ex_offline = ex_world\<lparr>link := ex_draft_link, net_in := [NoResponse ''timed out'']\<rparr>"

definition ex_online :: world where
  "ex_online = ex_world\<lparr>link := ex_draft_link, net_in := [ex_login_ok]\<rparr>"

definition ex_down :: world where
  "ex_down = ex_world\<lparr>net_in := [Response 500 ''oops'' (Inl ''no JSON'')]\<rparr>"

text \<open>
  A connection whose last synchronisation failed: the status is \<open>Error\<close> and an error
  message is recorded. \<open>ex_stale_link\<close> is its record once the status is \<open>Connected\<close> again.
\<close>

definition ex_stale_link :: link where
  "ex_stale_link = ex_link\<lparr>last_error_message := Some ''Auth Error: timed out''\<rparr>"

definition ex_stale :: world where
  "ex_stale = ex_world\<lparr>link := ex_stale_link\<lparr>state := Error\<rparr>\<rparr>"

text \<open>
  For the initialization: an account without its \<^verbatim>\<open>journal_id\<close>, the columns that identify
  an account row, the number of rows of a connection with a given identifier, the invariant
  of the loop (every entry of \<^verbatim>\<open>existing_accounts\<close> names a row with that identifier
  under the connection) and what a run may do to the table (keep the rows, add rows with
  identifiers that were not there).
\<close>

definition forget_journal :: "online_account \<Rightarrow> online_account" where
  "forget_journal a = a\<lparr>journal_id := None\<rparr>"

definition account_key :: "online_account \<Rightarrow> nat \<times> pyval \<times> nat" where
  "account_key a = (a_id a, online_identifier a, account_online_link_id a)"

definition count_identifier :: "nat \<Rightarrow> pyval \<Rightarrow> online_account list \<Rightarrow> nat" where
  "count_identifier lid k accs =
     length (filter (\<lambda>a. account_online_link_id a = lid \<and> online_identifier a = k) accs)"

definition keyed_rows :: "nat \<Rightarrow> (pyval \<times> nat) list \<Rightarrow> online_account list \<Rightarrow> bool" where
  "keyed_rows lid ex accs =
     (\<forall>(k, aid) \<in> set ex.
        aid \<in> a_id ` set accs
        \<and> (\<forall>a \<in> set accs. a_id a = aid \<longrightarrow>
              online_identifier a = k \<and> account_online_link_id a = lid))"

definition grown :: "nat \<Rightarrow> (pyval \<times> nat) list \<Rightarrow> world \<Rightarrow> world \<Rightarrow> bool" where
  "grown lid ex w w' =
     (link w' = link w
      \<and> (\<exists>extra. map account_key (accounts w') = map account_key (accounts w) @ extra
            \<and> list_all (\<lambda>t. truthy (fst (snd t)) \<and> fst (snd t) \<notin> fst ` set ex \<and> snd (snd t) = lid)
                 extra))"

text \<open>
  A first connection of the sample: the provider answers the login and lists the first
  account, an entry without identifier and an account that is not there yet.
\<close>

definition ex_accounts_response :: http_response where
  "ex_accounts_response =
     Response 200 []
       (Inr (PDict [(''responseData'',
          PDict [(''accountsList'',
            PList [PDict [(''ibanAcNo'', PStr ''AZ01''), (''acDesc'', PStr ''Main''),
                          (''currAmt'', PNum 7), (''ccy'', PStr ''AZN'')],
                   PDict [(''acDesc'', PStr ''ghost'')],
                   PDict [(''ibanAcNo'', PStr ''AZ09''), (''acDesc'', PStr ''New''),
                          (''currAmt'', PNum 1), (''ccy'', PStr ''USD'')]])])]))"

definition ex_init :: world where
  "ex_init = ex_world\<lparr>link := ex_draft_link, net_in := [ex_login_ok, ex_accounts_response]\<rparr>"

definition ex_accounts_list :: "acc_data list" where
  "ex_accounts_list =
     [\<lparr>d_online_identifier = PStr ''AZ01'', d_name = ''Main (AZ01) - AZN'', d_balance = 7,
       d_currency_code = PStr ''AZN''\<rparr>,
      \<lparr>d_online_identifier = PNone, d_name = ''ghost (None) - None'', d_balance = 0,
       d_currency_code = PNone\<rparr>,
      \<lparr>d_online_identifier = PStr ''AZ09'', d_name = ''New (AZ09) - USD'', d_balance = 1,
       d_currency_code = PStr ''USD''\<rparr>]"

definition ex_logged_in :: world where
  "ex_logged_in =
     ex_world\<lparr>link := ex_draft_link\<lparr>birbank_jwt_token := PStr ''abc'',
                                        birbank_token_expiry := Some 1003000\<rparr>,
               net_in := [],
               net_out := [login_request ex_draft_link,
                           GetAccounts ''https://my.birbank.business/api/b2b/accounts'' (PStr ''abc'')]\<rparr>"

definition ex_initialized_accounts :: "online_account list" where
  "ex_initialized_accounts =
     [(ex_account 11 ''AZ01'')\<lparr>a_name := PStr ''Main (AZ01) - AZN'', balance := PNum 7,
                                account_number := PStr ''AZ01''\<rparr>,
      ex_account 12 ''AZ02'', ex_account 13 ''AZ03'',
      \<lparr>a_id = 14, a_name = PStr ''New (AZ09) - USD'', balance = PNum 1,
       online_identifier = PStr ''AZ09'', account_number = PStr ''AZ09'',
       currency_code = PStr ''USD'', account_online_link_id = 7, journal_id = None\<rparr>]"

definition ex_boundary :: world where
  "ex_boundary = ex_world\<lparr>link := ex_link\<lparr>birbank_token_expiry := Some 1000301\<rparr>\<rparr>"

section \<open>Statement lines: what a run of the ingestion creates\<close>

lemma line_vals_fields:
  "line_vals j tx = Inr l \<Longrightarrow>
   sl_online_transaction_identifier l = dict_get tx ''online_transaction_identifier'' \<and> sl_journal_id l = j"
  by (auto simp: line_vals_def split: sum.splits)

lemma to_create_lines:
  "to_create j ex txs = Inr vs \<Longrightarrow>
   map Inr vs =
     map (line_vals j)
       (filter (\<lambda>t. \<not> (truthy (dict_get t ''online_transaction_identifier'')
                        \<and> dict_get t ''online_transaction_identifier'' \<in> set ex)) txs)"
  by (induction txs arbitrary: vs) (auto simp: Let_def split: if_splits sum.splits)

lemma to_create_ids:
  "to_create j ex txs = Inr vs \<Longrightarrow>
   map sl_online_transaction_identifier vs =
     filter (\<lambda>r. \<not> (truthy r \<and> r \<in> set ex))
       (map (\<lambda>t. dict_get t ''online_transaction_identifier'') txs)"
  by (induction txs arbitrary: vs)
     (auto simp: Let_def split: if_splits sum.splits dest: line_vals_fields)

lemma to_create_journal:
  "to_create j ex txs = Inr vs \<Longrightarrow> l \<in> set vs \<Longrightarrow> sl_journal_id l = j"
  by (induction txs arbitrary: vs)
     (auto simp: Let_def split: if_splits sum.splits dest: line_vals_fields)

lemma to_create_hashable:
  "to_create j ex txs = Inr vs \<Longrightarrow> t \<in> set txs \<Longrightarrow>
   truthy (dict_get t ''online_transaction_identifier'') \<Longrightarrow>
   hashable (dict_get t ''online_transaction_identifier'')"
  by (induction txs arbitrary: vs) (auto simp: Let_def split: if_splits sum.splits)

lemma to_create_mono:
  "to_create j ex txs = Inr vs \<Longrightarrow> set ex \<subseteq> set ex2 \<Longrightarrow> \<exists>vs2. to_create j ex2 txs = Inr vs2"
  by (induction txs arbitrary: vs) (auto simp: Let_def split: if_splits sum.splits)

lemma compute_linked_journal_frame:
  "compute_linked_journal e a w = (r, w1) \<Longrightarrow>
   statement_lines w1 = statement_lines w \<and> journals w1 = journals w \<and> link w1 = link w
   \<and> net_in w1 = net_in w \<and> net_out w1 = net_out w \<and> logs w1 = logs w"
  by (auto simp: compute_linked_journal_def write_journal_id_def Let_def split: option.splits if_splits)

lemma resolve_journal_frame:
  "resolve_journal e a w = (r, w1) \<Longrightarrow>
   statement_lines w1 = statement_lines w \<and> journals w1 = journals w \<and> link w1 = link w
   \<and> net_in w1 = net_in w \<and> net_out w1 = net_out w \<and> logs w1 = logs w"
  unfolding resolve_journal_def
  by (auto split: prod.splits option.splits dest: compute_linked_journal_frame)

lemma custom_create_lines_success:
  assumes "custom_create_lines e a txs w = (Inr new, w')"
  shows "\<exists>j w1 ex. resolve_journal e a w = (Inr j, w1)
           \<and> existing_ids j (incoming_ids txs) (statement_lines w) = Inr ex
           \<and> to_create j ex txs = Inr new
           \<and> statement_lines w' = statement_lines w @ new
           \<and> journals w' = journals w"
  using assms unfolding custom_create_lines_def create_lines_def
  by (auto split: prod.splits sum.splits if_splits dest: resolve_journal_frame)

lemma custom_create_lines_intro:
  assumes "fst (resolve_journal e a w) = Inr j"
    and "existing_ids j (incoming_ids txs) (statement_lines w) = Inr ex"
    and "to_create j ex txs = Inr vs"
  shows "\<exists>w'. custom_create_lines e a txs w = (Inr vs, w') \<and> statement_lines w' = statement_lines w @ vs"
proof (cases "resolve_journal e a w")
  case (Pair r w1)
  with assms(1) have r: "r = Inr j" by simp
  have "statement_lines w1 = statement_lines w" using Pair resolve_journal_frame by blast
  with Pair r assms(2,3) show ?thesis
    by (simp add: custom_create_lines_def create_lines_def)
qed

lemma compute_linked_journal_value:
  "fst (compute_linked_journal e a w) =
     (let j1 = search_journal_by_account (a_id a) (journals w)
      in if j1 = None \<and> truthy (account_number a)
         then search_bank_journal (account_number a) (journals w) else j1)"
  by (simp add: compute_linked_journal_def Let_def split: option.splits)

lemma compute_linked_journal_stable:
  assumes "journals w2 = journals w" "a_id a' = a_id a" "account_number a' = account_number a"
  shows "fst (compute_linked_journal e a' w2) = fst (compute_linked_journal e a w)"
  by (simp only: compute_linked_journal_value assms)

lemma resolve_journal_value:
  "fst (resolve_journal e a w) =
     (case fst (compute_linked_journal e a w) of
        Some j \<Rightarrow> Inr (j_id j)
      | None \<Rightarrow>
          (case (if has_journal_id e then journal_id a else None) of
             Some jid \<Rightarrow> Inr jid
           | None \<Rightarrow>
               (case search_journal_by_account (a_id a) (journals w) of
                  Some j \<Rightarrow> Inr (j_id j)
                | None \<Rightarrow>
                    Inl (UserError (''No Journal linked to account '' @ py_str e (a_name a)
                                      @ ''. Cannot save transactions.'')))))"
proof (cases "compute_linked_journal e a w")
  case (Pair r w1)
  then have "journals w1 = journals w" using compute_linked_journal_frame by blast
  with Pair show ?thesis
    by (simp add: resolve_journal_def split: option.splits)
qed

lemma resolve_journal_stable:
  assumes r: "resolve_journal e a w = (Inr j, w1)"
    and js: "journals w2 = journals w"
    and ids: "a_id a' = a_id a" "account_number a' = account_number a"
    and jid: "journal_id a' = journal_id a \<or> journal_id a' = Some j"
  shows "fst (resolve_journal e a' w2) = Inr j"
proof -
  have c: "fst (compute_linked_journal e a' w2) = fst (compute_linked_journal e a w)"
    using js ids by (rule compute_linked_journal_stable)
  have v: "fst (resolve_journal e a w) = Inr j" using r by simp
  show ?thesis
  proof (cases "fst (compute_linked_journal e a w)")
    case (Some jr)
    with v c show ?thesis by (simp add: resolve_journal_value)
  next
    case None
    show ?thesis
    proof (cases "has_journal_id e")
      case True
      with v c None jid js ids show ?thesis
        by (auto simp: resolve_journal_value split: option.splits)
    next
      case False
      with v c None js ids show ?thesis
        by (simp add: resolve_journal_value split: option.splits)
    qed
  qed
qed

lemma existing_ids_set:
  "existing_ids j ids ls = Inr ex \<Longrightarrow>
   set ex = {r \<in> set ids. \<exists>l \<in> set ls. sl_journal_id l = j \<and> sl_online_transaction_identifier l = r}"
  by (auto simp: existing_ids_def search_lines_def Let_def split: if_splits)

lemma incoming_ids_set:
  "set (incoming_ids txs) =
   {r. truthy r \<and> r \<in> set (map (\<lambda>t. dict_get t ''online_transaction_identifier'') txs)}"
  by (auto simp: incoming_ids_def)

lemma persisted_ids_set:
  "persisted_ids j w =
   {r. truthy r \<and> (\<exists>l \<in> set (statement_lines w). sl_journal_id l = j \<and> sl_online_transaction_identifier l = r)}"
  by (auto simp: persisted_ids_def)

lemma created_ids_image:
  assumes "to_create j ex txs = Inr vs"
  shows "sl_online_transaction_identifier ` set vs =
        {r \<in> set (map (\<lambda>t. dict_get t ''online_transaction_identifier'') txs). \<not> (truthy r \<and> r \<in> set ex)}"
proof -
  have "sl_online_transaction_identifier ` set vs = set (map sl_online_transaction_identifier vs)"
    by simp
  also have "\<dots> = set (filter (\<lambda>r. \<not> (truthy r \<and> r \<in> set ex))
       (map (\<lambda>t. dict_get t ''online_transaction_identifier'') txs))"
    by (simp only: to_create_ids[OF assms])
  also have "\<dots> = {r \<in> set (map (\<lambda>t. dict_get t ''online_transaction_identifier'') txs). \<not> (truthy r \<and> r \<in> set ex)}"
    by (rule set_filter)
  finally show ?thesis .
qed

lemma created_ids_set:
  assumes "to_create j ex txs = Inr vs"
  shows "{r. truthy r \<and> (\<exists>l \<in> set vs. sl_journal_id l = j \<and> sl_online_transaction_identifier l = r)}
         = set (incoming_ids txs) - set ex"
proof (rule set_eqI)
  fix r
  have jn: "\<And>l. l \<in> set vs \<Longrightarrow> sl_journal_id l = j" using to_create_journal[OF assms] by blast
  have "(\<exists>l \<in> set vs. sl_journal_id l = j \<and> sl_online_transaction_identifier l = r)
        \<longleftrightarrow> r \<in> sl_online_transaction_identifier ` set vs"
    using jn by (auto simp: image_iff)
  then show "r \<in> {r. truthy r \<and> (\<exists>l \<in> set vs. sl_journal_id l = j \<and> sl_online_transaction_identifier l = r)}
     \<longleftrightarrow> r \<in> set (incoming_ids txs) - set ex"
    unfolding created_ids_image[OF assms] incoming_ids_set by blast
qed

lemma ingest_union:
  assumes "existing_ids j (incoming_ids txs) ls = Inr ex" and "to_create j ex txs = Inr vs"
  shows "{r. truthy r \<and> (\<exists>l \<in> set (ls @ vs). sl_journal_id l = j \<and> sl_online_transaction_identifier l = r)}
       = {r. truthy r \<and> (\<exists>l \<in> set ls. sl_journal_id l = j \<and> sl_online_transaction_identifier l = r)}
         \<union> set (incoming_ids txs)"
proof -
  let ?P = "\<lambda>xs. {r. truthy r \<and> (\<exists>l \<in> set xs. sl_journal_id l = j \<and> sl_online_transaction_identifier l = r)}"
  have ex: "set ex = {r \<in> set (incoming_ids txs). \<exists>l \<in> set ls. sl_journal_id l = j \<and> sl_online_transaction_identifier l = r}"
    by (rule existing_ids_set[OF assms(1)])
  have tr: "\<And>r. r \<in> set (incoming_ids txs) \<Longrightarrow> truthy r" by (simp add: incoming_ids_set)
  have a: "?P (ls @ vs) = ?P ls \<union> ?P vs" by auto
  have b: "?P vs = set (incoming_ids txs) - set ex" by (rule created_ids_set[OF assms(2)])
  have c: "set ex \<subseteq> ?P ls" using ex tr by blast
  have d: "set ex \<subseteq> set (incoming_ids txs)" using ex by blast
  show ?thesis unfolding a b using c d by blast
qed

lemma existing_ids_second_run:
  assumes e1: "existing_ids j (incoming_ids txs) ls = Inr ex" and t1: "to_create j ex txs = Inr vs"
  shows "\<exists>ex2. existing_ids j (incoming_ids txs) (ls @ vs) = Inr ex2"
proof (cases "incoming_ids txs = []")
  case True
  then show ?thesis by (simp add: existing_ids_def)
next
  case False
  have old: "list_all hashable (map sl_online_transaction_identifier (search_lines j (incoming_ids txs) ls))"
    using e1 False by (auto simp: existing_ids_def Let_def split: if_splits)
  have new: "hashable (sl_online_transaction_identifier l)"
    if "l \<in> set vs" and "sl_online_transaction_identifier l \<in> set (incoming_ids txs)" for l
  proof -
    from that(2) obtain t where "t \<in> set txs"
      and "truthy (dict_get t ''online_transaction_identifier'')"
      and "sl_online_transaction_identifier l = dict_get t ''online_transaction_identifier''"
      by (auto simp: incoming_ids_def)
    then show ?thesis using to_create_hashable[OF t1] by simp
  qed
  have "list_all hashable (map sl_online_transaction_identifier (search_lines j (incoming_ids txs) (ls @ vs)))"
    using old new by (auto simp: search_lines_def list_all_iff)
  then show ?thesis using False by (simp add: existing_ids_def Let_def)
qed

lemma second_run_creates_no_identified_line:
  assumes e1: "existing_ids j (incoming_ids txs) ls = Inr ex" and t1: "to_create j ex txs = Inr vs"
  shows "\<exists>ex2 vs2. existing_ids j (incoming_ids txs) (ls @ vs) = Inr ex2
           \<and> to_create j ex2 txs = Inr vs2
           \<and> filter (\<lambda>l. truthy (sl_online_transaction_identifier l)) vs2 = []"
proof -
  obtain ex2 where e2: "existing_ids j (incoming_ids txs) (ls @ vs) = Inr ex2"
    using existing_ids_second_run[OF e1 t1] by blast
  have s1: "set ex = {r \<in> set (incoming_ids txs). \<exists>l \<in> set ls. sl_journal_id l = j \<and> sl_online_transaction_identifier l = r}"
    by (rule existing_ids_set[OF e1])
  have s2: "set ex2 = {r \<in> set (incoming_ids txs). \<exists>l \<in> set (ls @ vs). sl_journal_id l = j \<and> sl_online_transaction_identifier l = r}"
    by (rule existing_ids_set[OF e2])
  have sub: "set ex \<subseteq> set ex2" unfolding s1 s2 by auto
  then obtain vs2 where t2: "to_create j ex2 txs = Inr vs2"
    using to_create_mono[OF t1] by blast
  have all_in: "set (incoming_ids txs) \<subseteq> set ex2"
  proof
    fix r assume r: "r \<in> set (incoming_ids txs)"
    then have "r \<in> {r. truthy r \<and> (\<exists>l \<in> set (ls @ vs). sl_journal_id l = j \<and> sl_online_transaction_identifier l = r)}"
      unfolding ingest_union[OF e1 t1] by simp
    with r show "r \<in> set ex2" unfolding s2 by simp
  qed
  have "\<not> truthy (sl_online_transaction_identifier l)" if "l \<in> set vs2" for l
  proof
    assume tr: "truthy (sl_online_transaction_identifier l)"
    from that have "sl_online_transaction_identifier l \<in> sl_online_transaction_identifier ` set vs2"
      by simp
    then have m: "sl_online_transaction_identifier l \<in> set (map (\<lambda>t. dict_get t ''online_transaction_identifier'') txs)"
      and n: "\<not> (truthy (sl_online_transaction_identifier l) \<and> sl_online_transaction_identifier l \<in> set ex2)"
      unfolding created_ids_image[OF t2] by simp_all
    from m tr have "sl_online_transaction_identifier l \<in> set (incoming_ids txs)"
      unfolding incoming_ids_set by simp
    with all_in n tr show False by blast
  qed
  then have "filter (\<lambda>l. truthy (sl_online_transaction_identifier l)) vs2 = []"
    by (simp add: filter_empty_conv)
  with e2 t2 show ?thesis by blast
qed

lemma second_run:
  assumes run: "custom_create_lines e a txs w = (Inr new, w')"
    and j: "fst (resolve_journal e a w) = Inr j"
    and same: "same_account a j a'"
  shows "\<exists>ex ex2 new2 w''. 
           existing_ids j (incoming_ids txs) (statement_lines w) = Inr ex
         \<and> to_create j ex txs = Inr new
         \<and> statement_lines w' = statement_lines w @ new
         \<and> existing_ids j (incoming_ids txs) (statement_lines w') = Inr ex2
         \<and> to_create j ex2 txs = Inr new2
         \<and> set (incoming_ids txs) \<subseteq> set ex2
         \<and> custom_create_lines e a' txs w' = (Inr new2, w'')
         \<and> statement_lines w'' = statement_lines w' @ new2
         \<and> filter (\<lambda>l. truthy (sl_online_transaction_identifier l)) new2 = []"
proof -
  obtain j0 w1 ex where r: "resolve_journal e a w = (Inr j0, w1)"
    and e1: "existing_ids j0 (incoming_ids txs) (statement_lines w) = Inr ex"
    and t1: "to_create j0 ex txs = Inr new"
    and l1: "statement_lines w' = statement_lines w @ new"
    and js: "journals w' = journals w"
    using custom_create_lines_success[OF run] by blast
  from r j have [simp]: "j0 = j" by simp
  obtain ex2 new2 where e2: "existing_ids j (incoming_ids txs) (statement_lines w') = Inr ex2"
    and t2: "to_create j ex2 txs = Inr new2"
    and n2: "filter (\<lambda>l. truthy (sl_online_transaction_identifier l)) new2 = []"
    using second_run_creates_no_identified_line[OF e1 t1] l1 by auto
  have r2: "fst (resolve_journal e a' w') = Inr j"
    using resolve_journal_stable[OF r js] same by (simp add: same_account_def)
  obtain w'' where c2: "custom_create_lines e a' txs w' = (Inr new2, w'')"
     and l2: "statement_lines w'' = statement_lines w' @ new2"
    using custom_create_lines_intro[OF r2 e2 t2] by blast
  have sub: "set (incoming_ids txs) \<subseteq> set ex2"
  proof
    fix r assume r: "r \<in> set (incoming_ids txs)"
    then have "r \<in> {r. truthy r \<and> (\<exists>l \<in> set (statement_lines w @ new). sl_journal_id l = j \<and> sl_online_transaction_identifier l = r)}"
      using ingest_union[of j txs "statement_lines w" ex new] e1 t1 by simp
    with r show "r \<in> set ex2" unfolding existing_ids_set[OF e2] l1 by simp
  qed
  show ?thesis using e1 t1 l1 e2 t2 sub c2 l2 n2 by auto
qed

lemma filter_lines_by_id:
  "map Inr vs = map (line_vals j) ts \<Longrightarrow>
   map Inr (filter (\<lambda>l. Q (sl_online_transaction_identifier l)) vs) =
   map (line_vals j) (filter (\<lambda>t. Q (dict_get t ''online_transaction_identifier'')) ts)"
proof (induction ts arbitrary: vs)
  case Nil
  then show ?case by simp
next
  case (Cons t ts)
  then obtain v vs' where vs: "vs = v # vs'" and v: "line_vals j t = Inr v"
    and rest: "map Inr vs' = map (line_vals j) ts"
    by (cases vs) auto
  from v have "sl_online_transaction_identifier v = dict_get t ''online_transaction_identifier''"
    using line_vals_fields by blast
  with Cons.IH[OF rest] v show ?case unfolding vs by simp
qed

lemma skipped_iff_persisted:
  assumes e1: "existing_ids j (incoming_ids txs) (statement_lines w) = Inr ex"
    and t: "t \<in> set txs"
  shows "(truthy (dict_get t ''online_transaction_identifier'')
            \<and> dict_get t ''online_transaction_identifier'' \<in> set ex)
     \<longleftrightarrow> (truthy (dict_get t ''online_transaction_identifier'')
            \<and> dict_get t ''online_transaction_identifier'' \<in> persisted_ids j w)"
  using t unfolding existing_ids_set[OF e1] persisted_ids_set incoming_ids_set by auto

subsection \<open>The sample data, evaluated\<close>

lemma ex_tx_get [simp]:
  "dict_get (ex_tx r) ''online_transaction_identifier'' = r"
  by (simp add: ex_tx_def dict_get_def)

lemma ex_line_vals [simp]: "line_vals j (ex_tx r) = Inr (ex_line j r)"
  by (simp add: line_vals_def ex_tx_def dict_item_def dict_get_def ex_line_def)

lemma ex_line_sel [simp]:
  "sl_journal_id (ex_line j r) = j" "sl_online_transaction_identifier (ex_line j r) = r"
  by (simp_all add: ex_line_def)

lemma ex_world_sel [simp]:
  "statement_lines ex_world = [ex_line 10 (PStr ''T1'')]"
  "journals ex_world = [ex_journal 10 11, ex_journal 30 13]"
  "link ex_world = ex_link"
  by (simp_all add: ex_world_def)

lemma ex_resolve: "resolve_journal ex_env (ex_account 11 iban) w = (Inr 10, w)"
  if "journals w = [ex_journal 10 11, ex_journal 30 13]"
  using that
  by (simp add: resolve_journal_def compute_linked_journal_def search_journal_by_account_def
      ex_account_def ex_journal_def ex_env_def)

lemma ex_run1:
  "custom_create_lines ex_env (ex_account 11 ''AZ01'')
       [ex_tx (PStr ''T1''), ex_tx (PStr ''T2''), ex_tx PNone, ex_tx (PStr ''T2'')] ex_world
   = (Inr [ex_line 10 (PStr ''T2''), ex_line 10 PNone, ex_line 10 (PStr ''T2'')],
      ex_world\<lparr>statement_lines := [ex_line 10 (PStr ''T1''), ex_line 10 (PStr ''T2''),
            ex_line 10 PNone, ex_line 10 (PStr ''T2'')]\<rparr>)"
  by (simp add: custom_create_lines_def ex_resolve existing_ids_def incoming_ids_def
        search_lines_def create_lines_def Let_def)

lemma ex_run:
  "custom_create_lines ex_env (ex_account 11 ''AZ01'') ex_batch ex_world
   = (Inr [ex_line 10 (PStr ''T2''), ex_line 10 PNone, ex_line 10 (PStr ''T2'')], ex_world_after)"
  unfolding ex_batch_def ex_world_after_def by (rule ex_run1)

lemma ex_resolved: "fst (resolve_journal ex_env (ex_account 11 ''AZ01'') ex_world) = Inr 10"
  by (simp add: ex_resolve)

lemma ex_same: "same_account a j a"
  by (simp add: same_account_def)

subsection \<open>Claims about the ingestion\<close>

text \<open>
  C1. Whenever \<^verbatim>\<open>_custom_create_lines\<close> ingests a batch (it returns, with the journal it
  resolved being \<open>j\<close>), the identifiers held by journal \<open>j\<close> afterwards are those held
  before together with the non-empty identifiers of the batch. Running it again with the
  same batch on the state the first run left returns too, creates no line that carries an
  identifier, and leaves the journal's identifiers as they were.
\<close>

theorem C1_ingest_union_idempotent:
  assumes run: "custom_create_lines e a txs w = (Inr new, w')"
    and j: "fst (resolve_journal e a w) = Inr j"
    and same: "same_account a j a'"
  shows "persisted_ids j w' =
           persisted_ids j w \<union>
           {r. truthy r \<and> (\<exists>t \<in> set txs. dict_get t ''online_transaction_identifier'' = r)}
       \<and> (\<exists>new2 w''. custom_create_lines e a' txs w' = (Inr new2, w'')
             \<and> filter (\<lambda>l. truthy (sl_online_transaction_identifier l)) new2 = []
             \<and> persisted_ids j w'' = persisted_ids j w')"
proof -
  obtain ex new2 w'' where e1: "existing_ids j (incoming_ids txs) (statement_lines w) = Inr ex"
    and t1: "to_create j ex txs = Inr new"
    and l1: "statement_lines w' = statement_lines w @ new"
    and c2: "custom_create_lines e a' txs w' = (Inr new2, w'')"
    and l2: "statement_lines w'' = statement_lines w' @ new2"
    and n2: "filter (\<lambda>l. truthy (sl_online_transaction_identifier l)) new2 = []"
    using second_run[OF run j same] by blast
  have inc: "set (incoming_ids txs) =
     {r. truthy r \<and> (\<exists>t \<in> set txs. dict_get t ''online_transaction_identifier'' = r)}"
    unfolding incoming_ids_set by auto
  have u: "persisted_ids j w' = persisted_ids j w \<union> set (incoming_ids txs)"
    unfolding persisted_ids_set l1 by (rule ingest_union[OF e1 t1])
  have "persisted_ids j w'' = persisted_ids j w'"
    using n2 unfolding persisted_ids_def l2 by (simp add: filter_empty_conv) 
  with u c2 n2 show ?thesis unfolding inc by blast
qed

theorem C1_witness:
  "custom_create_lines ex_env (ex_account 11 ''AZ01'') ex_batch ex_world
     = (Inr [ex_line 10 (PStr ''T2''), ex_line 10 PNone, ex_line 10 (PStr ''T2'')], ex_world_after)
   \<and> persisted_ids 10 ex_world = {PStr ''T1''}
   \<and> persisted_ids 10 ex_world_after = {PStr ''T1'', PStr ''T2''}
   \<and> (\<exists>new2 w''. custom_create_lines ex_env (ex_account 11 ''AZ01'') ex_batch ex_world_after
                     = (Inr new2, w'')
          \<and> filter (\<lambda>l. truthy (sl_online_transaction_identifier l)) new2 = [])"
proof -
  have p0: "persisted_ids 10 ex_world = {PStr ''T1''}"
    by (simp add: persisted_ids_def)
  have inc: "{r. truthy r \<and> (\<exists>t \<in> set ex_batch. dict_get t ''online_transaction_identifier'' = r)}
              = {PStr ''T1'', PStr ''T2''}"
    by (auto simp: ex_batch_def)
  show ?thesis
    using C1_ingest_union_idempotent[OF ex_run ex_resolved ex_same] ex_run p0 inc
    by auto
qed

text \<open>
  C2. A transaction whose identifier is missing (no key, \<^verbatim>\<open>None\<close>, empty) is never
  filtered: whenever \<^verbatim>\<open>_custom_create_lines\<close> returns, the lines without identifier that
  it created are, in order, the creation values of all transactions without identifier in
  the batch, whatever the journal holds. A second run with the same batch on the state the
  first one left returns as well and creates exactly those lines once more.
\<close>

theorem C2_unidentified_always_created:
  assumes run: "custom_create_lines e a txs w = (Inr new, w')"
    and j: "fst (resolve_journal e a w) = Inr j"
    and same: "same_account a j a'"
  shows "map Inr (filter (\<lambda>l. \<not> truthy (sl_online_transaction_identifier l)) new) =
           map (line_vals j)
             (filter (\<lambda>t. \<not> truthy (dict_get t ''online_transaction_identifier'')) txs)
       \<and> (\<exists>new2 w''. custom_create_lines e a' txs w' = (Inr new2, w'')
             \<and> map Inr new2 =
                 map (line_vals j)
                   (filter (\<lambda>t. \<not> truthy (dict_get t ''online_transaction_identifier'')) txs)
             \<and> statement_lines w'' = statement_lines w @ new @ new2)"
proof -
  obtain ex ex2 new2 w'' where e1: "existing_ids j (incoming_ids txs) (statement_lines w) = Inr ex"
    and t1: "to_create j ex txs = Inr new"
    and l1: "statement_lines w' = statement_lines w @ new"
    and t2: "to_create j ex2 txs = Inr new2"
    and sub: "set (incoming_ids txs) \<subseteq> set ex2"
    and c2: "custom_create_lines e a' txs w' = (Inr new2, w'')"
    and l2: "statement_lines w'' = statement_lines w' @ new2"
    using second_run[OF run j same] by blast
  let ?get = "\<lambda>t. dict_get t ''online_transaction_identifier''"
  have "map Inr (filter (\<lambda>l. \<not> truthy (sl_online_transaction_identifier l)) new) =
        map (line_vals j) (filter (\<lambda>t. \<not> truthy (?get t))
           (filter (\<lambda>t. \<not> (truthy (?get t) \<and> ?get t \<in> set ex)) txs))"
    by (rule filter_lines_by_id[OF to_create_lines[OF t1]])
  also have "filter (\<lambda>t. \<not> truthy (?get t))
           (filter (\<lambda>t. \<not> (truthy (?get t) \<and> ?get t \<in> set ex)) txs)
        = filter (\<lambda>t. \<not> truthy (?get t)) txs"
    unfolding filter_filter by (rule filter_cong[OF refl]) auto
  finally have first: "map Inr (filter (\<lambda>l. \<not> truthy (sl_online_transaction_identifier l)) new) =
        map (line_vals j) (filter (\<lambda>t. \<not> truthy (?get t)) txs)" .
  have "filter (\<lambda>t. \<not> (truthy (?get t) \<and> ?get t \<in> set ex2)) txs
        = filter (\<lambda>t. \<not> truthy (?get t)) txs"
    using sub unfolding incoming_ids_set by (intro filter_cong[OF refl]) auto
  then have second: "map Inr new2 = map (line_vals j) (filter (\<lambda>t. \<not> truthy (?get t)) txs)"
    using to_create_lines[OF t2] by simp
  show ?thesis using first second c2 l1 l2 by auto
qed

theorem C2_witness:
  "map Inr (filter (\<lambda>l. \<not> truthy (sl_online_transaction_identifier l))
         [ex_line 10 (PStr ''T2''), ex_line 10 PNone, ex_line 10 (PStr ''T2'')])
     = [Inr (ex_line 10 PNone) :: error + statement_line]
   \<and> (\<exists>w''. custom_create_lines ex_env (ex_account 11 ''AZ01'') ex_batch ex_world_after
               = (Inr [ex_line 10 PNone], w'')
          \<and> statement_lines w'' = statement_lines ex_world_after @ [ex_line 10 PNone])"
proof -
  have f: "filter (\<lambda>t. \<not> truthy (dict_get t ''online_transaction_identifier'')) ex_batch = [ex_tx PNone]"
    by (simp add: ex_batch_def)
  have l: "statement_lines ex_world_after = statement_lines ex_world @ [ex_line 10 (PStr ''T2''), ex_line 10 PNone, ex_line 10 (PStr ''T2'')]"
    by (simp add: ex_world_after_def)
  show ?thesis
    using C2_unidentified_always_created[OF ex_run ex_resolved ex_same] f l
    by auto
qed

text \<open>
  C10. A transaction is skipped only when its identifier is non-empty and the journal
  held it before the call; the other transactions of the batch play no part. The lines
  created are appended to the statement lines of the world. So for an identifier \<open>r\<close>
  that is non-empty and not yet in the journal, the journal holds after the call as many
  lines with \<open>r\<close> as the batch has transactions with \<open>r\<close>: two transactions give two
  lines.
\<close>

theorem C10_no_dedup_within_batch:
  assumes run: "custom_create_lines e a txs w = (Inr new, w')"
    and j: "fst (resolve_journal e a w) = Inr j"
    and r: "truthy r" "r \<notin> persisted_ids j w"
  shows "statement_lines w' = statement_lines w @ new
       \<and> map Inr new =
           map (line_vals j)
             (filter (\<lambda>t. \<not> (truthy (dict_get t ''online_transaction_identifier'')
                        \<and> dict_get t ''online_transaction_identifier'' \<in> persisted_ids j w)) txs)
       \<and> length (filter (\<lambda>l. sl_online_transaction_identifier l = r) new) =
           length (filter (\<lambda>t. dict_get t ''online_transaction_identifier'' = r) txs)
       \<and> length (filter (\<lambda>l. sl_journal_id l = j \<and> sl_online_transaction_identifier l = r)
                   (statement_lines w')) =
           length (filter (\<lambda>t. dict_get t ''online_transaction_identifier'' = r) txs)"
proof -
  obtain j0 w1 ex where r0: "resolve_journal e a w = (Inr j0, w1)"
    and e0: "existing_ids j0 (incoming_ids txs) (statement_lines w) = Inr ex"
    and t0: "to_create j0 ex txs = Inr new"
    and s0: "statement_lines w' = statement_lines w @ new"
    using custom_create_lines_success[OF run] by blast
  from r0 j have "j0 = j" by simp
  with e0 t0 have e1: "existing_ids j (incoming_ids txs) (statement_lines w) = Inr ex"
    and t1: "to_create j ex txs = Inr new" by simp_all
  let ?get = "\<lambda>t. dict_get t ''online_transaction_identifier''"
  let ?kept = "filter (\<lambda>t. \<not> (truthy (?get t) \<and> ?get t \<in> persisted_ids j w)) txs"
  have "filter (\<lambda>t. \<not> (truthy (?get t) \<and> ?get t \<in> set ex)) txs = ?kept"
    using skipped_iff_persisted[OF e1] by (intro filter_cong[OF refl]) blast
  then have lines: "map Inr new = map (line_vals j) ?kept"
    using to_create_lines[OF t1] by simp
  have "map Inr (filter (\<lambda>l. sl_online_transaction_identifier l = r) new) =
        map (line_vals j) (filter (\<lambda>t. ?get t = r) ?kept)"
    using filter_lines_by_id[OF lines, of "\<lambda>x. x = r"] by simp
  then have "length (map (Inr :: statement_line \<Rightarrow> error + statement_line)
                 (filter (\<lambda>l. sl_online_transaction_identifier l = r) new)) =
        length (map (line_vals j) (filter (\<lambda>t. ?get t = r) ?kept))"
    by (rule arg_cong)
  then have "length (filter (\<lambda>l. sl_online_transaction_identifier l = r) new) =
        length (filter (\<lambda>t. ?get t = r) ?kept)"
    by (simp only: length_map)
  also have "filter (\<lambda>t. ?get t = r) ?kept = filter (\<lambda>t. ?get t = r) txs"
    unfolding filter_filter using r by (intro filter_cong[OF refl]) blast
  finally have cnt: "length (filter (\<lambda>l. sl_online_transaction_identifier l = r) new) =
        length (filter (\<lambda>t. ?get t = r) txs)" .
  have before: "filter (\<lambda>l. sl_journal_id l = j \<and> sl_online_transaction_identifier l = r)
                  (statement_lines w) = []"
    using r by (auto simp: persisted_ids_set filter_empty_conv)
  have created: "filter (\<lambda>l. sl_journal_id l = j \<and> sl_online_transaction_identifier l = r) new
               = filter (\<lambda>l. sl_online_transaction_identifier l = r) new"
    using to_create_journal[OF t1] by (intro filter_cong[OF refl]) blast
  have "length (filter (\<lambda>l. sl_journal_id l = j \<and> sl_online_transaction_identifier l = r)
                   (statement_lines w')) =
        length (filter (\<lambda>t. ?get t = r) txs)"
    unfolding s0 filter_append before created using cnt by simp
  with s0 lines cnt show ?thesis by blast
qed

theorem C10_witness:
  "fst (custom_create_lines ex_env (ex_account 11 ''AZ01'') ex_batch ex_world)
     = Inr [ex_line 10 (PStr ''T2''), ex_line 10 PNone, ex_line 10 (PStr ''T2'')]
   \<and> statement_lines (snd (custom_create_lines ex_env (ex_account 11 ''AZ01'') ex_batch ex_world))
     = statement_lines ex_world
       @ [ex_line 10 (PStr ''T2''), ex_line 10 PNone, ex_line 10 (PStr ''T2'')]
   \<and> PStr ''T2'' \<notin> persisted_ids 10 ex_world
   \<and> length (filter (\<lambda>t. dict_get t ''online_transaction_identifier'' = PStr ''T2'') ex_batch) = 2
   \<and> length (filter (\<lambda>l. sl_journal_id l = 10 \<and> sl_online_transaction_identifier l = PStr ''T2'')
         (statement_lines ex_world)) = 0
   \<and> length (filter (\<lambda>l. sl_journal_id l = 10 \<and> sl_online_transaction_identifier l = PStr ''T2'')
         (statement_lines (snd (custom_create_lines ex_env (ex_account 11 ''AZ01'') ex_batch ex_world))))
       = 2"
proof -
  have p: "PStr ''T2'' \<notin> persisted_ids 10 ex_world" by (simp add: persisted_ids_def)
  have t: "truthy (PStr ''T2'')" by simp
  have f: "length (filter (\<lambda>t. dict_get t ''online_transaction_identifier'' = PStr ''T2'') ex_batch) = 2"
    by (simp add: ex_batch_def)
  have b: "length (filter (\<lambda>l. sl_journal_id l = 10 \<and> sl_online_transaction_identifier l = PStr ''T2'')
         (statement_lines ex_world)) = 0" by simp
  show ?thesis
    using C10_no_dedup_within_batch[OF ex_run ex_resolved t p] p f b by (simp add: ex_run)
qed

section \<open>Token, requests and the synchronisation loop\<close>

lemma parse_error_frame:
  "parse_error err w = (msg, w') \<Longrightarrow>
   link w' = link w \<and> net_out w' = net_out w \<and> net_in w' = net_in w
   \<and> accounts w' = accounts w \<and> journals w' = journals w
   \<and> statement_lines w' = statement_lines w"
  by (auto simp: parse_error_def split: error.splits)

lemma http_send_eq:
  "http_send rq w =
     (case net_in w of [] \<Rightarrow> NoResponse ''no response'' | r # rs \<Rightarrow> r,
      w\<lparr>net_in := tl (net_in w), net_out := net_out w @ [rq]\<rparr>)"
  by (cases "net_in w") (simp_all add: http_send_def)

lemma get_birbank_token_cached:
  "\<not> force_refresh \<Longrightarrow> cached_token_valid e (link w) \<Longrightarrow>
   get_birbank_token e force_refresh w = (Inr (birbank_jwt_token (link w)), w)"
  by (simp add: get_birbank_token_def)

lemma get_birbank_token_login:
  assumes "force_refresh \<or> \<not> cached_token_valid e (link w)"
  shows "get_birbank_token e force_refresh w =
     (let resp = (case net_in w of [] \<Rightarrow> NoResponse ''no response'' | r # rs \<Rightarrow> r);
          w1 = w\<lparr>net_in := tl (net_in w), net_out := net_out w @ [login_request (link w)]\<rparr>
      in case login_token resp of
           Inr token \<Rightarrow>
             (Inr token,
              w1\<lparr>link := (link w)\<lparr>birbank_jwt_token := token,
                                    birbank_token_expiry := Some (now e + 50 * 60)\<rparr>\<rparr>)
         | Inl err \<Rightarrow> (Inl (UserError (''Auth Error: '' @ fst (parse_error err w1))),
                        snd (parse_error err w1)))"
  using assms
  by (auto simp: get_birbank_token_def http_send_eq Let_def split: sum.splits prod.splits)

lemma get_birbank_token_login_sent:
  assumes "force_refresh \<or> \<not> cached_token_valid e (link w)"
  shows "net_out (snd (get_birbank_token e force_refresh w)) = net_out w @ [login_request (link w)]"
proof -
  let ?w1 = "w\<lparr>net_in := tl (net_in w), net_out := net_out w @ [login_request (link w)]\<rparr>"
  have "net_out (snd (parse_error err ?w1)) = net_out ?w1" for err
    using parse_error_frame[of err ?w1] by (cases "parse_error err ?w1") simp
  then show ?thesis
    unfolding get_birbank_token_login[OF assms]
    by (simp add: Let_def split: sum.splits)
qed

lemma get_birbank_token_sent:
  assumes "force_refresh \<or> \<not> cached_token_valid e (link w)"
    and "http_send (login_request (link w)) w = (r, w1)"
  shows "get_birbank_token e force_refresh w =
     (case login_token r of
        Inr token \<Rightarrow>
          (Inr token,
           w1\<lparr>link := (link w)\<lparr>birbank_jwt_token := token,
                                 birbank_token_expiry := Some (now e + 50 * 60)\<rparr>\<rparr>)
      | Inl err \<Rightarrow> (Inl (UserError (''Auth Error: '' @ fst (parse_error err w1))),
                     snd (parse_error err w1)))"
proof -
  from assms(2) have "link w1 = link w" by (auto simp: http_send_def split: list.splits)
  with assms show ?thesis
    by (auto simp: get_birbank_token_def split: sum.splits prod.splits)
qed

lemma login_token_found:
  assumes "\<not> (400 \<le> st \<and> st < 600)"
    and "map_of kvs ''responseData'' = Some (PDict rd)"
    and "map_of rd ''jwttoken'' = Some token"
  shows "login_token (Response st body (Inr (PDict kvs))) =
           (if truthy token then Inr token else Inl (UserError ''No token returned.''))"
  using assms by (simp add: login_token_def response_json_def py_get_def)

lemma login_token_missing:
  assumes "\<not> (400 \<le> st \<and> st < 600)"
    and "map_of kvs ''responseData'' = None
         \<or> (\<exists>rd. map_of kvs ''responseData'' = Some (PDict rd) \<and> map_of rd ''jwttoken'' = None)"
  shows "login_token (Response st body (Inr (PDict kvs))) = Inl (UserError ''No token returned.'')"
  using assms by (auto simp: login_token_def response_json_def py_get_def)

lemma login_token_transport:
  "login_token (NoResponse m) = Inl (RequestError m)"
  by (simp add: login_token_def response_json_def)

lemma parse_error_plain:
  "parse_error (UserError m) w = (m, w)" "parse_error (RequestError m) w = (m, w)"
  by (simp_all add: parse_error_def)

lemma fetch_never_raises:
  "fetch_odoo_fin_transactions e a df dt w =
     (case fst (fetch_transactions_try e a df dt w) of
        Inr txs \<Rightarrow> Inr txs
      | Inl err \<Rightarrow> Inr [],
      snd (fetch_odoo_fin_transactions e a df dt w))"
  by (auto simp: fetch_odoo_fin_transactions_def split: prod.splits sum.splits)

lemma retrieve_transactions_eq:
  "fst (retrieve_transactions e a ds w) =
     (case fst (fetch_odoo_fin_transactions e a
                  (case ds of Some d \<Rightarrow> Some d | None \<Rightarrow> birbank_initial_sync_date (link w))
                  (Some (today e)) w) of
        Inr txs \<Rightarrow> txs | Inl err \<Rightarrow> [])"
  by (auto simp: retrieve_transactions_def Let_def split: prod.splits sum.splits)

lemma fetch_loop_skip:
  "retrieve_transactions e a None w = ([], w1) \<Longrightarrow>
   fetch_loop e target (a # rest) n w = fetch_loop e target rest n w1"
  by simp

lemma fetch_loop_created:
  "retrieve_transactions e a None w = (txs, w1) \<Longrightarrow> txs \<noteq> [] \<Longrightarrow>
   custom_create_lines e a txs w1 = (Inr new_lines, w2) \<Longrightarrow>
   fetch_loop e target (a # rest) n w = fetch_loop e target rest (n + length new_lines) w2"
  by simp

lemma fetch_loop_failed:
  "retrieve_transactions e a None w = (txs, w1) \<Longrightarrow> txs \<noteq> [] \<Longrightarrow>
   custom_create_lines e a txs w1 = (Inl inner_e, w2) \<Longrightarrow>
   fetch_loop e target (a # rest) n w =
     (if target_given target
      then (Inl (UserError (''Database Write Error on '' @ py_str e (a_name a) @ '': ''
                             @ exc_str inner_e)),
            log_write_failed inner_e w2)
      else fetch_loop e target rest n (log_write_failed inner_e w2))"
  by simp

lemma fetch_loop_untargeted:
  "\<not> target_given target \<Longrightarrow> \<exists>n' w'. fetch_loop e target accs n w = (Inr n', w')"
proof (induction accs arbitrary: n w)
  case Nil
  then show ?case by simp
next
  case (Cons a accs)
  obtain txs w1 where r: "retrieve_transactions e a None w = (txs, w1)"
    by (cases "retrieve_transactions e a None w")
  show ?case
  proof (cases "txs = []")
    case True
    with r Cons show ?thesis by simp
  next
    case False
    obtain res w2 where c: "custom_create_lines e a txs w1 = (res, w2)"
      by (cases "custom_create_lines e a txs w1")
    show ?thesis
    proof (cases res)
      case (Inl inner_e)
      with r False c Cons show ?thesis by simp
    next
      case (Inr new_lines)
      with r False c Cons show ?thesis by simp
    qed
  qed
qed

lemma fetch_loop_raises_user_error:
  "fetch_loop e target accs n w = (Inl err, w') \<Longrightarrow> \<exists>m. err = UserError m"
proof (induction accs arbitrary: n w)
  case Nil
  then show ?case by simp
next
  case (Cons a accs)
  obtain txs w1 where r: "retrieve_transactions e a None w = (txs, w1)"
    by (cases "retrieve_transactions e a None w")
  show ?case
  proof (cases "txs = []")
    case True
    with r Cons show ?thesis by simp
  next
    case False
    obtain res w2 where c: "custom_create_lines e a txs w1 = (res, w2)"
      by (cases "custom_create_lines e a txs w1")
    show ?thesis
    proof (cases res)
      case (Inl inner_e)
      with r False c Cons show ?thesis by (auto split: if_splits)
    next
      case (Inr new_lines)
      with r False c Cons show ?thesis by simp
    qed
  qed
qed

declare fetch_loop.simps [simp del]

lemma action_fetch_raises:
  assumes "fetch_loop e target (accounts_to_process target (mark_connected w)) 0 (mark_connected w)
           = (Inl err, w2)"
  shows "action_fetch_transactions e target w =
           (Inl err, w2\<lparr>logs := logs w2 @ [LogError ''[BIRBANK] Manual Sync CRASH: '', LogTraceback],
                        link := (link w2)\<lparr>last_error_message := Some (exc_str err),
                                              state := Error\<rparr>\<rparr>)"
proof -
  obtain m where "err = UserError m" using fetch_loop_raises_user_error[OF assms] by blast
  with assms show ?thesis
    by (simp add: action_fetch_transactions_def fetch_failed_def Let_def)
qed

lemma action_fetch_succeeds:
  assumes "fetch_loop e target (accounts_to_process target (mark_connected w)) 0 (mark_connected w)
           = (Inr n, w2)"
  shows "action_fetch_transactions e target w =
           (Inr (sync_successful n),
            if \<not> target_given target \<or> length (own_accounts w2) = 1
            then mark_success e w2 else w2)"
  using assms by (simp add: action_fetch_transactions_def)

lemma http_send_frame:
  "http_send rq w = (r, w') \<Longrightarrow>
   accounts w' = accounts w \<and> journals w' = journals w \<and> statement_lines w' = statement_lines w
   \<and> link w' = link w \<and> logs w' = logs w"
  by (auto simp: http_send_def split: list.splits)

lemma get_birbank_token_frame:
  assumes "get_birbank_token e f w = (r, w')"
  shows "accounts w' = accounts w \<and> journals w' = journals w
         \<and> statement_lines w' = statement_lines w"
proof (cases "\<not> f \<and> cached_token_valid e (link w)")
  case True
  with assms show ?thesis by (simp add: get_birbank_token_def)
next
  case False
  obtain resp w1 where s: "http_send (login_request (link w)) w = (resp, w1)"
    by (cases "http_send (login_request (link w)) w")
  note f1 = http_send_frame[OF s]
  show ?thesis
  proof (cases "login_token resp")
    case (Inr token)
    with False s assms f1 show ?thesis
      by (auto simp: get_birbank_token_def)
  next
    case (Inl err)
    obtain msg w2 where p: "parse_error err w1 = (msg, w2)" by (cases "parse_error err w1")
    note f2 = parse_error_frame[OF p]
    from False s assms Inl p have "w' = w2" by (auto simp: get_birbank_token_def)
    with f1 f2 show ?thesis by simp
  qed
qed

lemma fetch_transactions_try_frame:
  assumes "fetch_transactions_try e a df dt w = (r, w')"
  shows "accounts w' = accounts w \<and> journals w' = journals w
         \<and> statement_lines w' = statement_lines w"
proof -
  obtain tr w1 where t: "get_birbank_token e False w = (tr, w1)"
    by (cases "get_birbank_token e False w")
  note f1 = get_birbank_token_frame[OF t]
  show ?thesis
  proof (cases tr)
    case (Inl err)
    with t assms f1 show ?thesis by (simp add: fetch_transactions_try_def)
  next
    case (Inr token)
    show ?thesis
    proof (cases "truthy (acc_num_of a)")
      case False
      with t Inr assms f1 show ?thesis by (auto simp: fetch_transactions_try_def Let_def)
    next
      case True
      show ?thesis
      proof (cases "case df of Some d \<Rightarrow> Some d | None \<Rightarrow> birbank_initial_sync_date (link w1)")
        case None
        with True t Inr assms f1 show ?thesis by (auto simp: fetch_transactions_try_def Let_def)
      next
        case (Some d)
        let ?rq = "GetStatement (get_birbank_base_url (link w1) @ ''/v2/statement/account'')
                                token (acc_num_of a) (strftime_dmy e d)
                                (strftime_dmy e (case dt of Some d \<Rightarrow> d | None \<Rightarrow> today e))"
        obtain resp w2 where s: "http_send ?rq w1 = (resp, w2)" by (cases "http_send ?rq w1")
        note f2 = http_send_frame[OF s]
        from Some True t Inr assms s have "w' = w2"
          by (auto simp: fetch_transactions_try_def Let_def)
        with f1 f2 show ?thesis by simp
      qed
    qed
  qed
qed

lemma fetch_odoo_fin_transactions_frame:
  assumes "fetch_odoo_fin_transactions e a df dt w = (r, w')"
  shows "accounts w' = accounts w \<and> journals w' = journals w
         \<and> statement_lines w' = statement_lines w"
proof -
  obtain tr w1 where t: "fetch_transactions_try e a df dt w = (tr, w1)"
    by (cases "fetch_transactions_try e a df dt w")
  note f1 = fetch_transactions_try_frame[OF t]
  show ?thesis
  proof (cases tr)
    case (Inr txs)
    with t assms f1 show ?thesis by (simp add: fetch_odoo_fin_transactions_def)
  next
    case (Inl err)
    obtain msg w2 where p: "parse_error err w1 = (msg, w2)" by (cases "parse_error err w1")
    note f2 = parse_error_frame[OF p]
    from t Inl p assms f1 f2 show ?thesis by (auto simp: fetch_odoo_fin_transactions_def)
  qed
qed

lemma retrieve_transactions_frame:
  assumes "retrieve_transactions e a ds w = (txs, w')"
  shows "accounts w' = accounts w \<and> journals w' = journals w
         \<and> statement_lines w' = statement_lines w"
proof -
  let ?df = "case ds of Some d \<Rightarrow> Some d | None \<Rightarrow> birbank_initial_sync_date (link w)"
  obtain r w1 where f: "fetch_odoo_fin_transactions e a ?df (Some (today e)) w = (r, w1)"
    by (cases "fetch_odoo_fin_transactions e a ?df (Some (today e)) w")
  note f1 = fetch_odoo_fin_transactions_frame[OF f]
  from f assms f1 show ?thesis
    by (cases r) (auto simp: retrieve_transactions_def Let_def)
qed

lemma custom_create_lines_failure:
  assumes "custom_create_lines e a txs w = (Inl err, w')"
  shows "statement_lines w' = statement_lines w \<and> journals w' = journals w"
  using assms unfolding custom_create_lines_def create_lines_def
  by (auto split: prod.splits sum.splits if_splits dest: resolve_journal_frame)

text \<open>
  The log only grows along a synchronisation; the loop over a list of accounts is the loop
  over its first part followed by the loop over the rest; and what the action returns.
\<close>

lemma parse_error_logs:
  "parse_error err w = (msg, w') \<Longrightarrow> set (logs w) \<subseteq> set (logs w')"
  by (auto simp: parse_error_def split: error.splits)

lemma get_birbank_token_logs:
  assumes "get_birbank_token e f w = (r, w')"
  shows "set (logs w) \<subseteq> set (logs w')"
proof (cases "\<not> f \<and> cached_token_valid e (link w)")
  case True
  with assms show ?thesis by (simp add: get_birbank_token_def)
next
  case False
  obtain resp w1 where s: "http_send (login_request (link w)) w = (resp, w1)"
    by (cases "http_send (login_request (link w)) w")
  note f1 = http_send_frame[OF s]
  show ?thesis
  proof (cases "login_token resp")
    case (Inr token)
    with False s assms f1 show ?thesis
      by (auto simp: get_birbank_token_def)
  next
    case (Inl err)
    obtain msg w2 where p: "parse_error err w1 = (msg, w2)" by (cases "parse_error err w1")
    note f2 = parse_error_logs[OF p]
    from False s assms Inl p have "w' = w2" by (auto simp: get_birbank_token_def)
    with f1 f2 show ?thesis by simp
  qed
qed

lemma fetch_transactions_try_logs:
  assumes "fetch_transactions_try e a df dt w = (r, w')"
  shows "set (logs w) \<subseteq> set (logs w')"
proof -
  obtain tr w1 where t: "get_birbank_token e False w = (tr, w1)"
    by (cases "get_birbank_token e False w")
  note f1 = get_birbank_token_logs[OF t]
  show ?thesis
  proof (cases tr)
    case (Inl err)
    with t assms f1 show ?thesis by (simp add: fetch_transactions_try_def)
  next
    case (Inr token)
    show ?thesis
    proof (cases "truthy (acc_num_of a)")
      case False
      with t Inr assms f1 show ?thesis by (auto simp: fetch_transactions_try_def Let_def)
    next
      case True
      show ?thesis
      proof (cases "case df of Some d \<Rightarrow> Some d | None \<Rightarrow> birbank_initial_sync_date (link w1)")
        case None
        with True t Inr assms f1 show ?thesis by (auto simp: fetch_transactions_try_def Let_def)
      next
        case (Some d)
        let ?rq = "GetStatement (get_birbank_base_url (link w1) @ ''/v2/statement/account'')
                                token (acc_num_of a) (strftime_dmy e d)
                                (strftime_dmy e (case dt of Some d \<Rightarrow> d | None \<Rightarrow> today e))"
        obtain resp w2 where s: "http_send ?rq w1 = (resp, w2)" by (cases "http_send ?rq w1")
        note f2 = http_send_frame[OF s]
        from Some True t Inr assms s have "w' = w2"
          by (auto simp: fetch_transactions_try_def Let_def)
        with f1 f2 show ?thesis by simp
      qed
    qed
  qed
qed

lemma fetch_odoo_fin_transactions_logs:
  assumes "fetch_odoo_fin_transactions e a df dt w = (r, w')"
  shows "set (logs w) \<subseteq> set (logs w')"
proof -
  obtain tr w1 where t: "fetch_transactions_try e a df dt w = (tr, w1)"
    by (cases "fetch_transactions_try e a df dt w")
  note f1 = fetch_transactions_try_logs[OF t]
  show ?thesis
  proof (cases tr)
    case (Inr txs)
    with t assms f1 show ?thesis by (simp add: fetch_odoo_fin_transactions_def)
  next
    case (Inl err)
    obtain msg w2 where p: "parse_error err w1 = (msg, w2)" by (cases "parse_error err w1")
    note f2 = parse_error_logs[OF p]
    from t Inl p assms f1 f2 show ?thesis by (auto simp: fetch_odoo_fin_transactions_def)
  qed
qed

lemma retrieve_transactions_logs:
  assumes "retrieve_transactions e a ds w = (txs, w')"
  shows "set (logs w) \<subseteq> set (logs w')"
proof -
  let ?df = "case ds of Some d \<Rightarrow> Some d | None \<Rightarrow> birbank_initial_sync_date (link w)"
  obtain r w1 where f: "fetch_odoo_fin_transactions e a ?df (Some (today e)) w = (r, w1)"
    by (cases "fetch_odoo_fin_transactions e a ?df (Some (today e)) w")
  note f1 = fetch_odoo_fin_transactions_logs[OF f]
  from f assms f1 show ?thesis
    by (cases r) (auto simp: retrieve_transactions_def Let_def)
qed

lemma custom_create_lines_logs:
  assumes "custom_create_lines e a txs w = (r, w')"
  shows "logs w' = logs w"
  using assms unfolding custom_create_lines_def create_lines_def
  by (auto split: prod.splits sum.splits if_splits dest: resolve_journal_frame)

lemma fetch_loop_logs:
  "fetch_loop e target accs n w = (r, w') \<Longrightarrow> set (logs w) \<subseteq> set (logs w')"
proof (induction accs arbitrary: n w)
  case Nil
  then show ?case by (simp add: fetch_loop.simps(1))
next
  case (Cons a accs)
  obtain txs w1 where rt: "retrieve_transactions e a None w = (txs, w1)"
    by (cases "retrieve_transactions e a None w")
  note l1 = retrieve_transactions_logs[OF rt]
  show ?case
  proof (cases "txs = []")
    case True
    with rt Cons.prems have "fetch_loop e target accs n w1 = (r, w')"
      by (simp add: fetch_loop_skip)
    from Cons.IH[OF this] l1 show ?thesis by blast
  next
    case False
    obtain c w2 where cc: "custom_create_lines e a txs w1 = (c, w2)"
      by (cases "custom_create_lines e a txs w1")
    note l2 = custom_create_lines_logs[OF cc]
    show ?thesis
    proof (cases c)
      case (Inr new_lines)
      with rt False cc Cons.prems
      have "fetch_loop e target accs (n + length new_lines) w2 = (r, w')"
        by (simp add: fetch_loop_created)
      from Cons.IH[OF this] l1 l2 show ?thesis by auto
    next
      case (Inl inner_e)
      have l3: "set (logs w2) \<subseteq> set (logs (log_write_failed inner_e w2))"
        by (auto simp: log_write_failed_def)
      show ?thesis
      proof (cases "target_given target")
        case True
        with rt False cc Inl Cons.prems have "w' = log_write_failed inner_e w2"
          by (simp add: fetch_loop_failed)
        with l1 l2 l3 show ?thesis by auto
      next
        case nt: False
        with rt False cc Inl Cons.prems
        have "fetch_loop e target accs n (log_write_failed inner_e w2) = (r, w')"
          by (simp add: fetch_loop_failed)
        from Cons.IH[OF this] l1 l2 l3 show ?thesis by auto
      qed
    qed
  qed
qed

lemma fetch_loop_append:
  "fetch_loop e target pre n w = (Inr n', w') \<Longrightarrow>
   fetch_loop e target (pre @ accs) n w = fetch_loop e target accs n' w'"
proof (induction pre arbitrary: n w)
  case Nil
  then show ?case by (simp add: fetch_loop.simps(1))
next
  case (Cons a pre)
  obtain txs w1 where rt: "retrieve_transactions e a None w = (txs, w1)"
    by (cases "retrieve_transactions e a None w")
  show ?case
  proof (cases "txs = []")
    case True
    with rt Cons.prems have "fetch_loop e target pre n w1 = (Inr n', w')"
      by (simp add: fetch_loop_skip)
    from Cons.IH[OF this] rt True show ?thesis by (simp add: fetch_loop_skip)
  next
    case False
    obtain c w2 where cc: "custom_create_lines e a txs w1 = (c, w2)"
      by (cases "custom_create_lines e a txs w1")
    show ?thesis
    proof (cases c)
      case (Inr new_lines)
      with rt False cc Cons.prems
      have "fetch_loop e target pre (n + length new_lines) w2 = (Inr n', w')"
        by (simp add: fetch_loop_created)
      from Cons.IH[OF this] rt False cc Inr show ?thesis by (simp add: fetch_loop_created)
    next
      case (Inl inner_e)
      show ?thesis
      proof (cases "target_given target")
        case True
        with rt False cc Inl Cons.prems show ?thesis by (simp add: fetch_loop_failed)
      next
        case nt: False
        with rt False cc Inl Cons.prems
        have "fetch_loop e target pre n (log_write_failed inner_e w2) = (Inr n', w')"
          by (simp add: fetch_loop_failed)
        from Cons.IH[OF this] rt False cc Inl nt show ?thesis by (simp add: fetch_loop_failed)
      qed
    qed
  qed
qed

lemma fetch_loop_raises_targeted:
  "fetch_loop e target accs n w = (Inl err, w') \<Longrightarrow> target_given target"
  using fetch_loop_untargeted[of target e accs n w] by auto

lemma action_fetch_untargeted:
  assumes "\<not> target_given target"
  shows "\<exists>n w2. fetch_loop e target (accounts_to_process target (mark_connected w)) 0 (mark_connected w)
                  = (Inr n, w2)
               \<and> action_fetch_transactions e target w = (Inr (sync_successful n), mark_success e w2)"
proof -
  obtain n w2 where
    l: "fetch_loop e target (accounts_to_process target (mark_connected w)) 0 (mark_connected w)
        = (Inr n, w2)"
    using fetch_loop_untargeted[OF assms] by blast
  then show ?thesis using assms by (simp add: action_fetch_succeeds)
qed

lemma action_fetch_outcome:
  "(\<exists>n. fst (action_fetch_transactions e target w) = Inr (sync_successful n))
   \<or> (\<exists>m. fst (action_fetch_transactions e target w) = Inl (UserError m)
          \<and> target_given target
          \<and> state (link (snd (action_fetch_transactions e target w))) = Error
          \<and> last_error_message (link (snd (action_fetch_transactions e target w))) = Some m)"
proof -
  let ?loop = "fetch_loop e target (accounts_to_process target (mark_connected w)) 0 (mark_connected w)"
  obtain r w2 where l: "?loop = (r, w2)" by (cases ?loop)
  show ?thesis
  proof (cases r)
    case (Inr n)
    with l show ?thesis by (auto simp: action_fetch_succeeds)
  next
    case (Inl err')
    with l have l': "?loop = (Inl err', w2)" by simp
    obtain m where m: "err' = UserError m" using fetch_loop_raises_user_error[OF l'] by blast
    have t: "target_given target" using fetch_loop_raises_targeted[OF l'] .
    from l' m t show ?thesis by (simp add: action_fetch_raises)
  qed
qed

lemma action_fetch_logged_failure:
  assumes u: "\<not> target_given target"
    and ap: "accounts_to_process target (mark_connected w) = pre @ a # rest"
    and before: "fetch_loop e target pre 0 (mark_connected w) = (Inr n', w')"
    and got: "retrieve_transactions e a None w' = (txs, w1)" and some: "txs \<noteq> []"
    and failed: "custom_create_lines e a txs w1 = (Inl inner_e, w2)"
  shows "\<exists>n w3. action_fetch_transactions e target w = (Inr (sync_successful n), mark_success e w3)
            \<and> LogError (''[BIRBANK] Database Write Failed: '' @ exc_str inner_e) \<in> set (logs w3)"
proof -
  obtain n w3 where
    l: "fetch_loop e target rest n' (log_write_failed inner_e w2) = (Inr n, w3)"
    using fetch_loop_untargeted[OF u] by blast
  have "fetch_loop e target (pre @ a # rest) 0 (mark_connected w)
        = fetch_loop e target (a # rest) n' w'"
    by (rule fetch_loop_append[OF before])
  also have "\<dots> = fetch_loop e target rest n' (log_write_failed inner_e w2)"
    using u by (simp add: fetch_loop_failed[OF got some failed])
  finally have "fetch_loop e target (accounts_to_process target (mark_connected w)) 0 (mark_connected w)
        = (Inr n, w3)"
    unfolding ap using l by simp
  then have r: "action_fetch_transactions e target w = (Inr (sync_successful n), mark_success e w3)"
    using u by (simp add: action_fetch_succeeds)
  have "LogError (''[BIRBANK] Database Write Failed: '' @ exc_str inner_e)
          \<in> set (logs (log_write_failed inner_e w2))"
    by (simp add: log_write_failed_def)
  with fetch_loop_logs[OF l] r show ?thesis by blast
qed

lemma fetch_failed_link:
  "link (snd (fetch_failed err w)) = (link w)\<lparr>last_error_message := Some (exc_str err), state := Error\<rparr>"
  by (cases err) (simp_all add: fetch_failed_def Let_def)

lemma init_failed_eq:
  "fst (init_failed err w) = Inl (UserError (''Connection Failed: '' @ exc_str err))
   \<and> last_error_message (link (snd (init_failed err w))) = Some (exc_str err)"
  by (simp add: init_failed_def Let_def)

subsection \<open>The sample connection, evaluated\<close>

lemma ex_env_sel [simp]:
  "now ex_env = 1000000" "today ex_env = 20000" "float_of_str ex_env = (\<lambda>s. None)"
  "strptime_date ex_env = (\<lambda>s. None)" "strftime_dmy ex_env = (\<lambda>d. ''01-01-2026'')"
  "str_other ex_env = (\<lambda>v. ''None'')" "has_journal_id ex_env = False"
  by (simp_all add: ex_env_def)

lemma ex_link_sel [simp]:
  "l_id ex_link = 7" "birbank_env ex_link = Live" "birbank_username ex_link = PStr ''u''"
  "birbank_password ex_link = PStr ''p''" "birbank_initial_sync_date ex_link = Some 19900"
  "state ex_link = Connected" "last_success_date ex_link = None"
  "last_error_message ex_link = None" "birbank_jwt_token ex_link = PStr ''tok''"
  "birbank_token_expiry ex_link = Some 1003000"
  by (simp_all add: ex_link_def)

lemma ex_account_sel [simp]:
  "a_id (ex_account i iban) = i" "a_name (ex_account i iban) = PStr ''Main''"
  "online_identifier (ex_account i iban) = PStr iban" "account_number (ex_account i iban) = PNone"
  "account_online_link_id (ex_account i iban) = 7" "journal_id (ex_account i iban) = None"
  by (simp_all add: ex_account_def)

lemma ex_statement_entry:
  "statement_entry ex_env (PDict [(''trnRefNo'', r), (''purpose'', PStr ''rent''), (''lcyAmount'', PNum 5)])
   = Inr (ex_tx r)"
  by (simp add: statement_entry_def py_get_def py_float_def ex_tx_def)

lemma ex_statement_entries:
  "map_result (statement_entry ex_env)
     (map (\<lambda>r. PDict [(''trnRefNo'', r), (''purpose'', PStr ''rent''), (''lcyAmount'', PNum 5)]) refs)
   = Inr (map ex_tx refs)"
  by (induction refs) (simp_all add: ex_statement_entry)

lemma ex_statements: "statements_of_response ex_env (ex_statement refs) = Inr (map ex_tx refs)"
  by (simp add: statements_of_response_def ex_statement_def response_json_def py_get_def
        py_iter_def ex_statement_entries)

lemma ex_token:
  "link w = ex_link \<Longrightarrow> get_birbank_token ex_env False w = (Inr (PStr ''tok''), w)"
  by (simp add: get_birbank_token_def cached_token_valid_def)

lemma ex_retrieve:
  assumes "link w = ex_link" and "net_in w = ex_statement refs # rest" and "iban \<noteq> []"
  shows "retrieve_transactions ex_env (ex_account i iban) None w =
           (map ex_tx refs, w\<lparr>net_in := rest, net_out := net_out w @ [ex_request iban]\<rparr>)"
proof -
  have t: "fetch_transactions_try ex_env (ex_account i iban) (Some 19900) (Some 20000) w =
           (Inr (map ex_tx refs), w\<lparr>net_in := rest, net_out := net_out w @ [ex_request iban]\<rparr>)"
    using assms
    by (simp add: fetch_transactions_try_def ex_token acc_num_of_def Let_def
          http_send_def ex_statements ex_request_def get_birbank_base_url_def)
  show ?thesis
    using assms(1)
    by (simp add: retrieve_transactions_def Let_def fetch_odoo_fin_transactions_def t)
qed

lemma ex_world_more_sel [simp]:
  "accounts ex_world = [ex_account 11 ''AZ01'', ex_account 12 ''AZ02'', ex_account 13 ''AZ03'']"
  "net_in ex_world = [ex_statement [PStr ''T1'', PStr ''T2''], ex_statement [PStr ''T3''],
                         ex_statement [PNone]]"
  "net_out ex_world = []" "logs ex_world = []"
  by (simp_all add: ex_world_def)

lemma ex_own_accounts:
  "link w = ex_link \<Longrightarrow> accounts w = accounts ex_world \<Longrightarrow>
   own_accounts w = [ex_account 11 ''AZ01'', ex_account 12 ''AZ02'', ex_account 13 ''AZ03'']"
  by (simp add: own_accounts_def)

lemma ex_mark_connected: "mark_connected ex_world = ex_world"
  by (simp add: mark_connected_def)

lemma ex_ccl_11:
  assumes "journals w = journals ex_world" and "statement_lines w = [ex_line 10 (PStr ''T1'')]"
  shows "custom_create_lines ex_env (ex_account 11 iban) [ex_tx (PStr ''T1''), ex_tx (PStr ''T2'')] w
         = (Inr [ex_line 10 (PStr ''T2'')],
            w\<lparr>statement_lines := [ex_line 10 (PStr ''T1''), ex_line 10 (PStr ''T2'')]\<rparr>)"
  using assms
  by (simp add: custom_create_lines_def ex_resolve existing_ids_def incoming_ids_def
        search_lines_def create_lines_def Let_def)

lemma ex_ccl_12:
  assumes "journals w = journals ex_world"
  shows "custom_create_lines ex_env (ex_account 12 iban) txs w = (Inl ex_no_journal, w)"
  using assms
  by (simp add: custom_create_lines_def resolve_journal_def compute_linked_journal_def
        search_journal_by_account_def ex_journal_def py_str_def ex_no_journal_def)

lemma ex_ccl_13:
  assumes "journals w = journals ex_world"
  shows "custom_create_lines ex_env (ex_account 13 iban) [ex_tx PNone] w
         = (Inr [ex_line 30 PNone], w\<lparr>statement_lines := statement_lines w @ [ex_line 30 PNone]\<rparr>)"
  using assms
  by (simp add: custom_create_lines_def resolve_journal_def compute_linked_journal_def
        search_journal_by_account_def ex_journal_def existing_ids_def incoming_ids_def
        create_lines_def)

lemma ex_step1:
  "retrieve_transactions ex_env (ex_account 11 ''AZ01'') None ex_world
     = ([ex_tx (PStr ''T1''), ex_tx (PStr ''T2'')], ex_w1)"
  "custom_create_lines ex_env (ex_account 11 ''AZ01'') [ex_tx (PStr ''T1''), ex_tx (PStr ''T2'')] ex_w1
     = (Inr [ex_line 10 (PStr ''T2'')], ex_w1')"
  unfolding ex_w1'_def
  by (simp_all add: ex_retrieve[where refs="[PStr ''T1'', PStr ''T2'']"] ex_ccl_11 ex_w1_def)

lemma ex_step2:
  "retrieve_transactions ex_env (ex_account 12 ''AZ02'') None ex_w1' = ([ex_tx (PStr ''T3'')], ex_w2)"
  "custom_create_lines ex_env (ex_account 12 ''AZ02'') [ex_tx (PStr ''T3'')] ex_w2
     = (Inl ex_no_journal, ex_w2)"
  unfolding ex_w2_def
  by (simp_all add: ex_retrieve[where refs="[PStr ''T3'']"] ex_ccl_12 ex_w1'_def ex_w1_def)

lemma ex_step3:
  "retrieve_transactions ex_env (ex_account 13 ''AZ03'') None (log_write_failed ex_no_journal ex_w2)
     = ([ex_tx PNone], ex_w3)"
  "custom_create_lines ex_env (ex_account 13 ''AZ03'') [ex_tx PNone] ex_w3 = (Inr [ex_line 30 PNone], ex_w3')"
  unfolding ex_w3'_def
  by (simp_all add: ex_retrieve[where refs="[PNone]"] ex_ccl_13 ex_w3_def ex_w2_def ex_w1'_def
        ex_w1_def log_write_failed_def)

lemma ex_final: "mark_success ex_env ex_w3' = ex_world_synced"
  by (simp add: mark_success_def ex_w3'_def ex_w3_def ex_w2_def ex_w1'_def ex_w1_def
        log_write_failed_def ex_world_synced_def ex_world_def ex_link_def)

lemma ex_loop:
  "fetch_loop ex_env None [ex_account 11 ''AZ01'', ex_account 12 ''AZ02'', ex_account 13 ''AZ03'']
     0 ex_world = (Inr 2, ex_w3')"
proof -
  have g: "\<not> target_given None" by (simp add: target_given_def)
  have "fetch_loop ex_env None [ex_account 11 ''AZ01'', ex_account 12 ''AZ02'', ex_account 13 ''AZ03'']
          0 ex_world
        = fetch_loop ex_env None [ex_account 12 ''AZ02'', ex_account 13 ''AZ03''] 1 ex_w1'"
    using fetch_loop_created[OF ex_step1(1) _ ex_step1(2)] by simp
  also have "\<dots> = fetch_loop ex_env None [ex_account 13 ''AZ03''] 1
                     (log_write_failed ex_no_journal ex_w2)"
    using fetch_loop_failed[OF ex_step2(1) _ ex_step2(2)] g by simp
  also have "\<dots> = fetch_loop ex_env None [] 2 ex_w3'"
    using fetch_loop_created[OF ex_step3(1) _ ex_step3(2), of None "[]" 1]
    by (simp add: numeral_2_eq_2)
  finally show ?thesis by (simp add: fetch_loop.simps(1))
qed

lemma ex_sync:
  "action_fetch_transactions ex_env None ex_world = (Inr (sync_successful 2), ex_world_synced)"
  using ex_loop
  by (simp add: action_fetch_succeeds ex_mark_connected accounts_to_process_def target_given_def
        ex_own_accounts ex_final)

lemma ex_stale_link_sel [simp]:
  "l_id ex_stale_link = 7" "birbank_env ex_stale_link = Live"
  "birbank_initial_sync_date ex_stale_link = Some 19900"
  "state ex_stale_link = Connected"
  "last_error_message ex_stale_link = Some ''Auth Error: timed out''"
  "birbank_jwt_token ex_stale_link = PStr ''tok''"
  "birbank_token_expiry ex_stale_link = Some 1003000"
  by (simp_all add: ex_stale_link_def)

lemma ex_stale_connected: "mark_connected ex_stale = ex_world\<lparr>link := ex_stale_link\<rparr>"
  by (simp add: mark_connected_def ex_stale_def ex_stale_link_def ex_link_def)

lemma ex_stale_retrieve:
  assumes "link w = ex_stale_link" and "net_in w = ex_statement refs # rest" and "iban \<noteq> []"
  shows "retrieve_transactions ex_env (ex_account i iban) None w =
           (map ex_tx refs, w\<lparr>net_in := rest, net_out := net_out w @ [ex_request iban]\<rparr>)"
proof -
  have k: "get_birbank_token ex_env False w = (Inr (PStr ''tok''), w)"
    using assms(1) by (simp add: get_birbank_token_def cached_token_valid_def)
  have t: "fetch_transactions_try ex_env (ex_account i iban) (Some 19900) (Some 20000) w =
           (Inr (map ex_tx refs), w\<lparr>net_in := rest, net_out := net_out w @ [ex_request iban]\<rparr>)"
    using assms
    by (simp add: fetch_transactions_try_def k acc_num_of_def Let_def
          http_send_def ex_statements ex_request_def get_birbank_base_url_def)
  show ?thesis
    using assms(1)
    by (simp add: retrieve_transactions_def Let_def fetch_odoo_fin_transactions_def t)
qed

lemma ex_stale_step1:
  "retrieve_transactions ex_env (ex_account 11 ''AZ01'') None (ex_world\<lparr>link := ex_stale_link\<rparr>)
     = ([ex_tx (PStr ''T1''), ex_tx (PStr ''T2'')], ex_w1\<lparr>link := ex_stale_link\<rparr>)"
  "custom_create_lines ex_env (ex_account 11 ''AZ01'') [ex_tx (PStr ''T1''), ex_tx (PStr ''T2'')]
       (ex_w1\<lparr>link := ex_stale_link\<rparr>)
     = (Inr [ex_line 10 (PStr ''T2'')], ex_w1'\<lparr>link := ex_stale_link\<rparr>)"
  unfolding ex_w1'_def
  by (simp_all add: ex_stale_retrieve[where refs="[PStr ''T1'', PStr ''T2'']"] ex_ccl_11 ex_w1_def)

lemma ex_stale_step2:
  "retrieve_transactions ex_env (ex_account 12 ''AZ02'') None (ex_w1'\<lparr>link := ex_stale_link\<rparr>)
     = ([ex_tx (PStr ''T3'')], ex_w2\<lparr>link := ex_stale_link\<rparr>)"
  "custom_create_lines ex_env (ex_account 12 ''AZ02'') [ex_tx (PStr ''T3'')] (ex_w2\<lparr>link := ex_stale_link\<rparr>)
     = (Inl ex_no_journal, ex_w2\<lparr>link := ex_stale_link\<rparr>)"
  unfolding ex_w2_def
  by (simp_all add: ex_stale_retrieve[where refs="[PStr ''T3'']"] ex_ccl_12 ex_w1'_def ex_w1_def)

lemma ex_stale_step3:
  "retrieve_transactions ex_env (ex_account 13 ''AZ03'') None
       (log_write_failed ex_no_journal (ex_w2\<lparr>link := ex_stale_link\<rparr>))
     = ([ex_tx PNone], ex_w3\<lparr>link := ex_stale_link\<rparr>)"
  "custom_create_lines ex_env (ex_account 13 ''AZ03'') [ex_tx PNone] (ex_w3\<lparr>link := ex_stale_link\<rparr>)
     = (Inr [ex_line 30 PNone], ex_w3'\<lparr>link := ex_stale_link\<rparr>)"
  unfolding ex_w3'_def
  by (simp_all add: ex_stale_retrieve[where refs="[PNone]"] ex_ccl_13 ex_w3_def ex_w2_def ex_w1'_def
        ex_w1_def log_write_failed_def)

lemma ex_stale_final: "mark_success ex_env (ex_w3'\<lparr>link := ex_stale_link\<rparr>) = ex_world_synced"
  by (simp add: mark_success_def ex_w3'_def ex_w3_def ex_w2_def ex_w1'_def ex_w1_def
        log_write_failed_def ex_world_synced_def ex_world_def ex_link_def ex_stale_link_def)

lemma ex_stale_accounts:
  "accounts_to_process None (mark_connected ex_stale)
   = [ex_account 11 ''AZ01''] @ ex_account 12 ''AZ02'' # [ex_account 13 ''AZ03'']"
  by (simp add: ex_stale_connected accounts_to_process_def target_given_def own_accounts_def)

lemma ex_stale_first:
  "fetch_loop ex_env None [ex_account 11 ''AZ01''] 0 (mark_connected ex_stale)
   = (Inr 1, ex_w1'\<lparr>link := ex_stale_link\<rparr>)"
  unfolding ex_stale_connected
  using fetch_loop_created[OF ex_stale_step1(1) _ ex_stale_step1(2), of None "[]" 0]
  by (simp add: fetch_loop.simps(1))

lemma ex_stale_sync:
  "action_fetch_transactions ex_env None ex_stale = (Inr (sync_successful 2), ex_world_synced)"
proof -
  have g: "\<not> target_given None" by (simp add: target_given_def)
  have "fetch_loop ex_env None ([ex_account 11 ''AZ01''] @ ex_account 12 ''AZ02'' # [ex_account 13 ''AZ03''])
          0 (mark_connected ex_stale)
        = fetch_loop ex_env None [ex_account 12 ''AZ02'', ex_account 13 ''AZ03''] 1
            (ex_w1'\<lparr>link := ex_stale_link\<rparr>)"
    by (rule fetch_loop_append[OF ex_stale_first])
  also have "\<dots> = fetch_loop ex_env None [ex_account 13 ''AZ03''] 1
                     (log_write_failed ex_no_journal (ex_w2\<lparr>link := ex_stale_link\<rparr>))"
    using fetch_loop_failed[OF ex_stale_step2(1) _ ex_stale_step2(2)] g by simp
  also have "\<dots> = fetch_loop ex_env None [] 2 (ex_w3'\<lparr>link := ex_stale_link\<rparr>)"
    using fetch_loop_created[OF ex_stale_step3(1) _ ex_stale_step3(2), of None "[]" 1]
    by (simp add: numeral_2_eq_2)
  finally have "fetch_loop ex_env None (accounts_to_process None (mark_connected ex_stale)) 0
                  (mark_connected ex_stale) = (Inr 2, ex_w3'\<lparr>link := ex_stale_link\<rparr>)"
    unfolding ex_stale_accounts by (simp add: fetch_loop.simps(1))
  then show ?thesis
    using g by (simp add: action_fetch_succeeds ex_stale_final)
qed

lemma ex_down_try:
  "fst (fetch_transactions_try ex_env (ex_account 11 ''AZ01'') (birbank_initial_sync_date (link ex_down))
          (Some (today ex_env)) ex_down) = Inl (HTTPError 500 ''oops'')"
  by (simp add: fetch_transactions_try_def ex_token ex_down_def acc_num_of_def Let_def
        http_send_def statements_of_response_def response_json_def)

lemma ex_targeted:
  "retrieve_transactions ex_env (ex_account 12 ''AZ02'') None ex_world
     = ([ex_tx (PStr ''T1''), ex_tx (PStr ''T2'')], ex_w1\<lparr>net_out := [ex_request ''AZ02'']\<rparr>)"
  "custom_create_lines ex_env (ex_account 12 ''AZ02'') [ex_tx (PStr ''T1''), ex_tx (PStr ''T2'')]
     (ex_w1\<lparr>net_out := [ex_request ''AZ02'']\<rparr>)
     = (Inl ex_no_journal, ex_w1\<lparr>net_out := [ex_request ''AZ02'']\<rparr>)"
  by (simp_all add: ex_retrieve[where refs="[PStr ''T1'', PStr ''T2'']"] ex_ccl_12 ex_w1_def)

lemma ex_init_offline:
  "action_initialize_connection ex_env ex_offline =
     (Inl (UserError ''Connection Failed: Auth Error: timed out''),
      ex_offline\<lparr>net_in := [], net_out := [login_request ex_draft_link],
                  logs := [LogError ''[BIRBANK] Init Failed: '', LogTraceback],
                  link := ex_draft_link\<lparr>last_error_message := Some ''Auth Error: timed out''\<rparr>\<rparr>)"
  by (simp add: action_initialize_connection_def get_birbank_token_def http_send_def
        ex_offline_def login_token_def response_json_def parse_error_def init_failed_def Let_def)

subsection \<open>Claims about the token, the fetch and the two actions\<close>

text \<open>
  C3. Without \<^verbatim>\<open>force_refresh\<close>, the token getter reuses the cached token exactly when a
  token is cached and its expiry is strictly later than now plus five minutes: then it
  returns the cached token and leaves the world as it is, so no request is sent. Otherwise
  it sends the login request. A token expiring in five minutes and one second is reused;
  one expiring in four minutes and fifty-nine seconds is not.
\<close>

theorem C3_cached_token_reuse:
  "(cached_token_valid e (link w) \<longleftrightarrow>
      truthy (birbank_jwt_token (link w))
      \<and> (\<exists>expiry. birbank_token_expiry (link w) = Some expiry \<and> now e + 5 * 60 < expiry))
   \<and> (cached_token_valid e (link w) \<longrightarrow>
        get_birbank_token e False w = (Inr (birbank_jwt_token (link w)), w))
   \<and> (\<not> cached_token_valid e (link w) \<longrightarrow>
        net_out (snd (get_birbank_token e False w)) = net_out w @ [login_request (link w)])
   \<and> (truthy (birbank_jwt_token (link w))
        \<and> birbank_token_expiry (link w) = Some (now e + (5 * 60 + 1)) \<longrightarrow>
        get_birbank_token e False w = (Inr (birbank_jwt_token (link w)), w))
   \<and> (birbank_token_expiry (link w) = Some (now e + (4 * 60 + 59)) \<longrightarrow>
        net_out (snd (get_birbank_token e False w)) = net_out w @ [login_request (link w)])"
proof (intro conjI impI)
  show "cached_token_valid e (link w) \<longleftrightarrow>
      truthy (birbank_jwt_token (link w))
      \<and> (\<exists>expiry. birbank_token_expiry (link w) = Some expiry \<and> now e + 5 * 60 < expiry)"
    by (auto simp: cached_token_valid_def split: option.splits)
next
  assume "cached_token_valid e (link w)"
  then show "get_birbank_token e False w = (Inr (birbank_jwt_token (link w)), w)"
    by (simp add: get_birbank_token_cached)
next
  assume "\<not> cached_token_valid e (link w)"
  then show "net_out (snd (get_birbank_token e False w)) = net_out w @ [login_request (link w)]"
    by (simp add: get_birbank_token_login_sent)
next
  assume "truthy (birbank_jwt_token (link w))
        \<and> birbank_token_expiry (link w) = Some (now e + (5 * 60 + 1))"
  then have "cached_token_valid e (link w)" by (simp add: cached_token_valid_def)
  then show "get_birbank_token e False w = (Inr (birbank_jwt_token (link w)), w)"
    by (simp add: get_birbank_token_cached)
next
  assume "birbank_token_expiry (link w) = Some (now e + (4 * 60 + 59))"
  then have "\<not> cached_token_valid e (link w)" by (simp add: cached_token_valid_def)
  then show "net_out (snd (get_birbank_token e False w)) = net_out w @ [login_request (link w)]"
    by (simp add: get_birbank_token_login_sent)
qed

theorem C3_witness:
  "get_birbank_token ex_env False ex_world = (Inr (PStr ''tok''), ex_world)
   \<and> get_birbank_token ex_env False ex_boundary = (Inr (PStr ''tok''), ex_boundary)
   \<and> net_out (snd (get_birbank_token ex_env False ex_expiring)) = [login_request (link ex_expiring)]"
proof -
  have a: "cached_token_valid ex_env (link ex_world)"
    by (simp add: cached_token_valid_def)
  have b: "birbank_token_expiry (link ex_expiring) = Some (now ex_env + (4 * 60 + 59))"
    by (simp add: ex_expiring_def)
  have c: "net_out ex_expiring = []" by (simp add: ex_expiring_def)
  have d: "truthy (birbank_jwt_token (link ex_boundary))
           \<and> birbank_token_expiry (link ex_boundary) = Some (now ex_env + (5 * 60 + 1))"
    "birbank_jwt_token (link ex_boundary) = PStr ''tok''"
    by (simp_all add: ex_boundary_def)
  show ?thesis
    using C3_cached_token_reuse[of ex_env ex_world] C3_cached_token_reuse[of ex_env ex_expiring]
          C3_cached_token_reuse[of ex_env ex_boundary] a b c d
    by simp
qed

text \<open>
  C4. When the token getter logs in (refresh forced, or no valid cached token) and the
  provider answers \<open>r\<close>: if \<open>r\<close> is no error response and its body holds a token at
  \<^verbatim>\<open>responseData.jwttoken\<close>, that token is returned and stored on the connection together
  with the expiry now plus fifty minutes, whatever else the body says; if the request got
  no response, or the body has no token there, a \<^verbatim>\<open>UserError\<close> is raised; and whenever
  no token can be extracted a \<^verbatim>\<open>UserError\<close> is raised and the connection record is left
  as it was.
\<close>

theorem C4_login_caches_token:
  assumes login: "force_refresh \<or> \<not> cached_token_valid e (link w)"
    and sent: "http_send (login_request (link w)) w = (r, w1)"
  shows "(\<forall>st body kvs rd token.
            r = Response st body (Inr (PDict kvs)) \<and> \<not> (400 \<le> st \<and> st < 600)
            \<and> map_of kvs ''responseData'' = Some (PDict rd)
            \<and> map_of rd ''jwttoken'' = Some token \<and> truthy token
            \<longrightarrow> get_birbank_token e force_refresh w =
                  (Inr token,
                   w1\<lparr>link := (link w)\<lparr>birbank_jwt_token := token,
                                         birbank_token_expiry := Some (now e + 50 * 60)\<rparr>\<rparr>))
       \<and> (\<forall>m. r = NoResponse m
            \<longrightarrow> get_birbank_token e force_refresh w = (Inl (UserError (''Auth Error: '' @ m)), w1))
       \<and> (\<forall>st body kvs.
            r = Response st body (Inr (PDict kvs)) \<and> \<not> (400 \<le> st \<and> st < 600)
            \<and> (map_of kvs ''responseData'' = None
                \<or> (\<exists>rd. map_of kvs ''responseData'' = Some (PDict rd)
                         \<and> map_of rd ''jwttoken'' = None))
            \<longrightarrow> get_birbank_token e force_refresh w =
                  (Inl (UserError ''Auth Error: No token returned.''), w1))
       \<and> (\<forall>err. login_token r = Inl err
            \<longrightarrow> (\<exists>msg. fst (get_birbank_token e force_refresh w) = Inl (UserError msg))
                \<and> link (snd (get_birbank_token e force_refresh w)) = link w)"
proof (intro conjI allI impI)
  fix st body kvs rd token
  assume "r = Response st body (Inr (PDict kvs)) \<and> \<not> (400 \<le> st \<and> st < 600)
            \<and> map_of kvs ''responseData'' = Some (PDict rd)
            \<and> map_of rd ''jwttoken'' = Some token \<and> truthy token"
  then have "login_token r = Inr token" by (simp add: login_token_found)
  then show "get_birbank_token e force_refresh w =
                  (Inr token,
                   w1\<lparr>link := (link w)\<lparr>birbank_jwt_token := token,
                                         birbank_token_expiry := Some (now e + 50 * 60)\<rparr>\<rparr>)"
    by (simp add: get_birbank_token_sent[OF login sent])
next
  fix m assume "r = NoResponse m"
  then have "login_token r = Inl (RequestError m)" by (simp add: login_token_transport)
  then show "get_birbank_token e force_refresh w = (Inl (UserError (''Auth Error: '' @ m)), w1)"
    by (simp add: get_birbank_token_sent[OF login sent] parse_error_plain)
next
  fix st body kvs
  assume "r = Response st body (Inr (PDict kvs)) \<and> \<not> (400 \<le> st \<and> st < 600)
            \<and> (map_of kvs ''responseData'' = None
                \<or> (\<exists>rd. map_of kvs ''responseData'' = Some (PDict rd)
                         \<and> map_of rd ''jwttoken'' = None))"
  then have "login_token r = Inl (UserError ''No token returned.'')"
    using login_token_missing by blast
  then show "get_birbank_token e force_refresh w =
                  (Inl (UserError ''Auth Error: No token returned.''), w1)"
    by (simp add: get_birbank_token_sent[OF login sent] parse_error_plain)
next
  fix err assume l: "login_token r = Inl err"
  then show "\<exists>msg. fst (get_birbank_token e force_refresh w) = Inl (UserError msg)"
    by (simp add: get_birbank_token_sent[OF login sent])
  from sent have "link w1 = link w" by (auto simp: http_send_def split: list.splits)
  moreover have "link (snd (parse_error err w1)) = link w1"
    using parse_error_frame[of err w1] by (cases "parse_error err w1") simp
  ultimately show "link (snd (get_birbank_token e force_refresh w)) = link w"
    using l by (simp add: get_birbank_token_sent[OF login sent])
qed

theorem C4_witness:
  "get_birbank_token ex_env True ex_online =
     (Inr (PStr ''abc''),
      ex_online\<lparr>net_in := [], net_out := [login_request ex_draft_link],
                 link := ex_draft_link\<lparr>birbank_jwt_token := PStr ''abc'',
                                         birbank_token_expiry := Some (1000000 + 50 * 60)\<rparr>\<rparr>)
   \<and> get_birbank_token ex_env False ex_offline =
     (Inl (UserError ''Auth Error: timed out''),
      ex_offline\<lparr>net_in := [], net_out := [login_request ex_draft_link]\<rparr>)"
proof -
  have s1: "http_send (login_request (link ex_online)) ex_online
            = (ex_login_ok, ex_online\<lparr>net_in := [], net_out := [login_request ex_draft_link]\<rparr>)"
    by (simp add: http_send_def ex_online_def)
  have s2: "http_send (login_request (link ex_offline)) ex_offline
            = (NoResponse ''timed out'', ex_offline\<lparr>net_in := [], net_out := [login_request ex_draft_link]\<rparr>)"
    by (simp add: http_send_def ex_offline_def)
  have l2: "False \<or> \<not> cached_token_valid ex_env (link ex_offline)"
    by (simp add: cached_token_valid_def ex_offline_def ex_draft_link_def)
  have l1: "True \<or> \<not> cached_token_valid ex_env (link ex_online)" by simp
  have k: "link ex_online = ex_draft_link" by (simp add: ex_online_def)
  show ?thesis
    using C4_login_caches_token[OF l1 s1] C4_login_caches_token[OF l2 s2] k
    by (simp add: ex_login_ok_def)
qed

text \<open>
  C6. When persisting the batch of account \<open>a\<close> fails in the loop of
  \<^verbatim>\<open>action_fetch_transactions\<close>, the error is logged; without a target the loop goes on
  with the remaining accounts and the same count; with a target the loop ends at once with
  a \<^verbatim>\<open>UserError\<close>, which the action raises to its caller.
\<close>

theorem C6_persist_failure_policy:
  assumes got: "retrieve_transactions e a None w = (txs, w1)" and some: "txs \<noteq> []"
    and failed: "custom_create_lines e a txs w1 = (Inl inner_e, w2)"
  shows "logs (log_write_failed inner_e w2) =
           logs w2 @ [LogError (''[BIRBANK] Database Write Failed: '' @ exc_str inner_e),
                      LogTraceback]
       \<and> (\<not> target_given target \<longrightarrow>
            fetch_loop e target (a # rest) n w =
              fetch_loop e target rest n (log_write_failed inner_e w2))
       \<and> (target_given target \<longrightarrow>
            fetch_loop e target (a # rest) n w =
              (Inl (UserError (''Database Write Error on '' @ py_str e (a_name a) @ '': ''
                                @ exc_str inner_e)),
               log_write_failed inner_e w2))
       \<and> (target_given target
            \<and> accounts_to_process target (mark_connected wa) = a # rest \<and> mark_connected wa = w
          \<longrightarrow> fst (action_fetch_transactions e target wa) =
                Inl (UserError (''Database Write Error on '' @ py_str e (a_name a) @ '': ''
                                 @ exc_str inner_e)))"
proof (intro conjI impI)
  show "logs (log_write_failed inner_e w2) =
           logs w2 @ [LogError (''[BIRBANK] Database Write Failed: '' @ exc_str inner_e),
                      LogTraceback]"
    by (simp add: log_write_failed_def)
next
  assume "\<not> target_given target"
  then show "fetch_loop e target (a # rest) n w =
              fetch_loop e target rest n (log_write_failed inner_e w2)"
    by (simp add: fetch_loop_failed[OF got some failed])
next
  assume "target_given target"
  then show "fetch_loop e target (a # rest) n w =
              (Inl (UserError (''Database Write Error on '' @ py_str e (a_name a) @ '': ''
                                @ exc_str inner_e)),
               log_write_failed inner_e w2)"
    by (simp add: fetch_loop_failed[OF got some failed])
next
  assume h: "target_given target
            \<and> accounts_to_process target (mark_connected wa) = a # rest \<and> mark_connected wa = w"
  then have t: "target_given target"
    and ap: "accounts_to_process target (mark_connected wa) = a # rest"
    and mc: "mark_connected wa = w" by blast+
  have "fetch_loop e target (a # rest) 0 w
      = (Inl (UserError (''Database Write Error on '' @ py_str e (a_name a) @ '': ''
                                @ exc_str inner_e)),
               log_write_failed inner_e w2)"
    using t by (simp add: fetch_loop_failed[OF got some failed])
  then have "fetch_loop e target (accounts_to_process target (mark_connected wa)) 0 (mark_connected wa)
      = (Inl (UserError (''Database Write Error on '' @ py_str e (a_name a) @ '': ''
                                @ exc_str inner_e)),
               log_write_failed inner_e w2)"
    unfolding ap unfolding mc .
  then show "fst (action_fetch_transactions e target wa) =
                Inl (UserError (''Database Write Error on '' @ py_str e (a_name a) @ '': ''
                                 @ exc_str inner_e))"
    by (simp add: action_fetch_raises)
qed

theorem C6_witness:
  "fst (action_fetch_transactions ex_env (Some 12) ex_world) =
     Inl (UserError (''Database Write Error on Main: '' @ exc_str ex_no_journal))
   \<and> fetch_loop ex_env None [ex_account 12 ''AZ02'', ex_account 13 ''AZ03''] 0 ex_world =
       fetch_loop ex_env None [ex_account 13 ''AZ03''] 0
         (log_write_failed ex_no_journal (ex_w1\<lparr>net_out := [ex_request ''AZ02'']\<rparr>))"
proof -
  have ne: "[ex_tx (PStr ''T1''), ex_tx (PStr ''T2'')] \<noteq> []" by simp
  have t: "target_given (Some 12)" "\<not> target_given None" by (simp_all add: target_given_def)
  have a: "accounts_to_process (Some 12) (mark_connected ex_world) = [ex_account 12 ''AZ02'']"
    unfolding ex_mark_connected by (simp add: accounts_to_process_def t ex_own_accounts)
  have n: "py_str ex_env (a_name (ex_account 12 ''AZ02'')) = ''Main''" by (simp add: py_str_def)
  have "fst (action_fetch_transactions ex_env (Some 12) ex_world) =
     Inl (UserError (''Database Write Error on '' @ py_str ex_env (a_name (ex_account 12 ''AZ02''))
                       @ '': '' @ exc_str ex_no_journal))"
    using C6_persist_failure_policy[OF ex_targeted(1) ne ex_targeted(2),
            where target="Some 12" and rest="[]" and wa=ex_world] t(1) a ex_mark_connected
    by blast
  moreover have "fetch_loop ex_env None [ex_account 12 ''AZ02'', ex_account 13 ''AZ03''] 0 ex_world =
       fetch_loop ex_env None [ex_account 13 ''AZ03''] 0
         (log_write_failed ex_no_journal (ex_w1\<lparr>net_out := [ex_request ''AZ02'']\<rparr>))"
    using C6_persist_failure_policy[OF ex_targeted(1) ne ex_targeted(2),
            where target=None and rest="[ex_account 13 ''AZ03'']" and n=0] t(2)
    by blast
  ultimately show ?thesis by (simp add: py_str_def)
qed

text \<open>
  C7. \<^verbatim>\<open>_fetch_odoo_fin_transactions\<close> always returns a list: whatever fails inside its
  \<^verbatim>\<open>try\<close> (token, transport, HTTP status, parsing), the result is the empty list. So
  a failed fetch for one account makes the synchronisation loop go on with the next.
\<close>

theorem C7_fetch_transactions_never_raises:
  "(\<exists>txs w'. fetch_odoo_fin_transactions e a df dt w = (Inr txs, w')
       \<and> (\<forall>err w1. fetch_transactions_try e a df dt w = (Inl err, w1) \<longrightarrow> txs = []))
   \<and> (\<forall>target rest n.
         (\<exists>err. fst (fetch_transactions_try e a (birbank_initial_sync_date (link w))
                          (Some (today e)) w) = Inl err)
       \<longrightarrow> fetch_loop e target (a # rest) n w =
           fetch_loop e target rest n (snd (retrieve_transactions e a None w)))"
proof (intro conjI allI impI)
  show "\<exists>txs w'. fetch_odoo_fin_transactions e a df dt w = (Inr txs, w')
       \<and> (\<forall>err w1. fetch_transactions_try e a df dt w = (Inl err, w1) \<longrightarrow> txs = [])"
    by (cases "fetch_transactions_try e a df dt w")
       (auto simp: fetch_odoo_fin_transactions_def split: prod.splits sum.splits)
next
  fix target rest n
  assume f: "\<exists>err. fst (fetch_transactions_try e a (birbank_initial_sync_date (link w))
                          (Some (today e)) w) = Inl err"
  have "fst (retrieve_transactions e a None w) = []"
    using f unfolding retrieve_transactions_eq
    by (subst fetch_never_raises) (auto split: sum.splits)
  then have "retrieve_transactions e a None w = ([], snd (retrieve_transactions e a None w))"
    by (metis prod.collapse)
  then show "fetch_loop e target (a # rest) n w =
           fetch_loop e target rest n (snd (retrieve_transactions e a None w))"
    by (rule fetch_loop_skip)
qed

theorem C7_witness:
  "fst (fetch_odoo_fin_transactions ex_env (ex_account 11 ''AZ01'') (Some 19900) (Some 20000) ex_down)
     = Inr []
   \<and> fetch_loop ex_env None [ex_account 11 ''AZ01''] 0 ex_down =
       fetch_loop ex_env None [] 0
         (snd (retrieve_transactions ex_env (ex_account 11 ''AZ01'') None ex_down))"
proof -
  have d: "birbank_initial_sync_date (link ex_down) = Some 19900" by (simp add: ex_down_def)
  obtain txs w' where
    r: "fetch_odoo_fin_transactions ex_env (ex_account 11 ''AZ01'') (Some 19900) (Some 20000) ex_down
         = (Inr txs, w')"
    and n: "\<forall>err w1. fetch_transactions_try ex_env (ex_account 11 ''AZ01'') (Some 19900) (Some 20000) ex_down
              = (Inl err, w1) \<longrightarrow> txs = []"
    using C7_fetch_transactions_never_raises[of ex_env "ex_account 11 ''AZ01''" "Some 19900" "Some 20000" ex_down]
    by blast
  have "txs = []"
    using n ex_down_try d
    by (cases "fetch_transactions_try ex_env (ex_account 11 ''AZ01'') (Some 19900) (Some 20000) ex_down")
       simp
  with r show ?thesis
    using C7_fetch_transactions_never_raises[of ex_env "ex_account 11 ''AZ01''" "Some 19900" "Some 20000" ex_down]
          ex_down_try
    by simp
qed

text \<open>
  C8, as amended. \<^verbatim>\<open>action_fetch_transactions\<close> either reports success or raises a
  \<^verbatim>\<open>UserError\<close>; it raises only with a target, and then the connection has the
  status \<open>Error\<close> and the message of the error as its last error message. Whenever the loop
  ends with an error, the action is the \<^verbatim>\<open>except\<close> clause applied to it; that clause
  sets the two fields for every error, raises a \<^verbatim>\<open>UserError\<close> again and answers any
  other error with the "Sync Failed" notification, which therefore the action never
  returns. Without a target the action always reports success and ends \<open>Connected\<close> with
  the last error message cleared; so it does when persisting the batch of any of its
  accounts failed on the way, and then the final log holds the entry of that failure.
  \<^verbatim>\<open>action_initialize_connection\<close> either reports success or raises
  "Connection Failed" with the last error message recorded.
\<close>

theorem C8_errors_recorded_on_connection:
  "((\<exists>n. fst (action_fetch_transactions e target w) = Inr (sync_successful n))
     \<or> (\<exists>m. fst (action_fetch_transactions e target w) = Inl (UserError m)
            \<and> target_given target
            \<and> state (link (snd (action_fetch_transactions e target w))) = Error
            \<and> last_error_message (link (snd (action_fetch_transactions e target w))) = Some m))
   \<and> (\<forall>err' w2. fetch_loop e target (accounts_to_process target (mark_connected w)) 0
                    (mark_connected w) = (Inl err', w2)
         \<longrightarrow> action_fetch_transactions e target w = fetch_failed err' w2)
   \<and> (link (snd (fetch_failed err w)) =
         (link w)\<lparr>last_error_message := Some (exc_str err), state := Error\<rparr>
      \<and> ((\<exists>m. err = UserError m \<and> fst (fetch_failed err w) = Inl err)
         \<or> (\<exists>n. fst (fetch_failed err w) = Inr n \<and> n_title n = ''Sync Failed''
                \<and> n_type n = ''danger'')))
   \<and> (\<not> target_given target \<longrightarrow>
         (\<exists>n. fst (action_fetch_transactions e target w) = Inr (sync_successful n))
         \<and> state (link (snd (action_fetch_transactions e target w))) = Connected
         \<and> last_error_message (link (snd (action_fetch_transactions e target w))) = None)
   \<and> (\<forall>pre a rest n' w' txs w1 inner_e w2.
         \<not> target_given target
         \<and> accounts_to_process target (mark_connected w) = pre @ a # rest
         \<and> fetch_loop e target pre 0 (mark_connected w) = (Inr n', w')
         \<and> retrieve_transactions e a None w' = (txs, w1) \<and> txs \<noteq> []
         \<and> custom_create_lines e a txs w1 = (Inl inner_e, w2)
       \<longrightarrow> (\<exists>n. fst (action_fetch_transactions e target w) = Inr (sync_successful n))
           \<and> LogError (''[BIRBANK] Database Write Failed: '' @ exc_str inner_e)
               \<in> set (logs (snd (action_fetch_transactions e target w)))
           \<and> state (link (snd (action_fetch_transactions e target w))) = Connected
           \<and> last_error_message (link (snd (action_fetch_transactions e target w))) = None)
   \<and> ((\<exists>n. fst (action_initialize_connection e w) = Inr n \<and> n_title n = ''Connection Successful'')
       \<or> (\<exists>m. fst (action_initialize_connection e w) = Inl (UserError (''Connection Failed: '' @ m))
              \<and> last_error_message (link (snd (action_initialize_connection e w))) = Some m))"
proof (intro conjI allI impI)
  show "(\<exists>n. fst (action_fetch_transactions e target w) = Inr (sync_successful n))
     \<or> (\<exists>m. fst (action_fetch_transactions e target w) = Inl (UserError m)
            \<and> target_given target
            \<and> state (link (snd (action_fetch_transactions e target w))) = Error
            \<and> last_error_message (link (snd (action_fetch_transactions e target w))) = Some m)"
    by (rule action_fetch_outcome)
next
  fix err' w2
  assume "fetch_loop e target (accounts_to_process target (mark_connected w)) 0
             (mark_connected w) = (Inl err', w2)"
  then show "action_fetch_transactions e target w = fetch_failed err' w2"
    by (simp add: action_fetch_transactions_def)
next
  show "link (snd (fetch_failed err w)) =
       (link w)\<lparr>last_error_message := Some (exc_str err), state := Error\<rparr>"
    by (rule fetch_failed_link)
next
  show "(\<exists>m. err = UserError m \<and> fst (fetch_failed err w) = Inl err)
       \<or> (\<exists>n. fst (fetch_failed err w) = Inr n \<and> n_title n = ''Sync Failed''
              \<and> n_type n = ''danger'')"
    by (cases err) (simp_all add: fetch_failed_def Let_def)
next
  assume u: "\<not> target_given target"
  obtain n w2 where
    r: "action_fetch_transactions e target w = (Inr (sync_successful n), mark_success e w2)"
    using action_fetch_untargeted[OF u] by blast
  show "\<exists>n. fst (action_fetch_transactions e target w) = Inr (sync_successful n)"
    using r by auto
  show "state (link (snd (action_fetch_transactions e target w))) = Connected"
    using r by (simp add: mark_success_def)
  show "last_error_message (link (snd (action_fetch_transactions e target w))) = None"
    using r by (simp add: mark_success_def)
next
  fix pre a rest n' w' txs w1 inner_e w2
  assume h: "\<not> target_given target
         \<and> accounts_to_process target (mark_connected w) = pre @ a # rest
         \<and> fetch_loop e target pre 0 (mark_connected w) = (Inr n', w')
         \<and> retrieve_transactions e a None w' = (txs, w1) \<and> txs \<noteq> []
         \<and> custom_create_lines e a txs w1 = (Inl inner_e, w2)"
  then have u: "\<not> target_given target"
    and ap: "accounts_to_process target (mark_connected w) = pre @ a # rest"
    and before: "fetch_loop e target pre 0 (mark_connected w) = (Inr n', w')"
    and got: "retrieve_transactions e a None w' = (txs, w1)" and some: "txs \<noteq> []"
    and failed: "custom_create_lines e a txs w1 = (Inl inner_e, w2)"
    by blast+
  obtain n w3 where
    r: "action_fetch_transactions e target w = (Inr (sync_successful n), mark_success e w3)"
    and lg: "LogError (''[BIRBANK] Database Write Failed: '' @ exc_str inner_e) \<in> set (logs w3)"
    using action_fetch_logged_failure[OF u ap before got some failed] by blast
  show "\<exists>n. fst (action_fetch_transactions e target w) = Inr (sync_successful n)"
    using r by auto
  show "LogError (''[BIRBANK] Database Write Failed: '' @ exc_str inner_e)
               \<in> set (logs (snd (action_fetch_transactions e target w)))"
    using r lg by (simp add: mark_success_def)
  show "state (link (snd (action_fetch_transactions e target w))) = Connected"
    using r by (simp add: mark_success_def)
  show "last_error_message (link (snd (action_fetch_transactions e target w))) = None"
    using r by (simp add: mark_success_def)
next
  let ?ok = "\<lambda>R. (\<exists>n. fst R = Inr n \<and> n_title n = ''Connection Successful'')
       \<or> (\<exists>m. fst R = Inl (UserError (''Connection Failed: '' @ m))
              \<and> last_error_message (link (snd R)) = Some m)"
  have failed: "?ok (init_failed err' w')" for err' w'
    using init_failed_eq[of err' w'] by blast
  obtain r1 w1 where t: "get_birbank_token e True w = (r1, w1)"
    by (cases "get_birbank_token e True w")
  obtain r2 w2 where f: "fetch_odoo_fin_accounts e w1 = (r2, w2)"
    by (cases "fetch_odoo_fin_accounts e w1")
  show "?ok (action_initialize_connection e w)"
  proof (cases r1)
    case (Inl err1)
    with t failed[of err1 w1] show ?thesis by (simp add: action_initialize_connection_def)
  next
    case tok: (Inr token)
    show ?thesis
    proof (cases r2)
      case (Inl err2)
      with t tok f failed[of err2 w2] show ?thesis
        by (simp add: action_initialize_connection_def)
    next
      case accs: (Inr accounts_list)
      show ?thesis
      proof (cases "existing_accounts w2")
        case (Inl err3)
        with t tok f accs failed[of err3 w2] show ?thesis
          by (simp add: action_initialize_connection_def)
      next
        case ex: (Inr ex)
        obtain r4 w3 where l: "init_loop e ex accounts_list w2 = (r4, w3)"
          by (cases "init_loop e ex accounts_list w2")
        show ?thesis
        proof (cases r4)
          case (Inl err4)
          with t tok f accs ex l failed[of err4 w3] show ?thesis
            by (simp add: action_initialize_connection_def)
        next
          case (Inr u)
          with t tok f accs ex l show ?thesis
            by (simp add: action_initialize_connection_def)
        qed
      qed
    qed
  qed
qed

theorem C8_witness:
  "action_fetch_transactions ex_env (Some 12) ex_world
     = fetch_failed (UserError (''Database Write Error on Main: '' @ exc_str ex_no_journal))
         (log_write_failed ex_no_journal (ex_w1\<lparr>net_out := [ex_request ''AZ02'']\<rparr>))
   \<and> state (link (snd (action_fetch_transactions ex_env (Some 12) ex_world))) = Error
   \<and> last_error_message (link (snd (action_fetch_transactions ex_env (Some 12) ex_world)))
       = Some (''Database Write Error on Main: '' @ exc_str ex_no_journal)
   \<and> last_error_message (link ex_stale) = Some ''Auth Error: timed out''
   \<and> LogError (''[BIRBANK] Database Write Failed: '' @ exc_str ex_no_journal)
       \<in> set (logs (snd (action_fetch_transactions ex_env None ex_stale)))
   \<and> state (link (snd (action_fetch_transactions ex_env None ex_stale))) = Connected
   \<and> last_error_message (link (snd (action_fetch_transactions ex_env None ex_stale))) = None
   \<and> last_error_message (link (snd (action_initialize_connection ex_env ex_offline)))
       = Some ''Auth Error: timed out''"
proof -
  have ne: "[ex_tx (PStr ''T1''), ex_tx (PStr ''T2'')] \<noteq> []" by simp
  have ne3: "[ex_tx (PStr ''T3'')] \<noteq> []" by simp
  have t: "target_given (Some 12)" by (simp add: target_given_def)
  have u: "\<not> target_given None" by (simp add: target_given_def)
  have a: "accounts_to_process (Some 12) ex_world = [ex_account 12 ''AZ02'']"
    by (simp add: accounts_to_process_def t ex_own_accounts)
  have l: "fetch_loop ex_env (Some 12) (accounts_to_process (Some 12) (mark_connected ex_world)) 0
             (mark_connected ex_world)
           = (Inl (UserError (''Database Write Error on Main: '' @ exc_str ex_no_journal)),
              log_write_failed ex_no_journal (ex_w1\<lparr>net_out := [ex_request ''AZ02'']\<rparr>))"
    unfolding ex_mark_connected a
    using fetch_loop_failed[OF ex_targeted(1) ne ex_targeted(2), of "Some 12" "[]" 0] t
    by (simp add: py_str_def)
  note targeted = C8_errors_recorded_on_connection[where e=ex_env and target="Some 12" and w=ex_world and err="UserError []"]
  note untargeted = C8_errors_recorded_on_connection[where e=ex_env and target=None and w=ex_stale and err="UserError []"]
  note offline = C8_errors_recorded_on_connection[where e=ex_env and target=None and w=ex_offline and err="UserError []"]
  have 1: "action_fetch_transactions ex_env (Some 12) ex_world
     = fetch_failed (UserError (''Database Write Error on Main: '' @ exc_str ex_no_journal))
         (log_write_failed ex_no_journal (ex_w1\<lparr>net_out := [ex_request ''AZ02'']\<rparr>))"
    using targeted[THEN conjunct2, THEN conjunct1] l by blast
  have f: "fst (action_fetch_transactions ex_env (Some 12) ex_world)
           = Inl (UserError (''Database Write Error on Main: '' @ exc_str ex_no_journal))"
    by (simp add: action_fetch_raises[OF l])
  have 2: "state (link (snd (action_fetch_transactions ex_env (Some 12) ex_world))) = Error
     \<and> last_error_message (link (snd (action_fetch_transactions ex_env (Some 12) ex_world)))
         = Some (''Database Write Error on Main: '' @ exc_str ex_no_journal)"
    using targeted[THEN conjunct1] f by (auto simp: sync_successful_def)
  have h: "\<not> target_given None
         \<and> accounts_to_process None (mark_connected ex_stale)
             = [ex_account 11 ''AZ01''] @ ex_account 12 ''AZ02'' # [ex_account 13 ''AZ03'']
         \<and> fetch_loop ex_env None [ex_account 11 ''AZ01''] 0 (mark_connected ex_stale)
             = (Inr 1, ex_w1'\<lparr>link := ex_stale_link\<rparr>)
         \<and> retrieve_transactions ex_env (ex_account 12 ''AZ02'') None (ex_w1'\<lparr>link := ex_stale_link\<rparr>)
             = ([ex_tx (PStr ''T3'')], ex_w2\<lparr>link := ex_stale_link\<rparr>)
         \<and> [ex_tx (PStr ''T3'')] \<noteq> []
         \<and> custom_create_lines ex_env (ex_account 12 ''AZ02'') [ex_tx (PStr ''T3'')]
               (ex_w2\<lparr>link := ex_stale_link\<rparr>)
             = (Inl ex_no_journal, ex_w2\<lparr>link := ex_stale_link\<rparr>)"
    by (intro conjI u ex_stale_accounts ex_stale_first ex_stale_step2 ne3)
  have 3: "LogError (''[BIRBANK] Database Write Failed: '' @ exc_str ex_no_journal)
       \<in> set (logs (snd (action_fetch_transactions ex_env None ex_stale)))
     \<and> state (link (snd (action_fetch_transactions ex_env None ex_stale))) = Connected
     \<and> last_error_message (link (snd (action_fetch_transactions ex_env None ex_stale))) = None"
    using untargeted[THEN conjunct2, THEN conjunct2, THEN conjunct2, THEN conjunct2,
            THEN conjunct1, rule_format, OF h]
    by blast
  have 4: "last_error_message (link (snd (action_initialize_connection ex_env ex_offline)))
       = Some ''Auth Error: timed out''"
    using offline[THEN conjunct2, THEN conjunct2, THEN conjunct2, THEN conjunct2, THEN conjunct2]
          ex_init_offline
    by auto
  have 5: "last_error_message (link ex_stale) = Some ''Auth Error: timed out''"
    by (simp add: ex_stale_def)
  from 1 2 3 4 5 show ?thesis by blast
qed

text \<open>
  The claim as stated fails twice on the sample. A connection in status \<open>Error\<close> with an
  error message is synchronised without target: persisting the batch of the second
  account fails and is logged, yet the connection ends \<open>Connected\<close> with no error message.
  And an initialization whose login gets no response raises, with the status still
  \<open>Draft\<close>.
\<close>

theorem C8_counterexample:
  "state (link ex_stale) = Error
   \<and> last_error_message (link ex_stale) = Some ''Auth Error: timed out''
   \<and> custom_create_lines ex_env (ex_account 12 ''AZ02'') [ex_tx (PStr ''T3'')]
         (ex_w2\<lparr>link := ex_stale_link\<rparr>)
       = (Inl ex_no_journal, ex_w2\<lparr>link := ex_stale_link\<rparr>)
   \<and> fst (action_fetch_transactions ex_env None ex_stale) = Inr (sync_successful 2)
   \<and> LogError (''[BIRBANK] Database Write Failed: '' @ exc_str ex_no_journal)
       \<in> set (logs (snd (action_fetch_transactions ex_env None ex_stale)))
   \<and> state (link (snd (action_fetch_transactions ex_env None ex_stale))) = Connected
   \<and> last_error_message (link (snd (action_fetch_transactions ex_env None ex_stale))) = None
   \<and> fst (action_initialize_connection ex_env ex_offline)
       = Inl (UserError ''Connection Failed: Auth Error: timed out'')
   \<and> state (link ex_offline) = Draft
   \<and> state (link (snd (action_initialize_connection ex_env ex_offline))) = Draft"
  by (simp add: ex_stale_sync ex_world_synced_def ex_init_offline ex_stale_step2)
     (simp add: ex_draft_link_def ex_offline_def ex_stale_def)

text \<open>
  C9, as amended. A synchronisation without target over three accounts, where persisting
  the second account's batch fails and the other two succeed, returns the success
  notification with the number of lines created for the first and the third account,
  keeps those lines, and does update the connection: last success is now, the error
  message is cleared, the status is \<open>Connected\<close>.
\<close>

theorem C9_partial_sync_marks_success:
  assumes untargeted: "\<not> target_given target"
    and three: "own_accounts (mark_connected w) = [a1, a2, a3]"
    and got1: "retrieve_transactions e a1 None (mark_connected w) = (txs1, w1)" "txs1 \<noteq> []"
    and ok1: "custom_create_lines e a1 txs1 w1 = (Inr new1, w1')"
    and got2: "retrieve_transactions e a2 None w1' = (txs2, w2)" "txs2 \<noteq> []"
    and failed2: "custom_create_lines e a2 txs2 w2 = (Inl inner_e, w2')"
    and got3: "retrieve_transactions e a3 None (log_write_failed inner_e w2') = (txs3, w3)"
              "txs3 \<noteq> []"
    and ok3: "custom_create_lines e a3 txs3 w3 = (Inr new3, w3')"
  shows "action_fetch_transactions e target w =
           (Inr (sync_successful (length new1 + length new3)), mark_success e w3')
       \<and> last_success_date (link (mark_success e w3')) = Some (now e)
       \<and> last_error_message (link (mark_success e w3')) = None
       \<and> state (link (mark_success e w3')) = Connected
       \<and> statement_lines (mark_success e w3') = statement_lines w @ new1 @ new3"
proof -
  have "fetch_loop e target [a1, a2, a3] 0 (mark_connected w)
        = fetch_loop e target [a2, a3] (0 + length new1) w1'"
    by (rule fetch_loop_created[OF got1 ok1])
  also have "\<dots> = fetch_loop e target [a3] (0 + length new1) (log_write_failed inner_e w2')"
    using untargeted by (simp add: fetch_loop_failed[OF got2 failed2])
  also have "\<dots> = fetch_loop e target [] (0 + length new1 + length new3) w3'"
    by (rule fetch_loop_created[OF got3 ok3])
  finally have "fetch_loop e target (accounts_to_process target (mark_connected w)) 0 (mark_connected w)
        = (Inr (length new1 + length new3), w3')"
    using untargeted three by (simp add: accounts_to_process_def fetch_loop.simps(1))
  then have r: "action_fetch_transactions e target w =
           (Inr (sync_successful (length new1 + length new3)), mark_success e w3')"
    using untargeted by (simp add: action_fetch_succeeds)
  have "statement_lines (mark_connected w) = statement_lines w"
    by (simp add: mark_connected_def)
  moreover have "statement_lines w1 = statement_lines (mark_connected w)"
    using retrieve_transactions_frame[OF got1(1)] by simp
  moreover have "statement_lines w1' = statement_lines w1 @ new1"
    using custom_create_lines_success[OF ok1] by auto
  moreover have "statement_lines w2 = statement_lines w1'"
    using retrieve_transactions_frame[OF got2(1)] by simp
  moreover have "statement_lines w2' = statement_lines w2"
    using custom_create_lines_failure[OF failed2] by simp
  moreover have "statement_lines w3 = statement_lines w2'"
    using retrieve_transactions_frame[OF got3(1)] by (simp add: log_write_failed_def)
  moreover have "statement_lines w3' = statement_lines w3 @ new3"
    using custom_create_lines_success[OF ok3] by auto
  ultimately have "statement_lines (mark_success e w3') = statement_lines w @ new1 @ new3"
    by (simp add: mark_success_def)
  with r show ?thesis by (simp add: mark_success_def)
qed

theorem C9_witness:
  "action_fetch_transactions ex_env None ex_world
     = (Inr (sync_successful (length [ex_line 10 (PStr ''T2'')] + length [ex_line 30 PNone])),
        mark_success ex_env ex_w3')
   \<and> last_success_date (link (mark_success ex_env ex_w3')) = Some (now ex_env)
   \<and> statement_lines (mark_success ex_env ex_w3')
       = statement_lines ex_world @ [ex_line 10 (PStr ''T2'')] @ [ex_line 30 PNone]"
proof -
  have u: "\<not> target_given None" by (simp add: target_given_def)
  have o: "own_accounts (mark_connected ex_world)
           = [ex_account 11 ''AZ01'', ex_account 12 ''AZ02'', ex_account 13 ''AZ03'']"
    by (simp add: ex_mark_connected ex_own_accounts)
  have g1: "retrieve_transactions ex_env (ex_account 11 ''AZ01'') None (mark_connected ex_world)
     = ([ex_tx (PStr ''T1''), ex_tx (PStr ''T2'')], ex_w1)"
    by (simp add: ex_mark_connected ex_step1)
  have n1: "[ex_tx (PStr ''T1''), ex_tx (PStr ''T2'')] \<noteq> []" by simp
  have n2: "[ex_tx (PStr ''T3'')] \<noteq> []" by simp
  have n3: "[ex_tx PNone] \<noteq> []" by simp
  show ?thesis
    using C9_partial_sync_marks_success[OF u o g1 n1 ex_step1(2) ex_step2(1) n2 ex_step2(2)
            ex_step3(1) n3 ex_step3(2)]
    by simp
qed

text \<open>
  The claim as stated fails on the sample: three accounts, no target, the second account's
  write fails, and the last-success timestamp, unset before, is the current time after.
\<close>

theorem C9_counterexample:
  "own_accounts ex_world = [ex_account 11 ''AZ01'', ex_account 12 ''AZ02'', ex_account 13 ''AZ03'']
   \<and> custom_create_lines ex_env (ex_account 12 ''AZ02'') [ex_tx (PStr ''T3'')] ex_w2
       = (Inl ex_no_journal, ex_w2)
   \<and> fst (action_fetch_transactions ex_env None ex_world) = Inr (sync_successful 2)
   \<and> last_success_date (link ex_world) = None
   \<and> last_success_date (link (snd (action_fetch_transactions ex_env None ex_world)))
       = Some (now ex_env)"
  by (simp add: ex_sync ex_own_accounts ex_step2 ex_world_synced_def)

section \<open>Initialization: the account table\<close>

lemma count_identifier_by_key:
  "count_identifier lid k accs =
     length (filter (\<lambda>t. snd (snd t) = lid \<and> fst (snd t) = k) (map account_key accs))"
  by (simp add: count_identifier_def filter_map comp_def account_key_def)

lemma count_identifier_keys:
  "map account_key accs' = map account_key accs \<Longrightarrow>
   count_identifier lid k accs' = count_identifier lid k accs"
  by (simp only: count_identifier_by_key)

lemma keyed_rows_by_key:
  "keyed_rows lid ex accs \<longleftrightarrow>
     (\<forall>(k, aid) \<in> set ex.
        aid \<in> fst ` set (map account_key accs)
        \<and> (\<forall>t \<in> set (map account_key accs). fst t = aid \<longrightarrow> t = (aid, k, lid)))"
  unfolding keyed_rows_def
  by (rule ball_cong[OF refl]) (force simp: account_key_def image_iff split: prod.splits)

lemma keyed_rows_keys:
  "map account_key accs' = map account_key accs \<Longrightarrow> keyed_rows lid ex accs \<Longrightarrow>
   keyed_rows lid ex accs'"
  by (simp only: keyed_rows_by_key)

lemma keys_of_forget_journal:
  assumes "map forget_journal accs' = map forget_journal accs"
  shows "map account_key accs' = map account_key accs"
proof -
  have "map account_key xs = map account_key (map forget_journal xs)" for xs
    by (simp add: account_key_def forget_journal_def)
  then show ?thesis using assms by metis
qed

lemma write_journal_id_forget:
  "map forget_journal (accounts (write_journal_id aid jid w)) = map forget_journal (accounts w)"
  by (simp add: write_journal_id_def forget_journal_def)

lemma write_journal_id_link: "link (write_journal_id aid jid w) = link w"
  by (simp add: write_journal_id_def)

lemma compute_linked_journal_forget:
  assumes "compute_linked_journal e a w = (r, w1)"
  shows "map forget_journal (accounts w1) = map forget_journal (accounts w)"
proof -
  have "w1 = w \<or> (\<exists>jid. w1 = write_journal_id (a_id a) jid w)"
    using assms by (auto simp: compute_linked_journal_def Let_def split: option.splits if_splits)
  then show ?thesis using write_journal_id_forget by auto
qed

lemma auto_link_forget:
  assumes "auto_link e aid identifier w = (r, w')"
  shows "map forget_journal (accounts w') = map forget_journal (accounts w) \<and> link w' = link w"
proof (cases "find (\<lambda>x. a_id x = aid) (accounts w)")
  case None
  with assms show ?thesis by (simp add: auto_link_def)
next
  case (Some online_acc)
  obtain jo w1 where c: "compute_linked_journal e online_acc w = (jo, w1)"
    by (cases "compute_linked_journal e online_acc w")
  have k1: "map forget_journal (accounts w1) = map forget_journal (accounts w)"
    by (rule compute_linked_journal_forget[OF c])
  have l1: "link w1 = link w" using compute_linked_journal_frame[OF c] by simp
  show ?thesis
  proof (cases jo)
    case (Some j)
    with \<open>find _ _ = Some online_acc\<close> c assms k1 l1 show ?thesis by (simp add: auto_link_def)
  next
    case None
    show ?thesis
    proof (cases "search_bank_journal identifier (journals w1)")
      case n: None
      with None \<open>find _ _ = Some online_acc\<close> c assms k1 l1 show ?thesis by (simp add: auto_link_def)
    next
      case s: (Some j)
      with None \<open>find _ _ = Some online_acc\<close> c assms
      have "w' = (if has_journal_id e
                     then write_journal_id aid (j_id j) (link_journal (j_id j) aid w1)
                     else link_journal (j_id j) aid w1)"
        by (simp add: auto_link_def)
      then show ?thesis using k1 l1
        by (simp add: write_journal_id_forget write_journal_id_link link_journal_def)
    qed
  qed
qed

lemma auto_link_keys:
  assumes "auto_link e aid identifier w = (r, w')"
  shows "map account_key (accounts w') = map account_key (accounts w) \<and> link w' = link w"
  using auto_link_forget[OF assms] keys_of_forget_journal by blast

lemma lookup_existing_Some:
  "lookup_existing ex k = Some aid \<Longrightarrow> (k, aid) \<in> set ex"
  unfolding lookup_existing_def by (drule map_of_SomeD) simp

lemma lookup_existing_None:
  "lookup_existing ex k = None \<longleftrightarrow> k \<notin> fst ` set ex"
  unfolding lookup_existing_def by (simp add: map_of_eq_None_iff)

lemma write_account_keys:
  assumes "keyed_rows lid ex (accounts w)" and "(d_online_identifier d, aid) \<in> set ex"
  shows "map account_key (accounts (write_account lid aid d w)) = map account_key (accounts w)"
proof -
  have "account_key (if a_id x = aid
                  then x\<lparr>a_name := PStr (d_name d), balance := PNum (d_balance d),
                         online_identifier := d_online_identifier d,
                         account_number := d_online_identifier d,
                         currency_code := d_currency_code d,
                         account_online_link_id := lid\<rparr>
                  else x) = account_key x" if "x \<in> set (accounts w)" for x
    using assms that by (auto simp: keyed_rows_def account_key_def)
  then show ?thesis by (simp add: write_account_def)
qed

lemma fold_max_start: "(m::nat) \<le> fold max ns m"
proof (induction ns arbitrary: m)
  case Nil
  then show ?case by simp
next
  case (Cons x ns)
  have "m \<le> max x m" by simp
  also have "\<dots> \<le> fold max ns (max x m)" by (rule Cons.IH)
  finally show ?case by simp
qed

lemma fold_max_member: "n \<in> set ns \<Longrightarrow> (n::nat) \<le> fold max ns m"
proof (induction ns arbitrary: m)
  case Nil
  then show ?case by simp
next
  case (Cons x ns)
  show ?case
  proof (cases "n = x")
    case True
    have "x \<le> max x m" by simp
    also have "\<dots> \<le> fold max ns (max x m)" by (rule fold_max_start)
    finally show ?thesis using True by simp
  next
    case False
    with Cons show ?thesis by simp
  qed
qed

lemma fresh_id_fresh: "a \<in> set xs \<Longrightarrow> a_id a < fresh_id xs"
proof -
  assume "a \<in> set xs"
  then have "a_id a \<in> set (map a_id xs)" by simp
  then have "a_id a \<le> fold max (map a_id xs) 0" by (rule fold_max_member)
  then show ?thesis by (simp add: fresh_id_def)
qed

lemma grown_refl: "grown lid ex w w"
  by (simp add: grown_def)

lemma grown_same_keys:
  "link w' = link w \<Longrightarrow> map account_key (accounts w') = map account_key (accounts w) \<Longrightarrow>
   grown lid ex w w'"
  by (simp add: grown_def)

lemma grown_trans:
  assumes "grown lid ex w w1" and "grown lid ex w1 w2"
  shows "grown lid ex w w2"
proof -
  let ?P = "\<lambda>t. truthy (fst (snd t)) \<and> fst (snd t) \<notin> fst ` set ex \<and> snd (snd t) = lid"
  from assms(1) obtain x1 where
    a: "link w1 = link w" "map account_key (accounts w1) = map account_key (accounts w) @ x1"
       "list_all ?P x1"
    unfolding grown_def by blast
  from assms(2) obtain x2 where
    b: "link w2 = link w1" "map account_key (accounts w2) = map account_key (accounts w1) @ x2"
       "list_all ?P x2"
    unfolding grown_def by blast
  have "map account_key (accounts w2) = map account_key (accounts w) @ (x1 @ x2)"
    using a(2) b(2) by simp
  moreover have "list_all ?P (x1 @ x2)" using a(3) b(3) by simp
  moreover have "link w2 = link w" using a(1) b(1) by simp
  ultimately show ?thesis unfolding grown_def by blast
qed

lemma keyed_rows_append_fresh:
  assumes "keyed_rows lid ex accs"
    and "map account_key accs' = map account_key accs @ [(fresh_id accs, k, l)]"
  shows "keyed_rows lid ex accs'"
  unfolding keyed_rows_by_key assms(2)
proof (intro ballI, clarify, intro conjI ballI impI)
  fix k0 aid assume p: "(k0, aid) \<in> set ex"
  with assms(1) show "aid \<in> fst ` set (map account_key accs @ [(fresh_id accs, k, l)])"
    unfolding keyed_rows_by_key by fastforce
next
  fix k0 aid t assume p: "(k0, aid) \<in> set ex"
    and t: "t \<in> set (map account_key accs @ [(fresh_id accs, k, l)])" "fst t = aid"
  from p assms(1) have old: "aid \<in> fst ` set (map account_key accs)"
    and all: "\<forall>t \<in> set (map account_key accs). fst t = aid \<longrightarrow> t = (aid, k0, lid)"
    unfolding keyed_rows_by_key by fastforce+
  from old obtain a where a: "a \<in> set accs" "a_id a = aid"
    by (auto simp: account_key_def)
  then have "aid < fresh_id accs" using fresh_id_fresh by blast
  with t have "t \<in> set (map account_key accs)" by auto
  with all t(2) show "t = (aid, k0, lid)" by blast
qed

lemma init_account_step:
  assumes inv: "keyed_rows (l_id (link w)) ex (accounts w)"
    and run: "init_account e ex d w = (r, w')"
  shows "grown (l_id (link w)) ex w w' \<and> keyed_rows (l_id (link w)) ex (accounts w')"
proof -
  let ?k = "d_online_identifier d"
  let ?lid = "l_id (link w)"
  show ?thesis
  proof (cases "truthy ?k \<and> hashable ?k")
    case False
    with run have "w' = w" by (auto simp: init_account_def Let_def split: if_splits)
    with inv show ?thesis by (simp add: grown_refl)
  next
    case True
    show ?thesis
    proof (cases "lookup_existing ex ?k")
      case (Some aid)
      let ?w1 = "write_account ?lid aid d w"
      from True Some run have a: "auto_link e aid ?k ?w1 = (r, w')"
        by (simp add: init_account_def Let_def)
      have k1: "map account_key (accounts ?w1) = map account_key (accounts w)"
        using write_account_keys[OF inv lookup_existing_Some[OF Some]] .
      have l1: "link ?w1 = link w" by (simp add: write_account_def)
      have k2: "map account_key (accounts w') = map account_key (accounts w)"
        and l2: "link w' = link w"
        using auto_link_keys[OF a] k1 l1 by simp_all
      show ?thesis
        using grown_same_keys[OF l2 k2] keyed_rows_keys[OF k2 inv] by simp
    next
      case None
      obtain aid w1 where c: "create_account ?lid d w = (aid, w1)"
        by (cases "create_account ?lid d w")
      from True None run c have a: "auto_link e aid ?k w1 = (r, w')"
        by (simp add: init_account_def Let_def)
      have k1: "map account_key (accounts w1)
                = map account_key (accounts w) @ [(fresh_id (accounts w), ?k, ?lid)]"
        and l1: "link w1 = link w"
        using c by (auto simp: create_account_def Let_def account_key_def)
      have k2: "map account_key (accounts w')
                = map account_key (accounts w) @ [(fresh_id (accounts w), ?k, ?lid)]"
        and l2: "link w' = link w"
        using auto_link_keys[OF a] k1 l1 by simp_all
      have "?k \<notin> fst ` set ex" using None by (simp add: lookup_existing_None)
      with True k2 l2 have "grown ?lid ex w w'"
        unfolding grown_def by simp
      moreover have "keyed_rows ?lid ex (accounts w')"
        by (rule keyed_rows_append_fresh[OF inv k2])
      ultimately show ?thesis by simp
    qed
  qed
qed

lemma init_loop_grows:
  assumes "keyed_rows (l_id (link w)) ex (accounts w)" and "init_loop e ex ds w = (r, w')"
  shows "grown (l_id (link w)) ex w w'"
  using assms
proof (induction ds arbitrary: w)
  case Nil
  then show ?case by (simp add: grown_refl)
next
  case (Cons d ds)
  obtain r1 w1 where s: "init_account e ex d w = (r1, w1)" by (cases "init_account e ex d w")
  note st = init_account_step[OF Cons.prems(1) s]
  then have l: "link w1 = link w" by (simp add: grown_def)
  show ?case
  proof (cases r1)
    case (Inl err)
    with s Cons.prems(2) st show ?thesis by simp
  next
    case (Inr u)
    with s Cons.prems(2) have "init_loop e ex ds w1 = (r, w')" by simp
    with Cons.IH[of w1] st l have "grown (l_id (link w)) ex w1 w'" by simp
    with st show ?thesis using grown_trans by blast
  qed
qed

lemma existing_accounts_keyed:
  assumes wf: "distinct (map a_id (accounts w))" and ex: "existing_accounts w = Inr ex"
  shows "keyed_rows (l_id (link w)) ex (accounts w)"
    and "fst ` set ex = {k. truthy k \<and> (\<exists>a \<in> set (own_accounts w). online_identifier a = k)}"
proof -
  let ?keyed = "filter (\<lambda>a. truthy (online_identifier a)) (own_accounts w)"
  have e: "ex = map (\<lambda>a. (online_identifier a, a_id a)) ?keyed"
    using ex by (auto simp: existing_accounts_def Let_def split: if_splits)
  have inj: "inj_on a_id (set (accounts w))" using wf by (simp add: distinct_map)
  show "keyed_rows (l_id (link w)) ex (accounts w)"
    unfolding keyed_rows_def
  proof (intro ballI, clarify, intro conjI ballI impI)
    fix k aid assume "(k, aid) \<in> set ex"
    then obtain a0 where a0: "a0 \<in> set (accounts w)" "account_online_link_id a0 = l_id (link w)"
      "online_identifier a0 = k" "a_id a0 = aid"
      unfolding e by (auto simp: own_accounts_def)
    then show "aid \<in> a_id ` set (accounts w)" by auto
    fix a assume "a \<in> set (accounts w)" "a_id a = aid"
    with a0 inj have "a = a0" by (auto dest: inj_onD)
    with a0 show "online_identifier a = k" "account_online_link_id a = l_id (link w)" by simp_all
  qed
  show "fst ` set ex = {k. truthy k \<and> (\<exists>a \<in> set (own_accounts w). online_identifier a = k)}"
    unfolding e by (auto simp: image_iff)
qed

lemma grown_count:
  assumes "grown lid ex w w'" and "k \<in> fst ` set ex"
  shows "count_identifier lid k (accounts w') = count_identifier lid k (accounts w)"
proof -
  from assms(1) obtain extra where
    m: "map account_key (accounts w') = map account_key (accounts w) @ extra"
    and a: "list_all (\<lambda>t. truthy (fst (snd t)) \<and> fst (snd t) \<notin> fst ` set ex \<and> snd (snd t) = lid) extra"
    unfolding grown_def by blast
  have "filter (\<lambda>t. snd (snd t) = lid \<and> fst (snd t) = k) extra = []"
    using a assms(2) by (auto simp: filter_empty_conv list_all_iff)
  then show ?thesis unfolding count_identifier_by_key m by simp
qed

lemma grown_prefix:
  assumes "grown lid ex w w'"
  shows "map a_id (take (length (accounts w)) (accounts w')) = map a_id (accounts w)"
    and "list_all (\<lambda>b. truthy (online_identifier b) \<and> online_identifier b \<notin> fst ` set ex)
           (drop (length (accounts w)) (accounts w'))"
proof -
  from assms obtain extra where
    m: "map account_key (accounts w') = map account_key (accounts w) @ extra"
    and a: "list_all (\<lambda>t. truthy (fst (snd t)) \<and> fst (snd t) \<notin> fst ` set ex \<and> snd (snd t) = lid) extra"
    unfolding grown_def by blast
  let ?n = "length (accounts w)"
  have t: "map account_key (take ?n (accounts w')) = map account_key (accounts w)"
    using arg_cong[OF m, of "take ?n"] by (simp add: take_map)
  have d: "map account_key (drop ?n (accounts w')) = extra"
    using arg_cong[OF m, of "drop ?n"] by (simp add: drop_map)
  have "map a_id xs = map fst (map account_key xs)" for xs by (simp add: account_key_def)
  with t show "map a_id (take ?n (accounts w')) = map a_id (accounts w)" by metis
  have "list_all (\<lambda>t. truthy (fst (snd t)) \<and> fst (snd t) \<notin> fst ` set ex)
          (map account_key (drop ?n (accounts w')))"
    using a unfolding d by (simp add: list_all_iff)
  then show "list_all (\<lambda>b. truthy (online_identifier b) \<and> online_identifier b \<notin> fst ` set ex)
           (drop ?n (accounts w'))"
    by (simp add: list_all_iff account_key_def)
qed

lemma init_loop_skips:
  "init_loop e ex ds w = init_loop e ex (filter (\<lambda>d. truthy (d_online_identifier d)) ds) w"
proof (induction ds arbitrary: w)
  case Nil
  then show ?case by simp
next
  case (Cons d ds)
  show ?case
  proof (cases "truthy (d_online_identifier d)")
    case True
    with Cons show ?thesis by (simp split: prod.splits sum.splits)
  next
    case False
    then have "init_account e ex d w = (Inr (), w)" by (simp add: init_account_def)
    with False Cons show ?thesis by simp
  qed
qed

lemma get_birbank_token_link_id:
  assumes "get_birbank_token e f w = (r, w')"
  shows "l_id (link w') = l_id (link w)"
proof (cases "\<not> f \<and> cached_token_valid e (link w)")
  case True
  with assms show ?thesis by (simp add: get_birbank_token_def)
next
  case False
  obtain resp w1 where s: "http_send (login_request (link w)) w = (resp, w1)"
    by (cases "http_send (login_request (link w)) w")
  note f1 = http_send_frame[OF s]
  show ?thesis
  proof (cases "login_token resp")
    case (Inr token)
    with False s assms f1 show ?thesis
      by (auto simp: get_birbank_token_def)
  next
    case (Inl err)
    obtain msg w2 where p: "parse_error err w1 = (msg, w2)" by (cases "parse_error err w1")
    note f2 = parse_error_frame[OF p]
    from False s assms Inl p have "w' = w2" by (auto simp: get_birbank_token_def)
    with f1 f2 show ?thesis by simp
  qed
qed

lemma fetch_odoo_fin_accounts_frame:
  assumes "fetch_odoo_fin_accounts e w = (r, w')"
  shows "accounts w' = accounts w \<and> l_id (link w') = l_id (link w)"
proof -
  obtain tr w1 where t: "get_birbank_token e False w = (tr, w1)"
    by (cases "get_birbank_token e False w")
  note f1 = get_birbank_token_frame[OF t] get_birbank_token_link_id[OF t]
  show ?thesis
  proof (cases tr)
    case (Inl err)
    with t assms f1 show ?thesis by (simp add: fetch_odoo_fin_accounts_def)
  next
    case (Inr token)
    let ?rq = "GetAccounts (get_birbank_base_url (link w1) @ ''/accounts'') token"
    obtain resp w2 where s: "http_send ?rq w1 = (resp, w2)" by (cases "http_send ?rq w1")
    note f2 = http_send_frame[OF s]
    show ?thesis
    proof (cases "accounts_of_response e resp")
      case ok: (Inr accs)
      with t Inr s assms f1 f2 show ?thesis by (simp add: fetch_odoo_fin_accounts_def)
    next
      case bad: (Inl err)
      let ?w3 = "w2\<lparr>logs := logs w2 @ [LogError ''Failed to fetch Birbank accounts'', LogTraceback]\<rparr>"
      obtain msg w4 where p: "parse_error err ?w3 = (msg, w4)" by (cases "parse_error err ?w3")
      note f3 = parse_error_frame[OF p]
      from t Inr s bad p assms have "w' = w4" by (simp add: fetch_odoo_fin_accounts_def)
      with f1 f2 f3 show ?thesis by simp
    qed
  qed
qed

lemma init_failed_accounts: "accounts (snd (init_failed err w)) = accounts w"
  by (simp add: init_failed_def Let_def)

lemma action_initialize_connection_count:
  assumes wf: "distinct (map a_id (accounts w))"
    and seen: "a \<in> set (own_accounts w)" "truthy (online_identifier a)"
  shows "count_identifier (l_id (link w)) (online_identifier a)
           (accounts (snd (action_initialize_connection e w)))
         = count_identifier (l_id (link w)) (online_identifier a) (accounts w)"
proof -
  obtain r1 w1 where t: "get_birbank_token e True w = (r1, w1)"
    by (cases "get_birbank_token e True w")
  obtain r2 w2 where f: "fetch_odoo_fin_accounts e w1 = (r2, w2)"
    by (cases "fetch_odoo_fin_accounts e w1")
  have a1: "accounts w1 = accounts w" using get_birbank_token_frame[OF t] by simp
  have a2: "accounts w2 = accounts w" "l_id (link w2) = l_id (link w)"
    using fetch_odoo_fin_accounts_frame[OF f] a1 get_birbank_token_link_id[OF t] by simp_all
  have own: "own_accounts w2 = own_accounts w" by (simp add: own_accounts_def a2)
  show ?thesis
  proof (cases r1)
    case (Inl err1)
    with t a1 show ?thesis
      by (simp add: action_initialize_connection_def init_failed_accounts)
  next
    case tok: (Inr token)
    show ?thesis
    proof (cases r2)
      case (Inl err2)
      with t tok f a2 show ?thesis
        by (simp add: action_initialize_connection_def init_failed_accounts)
    next
      case accs: (Inr accounts_list)
      show ?thesis
      proof (cases "existing_accounts w2")
        case (Inl err3)
        with t tok f accs a2 show ?thesis
          by (simp add: action_initialize_connection_def init_failed_accounts)
      next
        case ex: (Inr ex)
        obtain r4 w3 where l: "init_loop e ex accounts_list w2 = (r4, w3)"
          by (cases "init_loop e ex accounts_list w2")
        have wf2: "distinct (map a_id (accounts w2))" using wf a2 by simp
        have k: "online_identifier a \<in> fst ` set ex"
          using existing_accounts_keyed(2)[OF wf2 ex] seen own by auto
        have "grown (l_id (link w2)) ex w2 w3"
          by (rule init_loop_grows[OF existing_accounts_keyed(1)[OF wf2 ex] l])
        then have c: "count_identifier (l_id (link w)) (online_identifier a) (accounts w3)
                    = count_identifier (l_id (link w)) (online_identifier a) (accounts w)"
          using grown_count[OF _ k] a2 by simp
        show ?thesis
        proof (cases r4)
          case (Inl err4)
          with t tok f accs ex l c show ?thesis
            by (simp add: action_initialize_connection_def init_failed_accounts)
        next
          case (Inr u)
          with t tok f accs ex l c show ?thesis
            by (simp add: action_initialize_connection_def mark_success_def)
        qed
      qed
    qed
  qed
qed

lemma init_account_updates:
  assumes inv: "keyed_rows (l_id (link w)) ex (accounts w)"
    and k: "d_online_identifier d \<in> fst ` set ex" "truthy (d_online_identifier d)"
           "hashable (d_online_identifier d)"
  shows "map a_id (accounts (snd (init_account e ex d w))) = map a_id (accounts w)"
    and "\<exists>b \<in> set (accounts (snd (init_account e ex d w))).
           a_id b \<in> snd ` set ex \<and> online_identifier b = d_online_identifier d
           \<and> a_name b = PStr (d_name d) \<and> balance b = PNum (d_balance d)
           \<and> currency_code b = d_currency_code d"
proof -
  let ?lid = "l_id (link w)"
  obtain aid where lk: "lookup_existing ex (d_online_identifier d) = Some aid"
    using k(1) lookup_existing_None[of ex "d_online_identifier d"] by (cases "lookup_existing ex (d_online_identifier d)") auto
  let ?w1 = "write_account ?lid aid d w"
  obtain r w' where a: "auto_link e aid (d_online_identifier d) ?w1 = (r, w')"
    by (cases "auto_link e aid (d_online_identifier d) ?w1")
  have run: "init_account e ex d w = (r, w')"
    using k lk a by (simp add: init_account_def Let_def)
  have fj: "map forget_journal (accounts w') = map forget_journal (accounts ?w1)"
    using auto_link_forget[OF a] by simp
  have ids: "map a_id xs = map a_id (map forget_journal xs)" for xs
    by (simp add: forget_journal_def)
  have "map a_id (accounts w') = map a_id (accounts ?w1)" using fj ids by metis
  also have "\<dots> = map a_id (accounts w)" by (simp add: write_account_def comp_def)
  finally show "map a_id (accounts (snd (init_account e ex d w))) = map a_id (accounts w)"
    using run by simp
  have mem: "(d_online_identifier d, aid) \<in> set ex" by (rule lookup_existing_Some[OF lk])
  with inv obtain b0 where b0: "b0 \<in> set (accounts w)" "a_id b0 = aid"
    unfolding keyed_rows_def by fastforce
  define b1 where "b1 = b0\<lparr>a_name := PStr (d_name d), balance := PNum (d_balance d),
                         online_identifier := d_online_identifier d,
                         account_number := d_online_identifier d,
                         currency_code := d_currency_code d,
                         account_online_link_id := ?lid\<rparr>"
  have "b1 \<in> set (accounts ?w1)"
    using b0 unfolding write_account_def b1_def by (auto simp: image_iff intro!: bexI[of _ b0])
  then have "forget_journal b1 \<in> set (map forget_journal (accounts w'))"
    unfolding fj by simp
  then obtain b where b: "b \<in> set (accounts w')" "forget_journal b = forget_journal b1" by auto
  have f: "a_id (forget_journal x) = a_id x" "online_identifier (forget_journal x) = online_identifier x"
    "a_name (forget_journal x) = a_name x" "balance (forget_journal x) = balance x"
    "currency_code (forget_journal x) = currency_code x" for x
    by (simp_all add: forget_journal_def)
  have "a_id b = aid \<and> online_identifier b = d_online_identifier d
           \<and> a_name b = PStr (d_name d) \<and> balance b = PNum (d_balance d)
           \<and> currency_code b = d_currency_code d"
    using f[of b, unfolded b(2)] b0(2) f[of b1] by (simp add: b1_def)
  moreover have "aid \<in> snd ` set ex" using mem by force
  ultimately show "\<exists>b \<in> set (accounts (snd (init_account e ex d w))).
           a_id b \<in> snd ` set ex \<and> online_identifier b = d_online_identifier d
           \<and> a_name b = PStr (d_name d) \<and> balance b = PNum (d_balance d)
           \<and> currency_code b = d_currency_code d"
    using b(1) run by auto
qed

lemma existing_accounts_hashable:
  "existing_accounts w = Inr ex \<Longrightarrow> k \<in> fst ` set ex \<Longrightarrow> hashable k"
  by (auto simp: existing_accounts_def Let_def list_all_iff split: if_splits)

lemma existing_accounts_ids:
  "existing_accounts w = Inr ex \<Longrightarrow> snd ` set ex \<subseteq> a_id ` set (own_accounts w)"
  by (auto simp: existing_accounts_def Let_def split: if_splits)

lemma ex_accounts_parsed:
  "accounts_of_response ex_env ex_accounts_response = Inr ex_accounts_list"
  by (simp add: accounts_of_response_def ex_accounts_response_def response_json_def py_get_def
        py_iter_def account_entry_def py_float_def py_str_def ex_accounts_list_def)

lemma ex_init_fetch:
  "get_birbank_token ex_env True ex_init =
     (Inr (PStr ''abc''),
      ex_logged_in\<lparr>net_in := [ex_accounts_response], net_out := [login_request ex_draft_link]\<rparr>)"
  "fetch_odoo_fin_accounts ex_env
      (ex_logged_in\<lparr>net_in := [ex_accounts_response], net_out := [login_request ex_draft_link]\<rparr>)
     = (Inr ex_accounts_list, ex_logged_in)"
  by (simp_all add: get_birbank_token_def http_send_def ex_init_def login_token_def
        response_json_def py_get_def ex_login_ok_def ex_logged_in_def
        fetch_odoo_fin_accounts_def cached_token_valid_def ex_draft_link_def
        ex_accounts_parsed get_birbank_base_url_def)

lemma ex_existing:
  "existing_accounts ex_logged_in =
     Inr [(PStr ''AZ01'', 11), (PStr ''AZ02'', 12), (PStr ''AZ03'', 13)]"
  by (simp add: existing_accounts_def own_accounts_def ex_logged_in_def ex_draft_link_def Let_def)

lemma ex_logged_in_sel [simp]:
  "accounts ex_logged_in = [ex_account 11 ''AZ01'', ex_account 12 ''AZ02'', ex_account 13 ''AZ03'']"
  "journals ex_logged_in = [ex_journal 10 11, ex_journal 30 13]"
  "l_id (link ex_logged_in) = 7"
  by (simp_all add: ex_logged_in_def ex_draft_link_def)

lemma ex_init_loop:
  "init_loop ex_env [(PStr ''AZ01'', 11), (PStr ''AZ02'', 12), (PStr ''AZ03'', 13)]
     ex_accounts_list ex_logged_in
   = (Inr (), ex_logged_in\<lparr>accounts := ex_initialized_accounts\<rparr>)"
  by (simp add: ex_accounts_list_def init_account_def lookup_existing_def Let_def
        write_account_def create_account_def fresh_id_def auto_link_def
        compute_linked_journal_def search_journal_by_account_def search_bank_journal_def
        ex_journal_def ex_initialized_accounts_def ex_account_def)

lemma ex_init_run:
  "action_initialize_connection ex_env ex_init =
     (Inr \<lparr>n_title = ''Connection Successful'', n_message = ''Accounts fetched and linked.'',
           n_type = ''success'', n_sticky = Some False, n_reload = False\<rparr>,
      mark_success ex_env (ex_logged_in\<lparr>accounts := ex_initialized_accounts\<rparr>))"
  by (simp add: action_initialize_connection_def ex_init_fetch ex_existing ex_init_loop)

text \<open>
  C5. On a table whose ids are distinct (they are the primary key), let an account \<open>a\<close>
  of the connection carry an identifier. Then \<^verbatim>\<open>action_initialize_connection\<close>, however it ends, leaves the number
  of the connection's rows with that identifier as it was: no second record is created.
  Inside the loop, the rows that were there stay where they are, every row added carries
  an identifier that no account of the connection had, and an entry with the identifier of
  \<open>a\<close> rewrites an existing row with the entry's name, balance and currency. Entries
  without identifier are skipped: a round on such an entry returns without any change.
\<close>

theorem C5_initialization_upserts:
  assumes wf: "distinct (map a_id (accounts w))"
    and seen: "a \<in> set (own_accounts w)" "truthy (online_identifier a)"
  shows "count_identifier (l_id (link w)) (online_identifier a)
           (accounts (snd (action_initialize_connection e w)))
         = count_identifier (l_id (link w)) (online_identifier a) (accounts w)
       \<and> (\<forall>ex ds d.
            existing_accounts w = Inr ex \<longrightarrow>
              map a_id (take (length (accounts w)) (accounts (snd (init_loop e ex ds w))))
                = map a_id (accounts w)
              \<and> list_all (\<lambda>b. truthy (online_identifier b)
                              \<and> list_all (\<lambda>c. online_identifier c \<noteq> online_identifier b)
                                   (own_accounts w))
                  (drop (length (accounts w)) (accounts (snd (init_loop e ex ds w))))
              \<and> count_identifier (l_id (link w)) (online_identifier a)
                  (accounts (snd (init_loop e ex ds w)))
                = count_identifier (l_id (link w)) (online_identifier a) (accounts w)
              \<and> (d_online_identifier d = online_identifier a \<longrightarrow>
                   map a_id (accounts (snd (init_account e ex d w))) = map a_id (accounts w)
                   \<and> (\<exists>b \<in> set (accounts (snd (init_account e ex d w))).
                         a_id b \<in> a_id ` set (own_accounts w)
                         \<and> online_identifier b = online_identifier a
                         \<and> a_name b = PStr (d_name d) \<and> balance b = PNum (d_balance d)
                         \<and> currency_code b = d_currency_code d)))
       \<and> (\<forall>ex ds w0.
            init_loop e ex ds w0
              = init_loop e ex (filter (\<lambda>d. truthy (d_online_identifier d)) ds) w0)
       \<and> (\<forall>ex d w0. \<not> truthy (d_online_identifier d) \<longrightarrow> init_account e ex d w0 = (Inr (), w0))"
proof (intro conjI allI impI)
  show "count_identifier (l_id (link w)) (online_identifier a)
           (accounts (snd (action_initialize_connection e w)))
         = count_identifier (l_id (link w)) (online_identifier a) (accounts w)"
    by (rule action_initialize_connection_count[OF wf seen])
next
  fix ex ds w0
  show "init_loop e ex ds w0
              = init_loop e ex (filter (\<lambda>d. truthy (d_online_identifier d)) ds) w0"
    by (rule init_loop_skips)
next
  fix ex w0 and d :: acc_data assume "\<not> truthy (d_online_identifier d)"
  then show "init_account e ex d w0 = (Inr (), w0)" by (simp add: init_account_def)
next
  fix ex ds and d :: acc_data assume ex: "existing_accounts w = Inr ex"
  note inv = existing_accounts_keyed(1)[OF wf ex]
  note keys = existing_accounts_keyed(2)[OF wf ex]
  have k: "online_identifier a \<in> fst ` set ex" using keys seen by auto
  have g: "grown (l_id (link w)) ex w (snd (init_loop e ex ds w))"
    using init_loop_grows[OF inv, of e ds] by (cases "init_loop e ex ds w") simp
  show "map a_id (take (length (accounts w)) (accounts (snd (init_loop e ex ds w))))
                = map a_id (accounts w)"
    by (rule grown_prefix(1)[OF g])
  have "list_all (\<lambda>b. truthy (online_identifier b) \<and> online_identifier b \<notin> fst ` set ex)
           (drop (length (accounts w)) (accounts (snd (init_loop e ex ds w))))"
    by (rule grown_prefix(2)[OF g])
  then show "list_all (\<lambda>b. truthy (online_identifier b)
                              \<and> list_all (\<lambda>c. online_identifier c \<noteq> online_identifier b)
                                   (own_accounts w))
                  (drop (length (accounts w)) (accounts (snd (init_loop e ex ds w))))"
    unfolding keys list_all_iff by auto
  show "count_identifier (l_id (link w)) (online_identifier a)
                  (accounts (snd (init_loop e ex ds w)))
                = count_identifier (l_id (link w)) (online_identifier a) (accounts w)"
    by (rule grown_count[OF g k])
  assume d: "d_online_identifier d = online_identifier a"
  have kd: "d_online_identifier d \<in> fst ` set ex" "truthy (d_online_identifier d)"
    "hashable (d_online_identifier d)"
    using k seen(2) existing_accounts_hashable[OF ex k] d by simp_all
  show "map a_id (accounts (snd (init_account e ex d w))) = map a_id (accounts w)"
    by (rule init_account_updates(1)[OF inv kd])
  show "\<exists>b \<in> set (accounts (snd (init_account e ex d w))).
                         a_id b \<in> a_id ` set (own_accounts w)
                         \<and> online_identifier b = online_identifier a
                         \<and> a_name b = PStr (d_name d) \<and> balance b = PNum (d_balance d)
                         \<and> currency_code b = d_currency_code d"
  proof -
    obtain b where b: "b \<in> set (accounts (snd (init_account e ex d w)))"
      "a_id b \<in> snd ` set ex" "online_identifier b = d_online_identifier d"
      "a_name b = PStr (d_name d)" "balance b = PNum (d_balance d)"
      "currency_code b = d_currency_code d"
      using init_account_updates(2)[OF inv kd, of e] by blast
    have "a_id b \<in> a_id ` set (own_accounts w)"
      using b(2) existing_accounts_ids[OF ex] by blast
    with b d show ?thesis by (intro bexI[of _ b]) simp_all
  qed
qed

theorem C5_witness:
  "count_identifier 7 (PStr ''AZ01'') (accounts ex_init) = 1
   \<and> count_identifier 7 (PStr ''AZ01'')
        (accounts (snd (action_initialize_connection ex_env ex_init))) = 1
   \<and> map a_id (accounts (snd (action_initialize_connection ex_env ex_init))) = [11, 12, 13, 14]
   \<and> map online_identifier (accounts (snd (action_initialize_connection ex_env ex_init)))
       = [PStr ''AZ01'', PStr ''AZ02'', PStr ''AZ03'', PStr ''AZ09'']
   \<and> existing_accounts ex_logged_in
       = Inr [(PStr ''AZ01'', 11), (PStr ''AZ02'', 12), (PStr ''AZ03'', 13)]
   \<and> map a_id (take 3 (accounts (snd (init_loop ex_env
             [(PStr ''AZ01'', 11), (PStr ''AZ02'', 12), (PStr ''AZ03'', 13)]
             ex_accounts_list ex_logged_in)))) = [11, 12, 13]
   \<and> map online_identifier (drop 3 (accounts (snd (init_loop ex_env
             [(PStr ''AZ01'', 11), (PStr ''AZ02'', 12), (PStr ''AZ03'', 13)]
             ex_accounts_list ex_logged_in)))) = [PStr ''AZ09'']"
proof -
  have wf: "distinct (map a_id (accounts ex_init))" by (simp add: ex_init_def)
  have own: "ex_account 11 ''AZ01'' \<in> set (own_accounts ex_init)"
    by (simp add: own_accounts_def ex_init_def ex_draft_link_def)
  have tr: "truthy (online_identifier (ex_account 11 ''AZ01''))" by simp
  have c0: "count_identifier 7 (PStr ''AZ01'') (accounts ex_init) = 1"
    by (simp add: count_identifier_def ex_init_def)
  have l: "l_id (link ex_init) = 7" by (simp add: ex_init_def ex_draft_link_def)
  have m: "map a_id (accounts (snd (action_initialize_connection ex_env ex_init))) = [11, 12, 13, 14]"
    "map online_identifier (accounts (snd (action_initialize_connection ex_env ex_init)))
       = [PStr ''AZ01'', PStr ''AZ02'', PStr ''AZ03'', PStr ''AZ09'']"
    by (simp_all add: ex_init_run mark_success_def ex_initialized_accounts_def)
  have wf2: "distinct (map a_id (accounts ex_logged_in))" by simp
  have own2: "ex_account 11 ''AZ01'' \<in> set (own_accounts ex_logged_in)"
    by (simp add: own_accounts_def)
  have d: "map online_identifier (drop 3 (accounts (snd (init_loop ex_env
             [(PStr ''AZ01'', 11), (PStr ''AZ02'', 12), (PStr ''AZ03'', 13)]
             ex_accounts_list ex_logged_in)))) = [PStr ''AZ09'']"
    by (simp add: ex_init_loop ex_initialized_accounts_def)
  have c1: "count_identifier (l_id (link ex_init)) (online_identifier (ex_account 11 ''AZ01''))
              (accounts (snd (action_initialize_connection ex_env ex_init)))
            = count_identifier (l_id (link ex_init)) (online_identifier (ex_account 11 ''AZ01''))
              (accounts ex_init)"
    using C5_initialization_upserts[OF wf own tr, of ex_env] by blast
  have p: "map a_id (take (length (accounts ex_logged_in))
             (accounts (snd (init_loop ex_env
                [(PStr ''AZ01'', 11), (PStr ''AZ02'', 12), (PStr ''AZ03'', 13)]
                ex_accounts_list ex_logged_in))))
           = map a_id (accounts ex_logged_in)"
    using C5_initialization_upserts[OF wf2 own2 tr, of ex_env] ex_existing by blast
  have n: "length (accounts ex_logged_in) = 3" by simp
  show ?thesis
    using c1 p[unfolded n] ex_existing c0 l m d by simp
qed

end
